theory Spec2Isabelle
  imports Main "HOL-Library.Sublist" "HOL-Library.AList"
begin

section \<open>Go standard library functions used by the build engine\<close>

text \<open>
  Go strings are byte sequences; they are modelled as \<^typ>\<open>string\<close>.
  \<open>strings.HasPrefix\<close> and \<open>strings.HasSuffix\<close> are \<^const>\<open>prefix\<close> and
  \<^const>\<open>suffix\<close>. The functions below follow the documentation of the packages
  \<open>strings\<close>, \<open>path\<close> and \<open>fmt\<close>.
\<close>

text \<open>\<open>strings.Split(s, sep)\<close> for a one-byte separator: all the fields between
  the separators, \<open>[s]\<close> when \<open>s\<close> does not contain the separator.\<close>

fun strings_Split :: "string \<Rightarrow> char \<Rightarrow> string list" where
  "strings_Split [] sep = [[]]"
| "strings_Split (c # cs) sep =
     (if c = sep then [] # strings_Split cs sep
      else (case strings_Split cs sep of
              [] \<Rightarrow> [[c]]
            | f # fs \<Rightarrow> (c # f) # fs))"

text \<open>\<open>strings.Replace(s, old, new, 1)\<close> for one-byte \<open>old\<close> and \<open>new\<close>: the first
  occurrence only.\<close>

fun strings_Replace1 :: "string \<Rightarrow> char \<Rightarrow> char \<Rightarrow> string" where
  "strings_Replace1 [] old new = []"
| "strings_Replace1 (c # cs) old new =
     (if c = old then new # cs else c # strings_Replace1 cs old new)"

text \<open>\<open>strings.Join(elems, sep)\<close>.\<close>

fun strings_Join :: "string list \<Rightarrow> string \<Rightarrow> string" where
  "strings_Join [] sep = []"
| "strings_Join [x] sep = x"
| "strings_Join (x # y # ys) sep = x @ sep @ strings_Join (y # ys) sep"

text \<open>\<open>path.Clean\<close>: the path is cut at its slashes, empty and \<open>.\<close> elements are
  dropped, a \<open>..\<close> element removes the element before it (at the start it is dropped in
  a rooted path and kept in a relative one), and the empty result is \<open>.\<close>.\<close>

fun clean_step :: "bool \<Rightarrow> string list \<Rightarrow> string \<Rightarrow> string list" where
  "clean_step rooted out el =
     (if el = [] \<or> el = ''.'' then out
      else if el = ''..'' then
        (if out \<noteq> [] \<and> last out \<noteq> ''..'' then butlast out
         else if rooted then out
         else out @ [el])
      else out @ [el])"

definition path_Clean :: "string \<Rightarrow> string" where
  "path_Clean p =
     (if p = [] then ''.''
      else
        (let rooted = (hd p = CHR ''/'');
             out = foldl (clean_step rooted) [] (strings_Split p (CHR ''/''))
         in if rooted then CHR ''/'' # strings_Join out ''/''
            else if out = [] then ''.''
            else strings_Join out ''/''))"

text \<open>\<open>path.Join\<close>: empty elements are ignored, the rest is joined with slashes and
  cleaned; the result is empty when every element is.\<close>

definition path_Join :: "string list \<Rightarrow> string" where
  "path_Join elems =
     (let es = filter (\<lambda>e. e \<noteq> []) elems
      in if es = [] then [] else path_Clean (strings_Join es ''/''))"

text \<open>\<open>path.Base\<close>: trailing slashes are removed, then everything up to the last
  slash; \<open>.\<close> for the empty path and \<open>/\<close> for a path of slashes only.\<close>

definition path_Base :: "string \<Rightarrow> string" where
  "path_Base p =
     (if p = [] then ''.''
      else
        (let q = rev (dropWhile (\<lambda>c. c = CHR ''/'') (rev p));
             b = rev (takeWhile (\<lambda>c. c \<noteq> CHR ''/'') (rev q))
         in if b = [] then ''/'' else b))"

text \<open>\<open>path.Dir\<close>: the path up to its last slash, cleaned.\<close>

definition path_Dir :: "string \<Rightarrow> string" where
  "path_Dir p = path_Clean (rev (dropWhile (\<lambda>c. c \<noteq> CHR ''/'') (rev p)))"

text \<open>\<open>fmt.Sprintf("%x", b)\<close> for a byte slice: two lowercase hexadecimal digits for
  each byte.\<close>

definition hex_digit :: "nat \<Rightarrow> char" where
  "hex_digit n = ''0123456789abcdef'' ! (n mod 16)"

definition fmt_hex :: "string \<Rightarrow> string" where
  "fmt_hex bs = concat (map (\<lambda>b. [hex_digit (of_char b div 16), hex_digit (of_char b)]) bs)"

section \<open>Data model\<close>

text \<open>\<open>ispec.Descriptor\<close>; a \<open>digest.Digest\<close> is a string and its \<open>String()\<close> is
  the string itself. The zero descriptor has every field empty.\<close>

record Descriptor =
  MediaType :: string
  Digest :: string
  Size :: int

definition zero_Descriptor :: Descriptor where
  "zero_Descriptor = \<lparr>MediaType = [], Digest = [], Size = 0\<rparr>"

text \<open>\<open>ispec.Manifest\<close>; the annotations are a Go map, read with the empty string
  for a missing key.\<close>

record Manifest =
  Config :: Descriptor
  Layers :: "Descriptor list"
  Annotations :: "(string \<times> string) list"

definition annotation :: "(string \<times> string) list \<Rightarrow> string \<Rightarrow> string" where
  "annotation m k = (case map_of m k of None \<Rightarrow> [] | Some v \<Rightarrow> v)"

text \<open>The errors of the engine. \<open>External\<close> is an error handed up by a
  collaborator, \<open>Wrapped\<close> is \<open>errors.Wrapf\<close>, \<open>Panic\<close> a run-time panic.\<close>

datatype error =
    External string
  | Wrapped error string
  | Panic string
  | NotPresent string
  | UnknownLayerType string
  | UnknownFromType string
  | BadOCITag string
  | InvalidImageURL string
  | MissingBaseLayer string
  | DescriptorNotInManifest string string
  | TarFailed error string

section \<open>Aggregate hash\<close>

text \<open>
  \<open>crypto/sha256\<close>: the hasher holds the bytes written so far; \<open>Write\<close> appends and,
  by the contract of \<open>hash.Hash\<close>, never fails; \<open>Sum(nil)\<close> is the digest of what was
  written. The digest function itself is a parameter.
\<close>

definition sha256_New :: string where
  "sha256_New = []"

definition sha256_Write :: "string \<Rightarrow> string \<Rightarrow> error + string" where
  "sha256_Write h p = Inr (h @ p)"

definition sha256_Sum :: "(string \<Rightarrow> string) \<Rightarrow> string \<Rightarrow> string" where
  "sha256_Sum sha h = sha h"

text \<open>The loop of \<open>ComputeAggregateHash\<close> over \<open>manifest.Layers\<close>: the hasher and
  the flag \<open>found\<close> after the loop, or the error of \<open>Write\<close>.\<close>

fun aggregate_loop :: "Descriptor list \<Rightarrow> Descriptor \<Rightarrow> string \<Rightarrow> error + (string \<times> bool)" where
  "aggregate_loop [] descriptor h = Inr (h, False)"
| "aggregate_loop (l # ls) descriptor h =
     (case sha256_Write h (Digest l) of
        Inl err \<Rightarrow> Inl err
      | Inr h' \<Rightarrow>
          if Digest l = Digest descriptor then Inr (h', True)
          else aggregate_loop ls descriptor h')"

definition ComputeAggregateHash ::
  "(string \<Rightarrow> string) \<Rightarrow> Manifest \<Rightarrow> Descriptor \<Rightarrow> error + string" where
  "ComputeAggregateHash sha manifest descriptor =
     (case aggregate_loop (Layers manifest) descriptor sha256_New of
        Inl err \<Rightarrow> Inl err
      | Inr (h, found) \<Rightarrow>
          if \<not> found then
            Inl (DescriptorNotInManifest (Digest descriptor)
                   (annotation (Annotations manifest) ''org.opencontainers.image.ref.name''))
          else Inr (fmt_hex (sha256_Sum sha h)))"

text \<open>The specification's reading: the digests of the layers \<open>0..k\<close> fed in order.\<close>

definition fed :: "string list \<Rightarrow> string" where
  "fed ds = foldl (\<lambda>h d. h @ d) sha256_New ds"

definition lowercase_hex :: "string \<Rightarrow> bool" where
  "lowercase_hex s = list_all (\<lambda>c. c \<in> set ''0123456789abcdef'') s"

section \<open>Reference URL parser\<close>

text \<open>The fields of \<open>net/url.URL\<close> that the engine reads. \<open>url.Parse\<close> is a
  parameter of the model.\<close>

record URL =
  Path :: string
  Host :: string

text \<open>Indexing a slice at 0 panics when the slice is empty.\<close>

definition index0 :: "'a list \<Rightarrow> error + 'a" where
  "index0 xs = (case xs of [] \<Rightarrow> Inl (Panic ''index out of range'') | x # _ \<Rightarrow> Inr x)"

definition tagFromSkopeoUrl :: "(string \<Rightarrow> error + URL) \<Rightarrow> string \<Rightarrow> error + string" where
  "tagFromSkopeoUrl parse thing =
     (if prefix ''docker'' thing then
        (case parse thing of
           Inl err \<Rightarrow> Inl err
         | Inr url \<Rightarrow>
             if Path url \<noteq> [] then
               (case index0 (strings_Split (Path url) (CHR '':'')) of
                  Inl p \<Rightarrow> Inl p
                | Inr f \<Rightarrow> Inr (path_Base f))
             else index0 (strings_Split (Host url) (CHR '':'')))
      else if prefix ''oci'' thing then
        (let pieces = strings_Split thing (CHR '':'')
         in if length pieces \<noteq> 3 then Inl (BadOCITag thing)
            else Inr (pieces ! 2))
      else Inl (InvalidImageURL thing))"

text \<open>A \<open>url.Parse\<close> for the examples: it knows one registry URL and one host-only
  URL, and rejects everything else.\<close>

definition example_Parse :: "string \<Rightarrow> error + URL" where
  "example_Parse s =
     (if s = ''docker://docker.io/library/centos:latest''
      then Inr \<lparr>Path = ''/library/centos:latest'', Host = ''docker.io''\<rparr>
      else if s = ''docker://centos:5000''
      then Inr \<lparr>Path = [], Host = ''centos:5000''\<rparr>
      else Inl (External ''parse''))"

section \<open>Recipe, configuration and images\<close>

text \<open>
  The recipe is supplied by the parser. Of a layer the engine reads the fields below;
  the methods \<open>ParseTag\<close>, \<open>ParseImport\<close>, \<open>ParseRun\<close>, \<open>ParseCmd\<close>,
  \<open>ParseEntrypoint\<close> and \<open>ParseFullCommand\<close> take no argument, and the record
  holds what they return. \<open>Cmd\<close>, \<open>Entrypoint\<close> and \<open>FullCommand\<close> are \<open>None\<close>
  for \<open>nil\<close>. A Go map that is ranged over is the list of its entries in the order of
  the iteration.
\<close>

datatype from_type = BuiltType | TarType | OCIType | DockerType | ScratchType | OtherType string

record ImageSource =
  Type :: from_type
  Url :: string
  Tag :: string
  Insecure :: bool
  ParseTag :: "error + string"

record Layer =
  From :: ImageSource
  BuildOnly :: bool
  ParseImport :: "error + string list"
  ParseRun :: "error + string list"
  Environment :: "(string \<times> string) list"
  Cmd :: "(error + string list) option"
  Entrypoint :: "(error + string list) option"
  FullCommand :: "(error + string list) option"
  Volumes :: "string list"
  Labels :: "(string \<times> string) list"
  WorkingDir :: string

record Stackerfile =
  Get :: "string \<Rightarrow> Layer option"
  DependencyOrder :: "error + string list"
  AfterSubstitutions :: string

record StackerConfig =
  StackerDir :: string
  OCIDir :: string
  RootFSDir :: string

record BuildArgs =
  Config :: StackerConfig
  LeaveUnladen :: bool
  StackerFile :: string
  NoCache :: bool
  Substitute :: "string list"
  OnRunFailure :: string
  ApplyConsiderTimestamps :: bool
  LayerType :: string

text \<open>A \<open>casext.Engine\<close> is known by the directory of the layout it was opened on.
  The field \<open>Cache\<close> of \<open>BaseLayerOpts\<close> is never read by the importer and is left
  out.\<close>

type_synonym Engine = string

record BaseLayerOpts =
  Config :: StackerConfig
  Name :: string
  Target :: string
  Layer :: Layer
  OCI :: Engine
  LayerType :: string
  Debug :: bool

record CacheEntry =
  Name :: string
  Blob :: Descriptor

text \<open>\<open>casext.DescriptorPath\<close>: \<open>Root()\<close> is the first and \<open>Descriptor()\<close> the
  last step of the walk; both panic on an empty walk.\<close>

record DescriptorPath =
  Walk :: "Descriptor list"

definition Root :: "DescriptorPath \<Rightarrow> error + Descriptor" where
  "Root p = (case Walk p of [] \<Rightarrow> Inl (Panic ''invalid descriptor path'') | d # _ \<Rightarrow> Inr d)"

definition Descriptor_of :: "DescriptorPath \<Rightarrow> error + Descriptor" where
  "Descriptor_of p =
     (case Walk p of [] \<Rightarrow> Inl (Panic ''invalid descriptor path'') | d # ds \<Rightarrow> Inr (last (d # ds)))"

text \<open>\<open>ispec.Image\<close>, of which the importer writes \<open>RootFS.DiffIDs\<close> only, and
  \<open>ispec.ImageConfig\<close>, \<open>mutate.Meta\<close>, \<open>ispec.History\<close>.\<close>

record Image =
  DiffIDs :: "string list"
  ImageRest :: string

record ImageConfig =
  Env :: "string list"
  Cmd :: "string list"
  Entrypoint :: "string list"
  Volumes :: "string list option"
  Labels :: "(string \<times> string) list option"
  WorkingDir :: string

record Meta =
  Created :: int
  Author :: string
  Architecture :: string
  OS :: string

record History =
  EmptyLayer :: bool
  Created :: int
  CreatedBy :: string
  Author :: string

record ImageCopyOpts =
  Src :: string
  Dest :: string
  SkipTLS :: bool

definition MediaTypeLayerSquashfs :: string where
  "MediaTypeLayerSquashfs = ''application/vnd.oci.image.layer.squashfs''"

definition MediaTypeImageConfig :: string where
  "MediaTypeImageConfig = ''application/vnd.oci.image.config.v1+json''"

definition MediaTypeImageManifest :: string where
  "MediaTypeImageManifest = ''application/vnd.oci.image.manifest.v1+json''"

section \<open>Collaborators, the trace and the program monad\<close>

text \<open>The lines the engine prints.\<close>

datatype msg =
    Building string
  | ImportingFiles
  | FoundCached string
  | UnpackingTo string
  | RunningCommands
  | RunningCommandsFor string
  | BuildOnlySkipping
  | GeneratingLayer
  | SettingGitVersion string
  | BuiltSuccessfully string
  | FinalGCFailed error

text \<open>
  Every call the engine makes to a collaborator, with its arguments: the storage
  driver, the OCI engine of a layout, the image-config mutator, the build cache, the
  operating system, and the other functions of the repository and of its libraries.
  The storage driver, the build cache and the mutator are single handles and are not
  named in their calls.
\<close>

datatype storage_call =
    Delete string
  | Restore string string
  | Create string
  | Snapshot string string
  | Detach

datatype engine_call =
    UpdateReference string Descriptor
  | DeleteReference string
  | ResolveReference string
  | GC
  | PutBlob string
  | PutBlobJSON_Image Image
  | PutBlobJSON_Manifest Manifest
  | LookupManifest string
  | LookupConfig Descriptor
  | Close

datatype mutator_call =
    MutateNew Engine DescriptorPath
  | MutatorConfig
  | MutatorMeta
  | MutatorAnnotations
  | MutatorSet ImageConfig Meta "(string \<times> string) list" History
  | MutatorCommit

datatype cache_call =
    OpenCache StackerConfig Engine
  | CacheLookup string
  | CachePut string Descriptor

datatype os_call =
    RemoveAll string
  | Stat string
  | Abs string
  | UserCurrent
  | Hostname
  | WriteFile string string
  | ReadDir string
  | Rename string string
  | MkdirAll string
  | Readlink string
  | CombinedOutput "string list"

datatype lib_call =
    NewStackerfile string "string list"
  | NewStorage StackerConfig
  | CreateLayout string
  | OpenLayout string
  | GitVersion string
  | Import StackerConfig string "string list"
  | NewApply BaseLayerOpts bool
  | DoApply
  | Run StackerConfig string string Layer string
  | MaybeRunInUserns "string list" string
  | ImageCopy ImageCopyOpts
  | MkSquashfs StackerConfig string
  | AcquireUrl StackerConfig string string
  | WriteBundleMeta string DescriptorPath

datatype call =
    Print msg
  | Storage storage_call
  | OnEngine Engine engine_call
  | Mutator mutator_call
  | Cache cache_call
  | OS os_call
  | Lib lib_call

text \<open>What the trace keeps of a call's result.\<close>

datatype outcome = Succeeded | Failed error | Hit CacheEntry | Miss

text \<open>
  The state of a run: the trace of the calls made so far, in order, and the state of
  everything outside the engine (file systems, layouts, network), which only the
  collaborators read and change.
\<close>

record 'x world =
  trace :: "(call \<times> outcome) list"
  ext :: 'x

text \<open>
  The collaborators are parameters of the model: for each type of result, a function
  from a call and the outside state to the result and the new outside state. The
  constants of the repository that are declared outside the files at hand, and the pure
  reads of the process environment, are fields as well.
\<close>

record 'x env =
  url_Parse :: "string \<Rightarrow> error + URL"
  Getenv :: "string \<Rightarrow> string"
  GOARCH :: string
  GOOS :: string
  ReasonableDefaultPath :: string
  GitVersionAnnotation :: string
  StackerContentsAnnotation :: string
  time_Now :: "'x \<Rightarrow> int"
  do_unit :: "call \<Rightarrow> 'x \<Rightarrow> (error + unit) \<times> 'x"
  do_string :: "call \<Rightarrow> 'x \<Rightarrow> (error + string) \<times> 'x"
  do_strings :: "call \<Rightarrow> 'x \<Rightarrow> (error + string list) \<times> 'x"
  do_stackerfile :: "call \<Rightarrow> 'x \<Rightarrow> (error + Stackerfile) \<times> 'x"
  do_lookup :: "call \<Rightarrow> 'x \<Rightarrow> CacheEntry option \<times> 'x"
  do_paths :: "call \<Rightarrow> 'x \<Rightarrow> (error + DescriptorPath list) \<times> 'x"
  do_path :: "call \<Rightarrow> 'x \<Rightarrow> (error + DescriptorPath) \<times> 'x"
  do_blob :: "call \<Rightarrow> 'x \<Rightarrow> (error + string \<times> int) \<times> 'x"
  do_manifest :: "call \<Rightarrow> 'x \<Rightarrow> (error + Manifest) \<times> 'x"
  do_image :: "call \<Rightarrow> 'x \<Rightarrow> (error + Image) \<times> 'x"
  do_imageconfig :: "call \<Rightarrow> 'x \<Rightarrow> (error + ImageConfig) \<times> 'x"
  do_meta :: "call \<Rightarrow> 'x \<Rightarrow> (error + Meta) \<times> 'x"
  do_annotations :: "call \<Rightarrow> 'x \<Rightarrow> (error + (string \<times> string) list) \<times> 'x"
  do_exec :: "call \<Rightarrow> 'x \<Rightarrow> (string \<times> error option) \<times> 'x"

text \<open>
  A program takes the state and returns its result, an error or a value, with the new
  state; \<open>None\<close> is a run that does not return.
\<close>

type_synonym ('x, 'a) prog = "'x world \<Rightarrow> ((error + 'a) \<times> 'x world) option"

definition ret :: "'a \<Rightarrow> ('x, 'a) prog" where
  "ret a = (\<lambda>s. Some (Inr a, s))"

definition fail :: "error \<Rightarrow> ('x, 'a) prog" where
  "fail e = (\<lambda>s. Some (Inl e, s))"

definition lift :: "error + 'a \<Rightarrow> ('x, 'a) prog" where
  "lift r = (\<lambda>s. Some (r, s))"

definition diverge :: "('x, 'a) prog" where
  "diverge = (\<lambda>s. None)"

text \<open>Sequencing: an error ends the program, as \<open>if err != nil { return err }\<close>
  does.\<close>

definition andThen :: "('x, 'a) prog \<Rightarrow> ('a \<Rightarrow> ('x, 'b) prog) \<Rightarrow> ('x, 'b) prog" where
  "andThen m k =
     (\<lambda>s. case m s of
             None \<Rightarrow> None
           | Some (Inl e, s') \<Rightarrow> Some (Inl e, s')
           | Some (Inr a, s') \<Rightarrow> k a s')"

text \<open>A call whose error is looked at, or dropped, by the caller.\<close>

definition attempt :: "('x, 'a) prog \<Rightarrow> ('x, error + 'a) prog" where
  "attempt m = (\<lambda>s. case m s of None \<Rightarrow> None | Some (r, s') \<Rightarrow> Some (Inr r, s'))"

text \<open>\<open>defer\<close>: the clean-up runs when the body returns, whatever it returns.\<close>

definition deferred :: "('x, 'b) prog \<Rightarrow> ('x, 'a) prog \<Rightarrow> ('x, 'a) prog" where
  "deferred cleanup body =
     (\<lambda>s. case body s of
             None \<Rightarrow> None
           | Some (r, s') \<Rightarrow>
               (case cleanup s' of None \<Rightarrow> None | Some (_, s'') \<Rightarrow> Some (r, s'')))"

text \<open>\<open>errors.Wrapf\<close> on the error of a call.\<close>

definition wrapf :: "string \<Rightarrow> ('x, 'a) prog \<Rightarrow> ('x, 'a) prog" where
  "wrapf m p =
     (\<lambda>s. case p s of
             None \<Rightarrow> None
           | Some (Inl e, s') \<Rightarrow> Some (Inl (Wrapped e m), s')
           | Some (Inr a, s') \<Rightarrow> Some (Inr a, s'))"

definition record_call :: "call \<Rightarrow> outcome \<Rightarrow> 'x \<Rightarrow> 'x world \<Rightarrow> 'x world" where
  "record_call c out x s = \<lparr>trace = trace s @ [(c, out)], ext = x\<rparr>"

definition outcome_of :: "error + 'a \<Rightarrow> outcome" where
  "outcome_of r = (case r of Inl e \<Rightarrow> Failed e | Inr _ \<Rightarrow> Succeeded)"

text \<open>A call to a collaborator: the collaborator answers from the outside state, and
  the call is added to the trace.\<close>

definition perform :: "(call \<Rightarrow> 'x \<Rightarrow> (error + 'a) \<times> 'x) \<Rightarrow> call \<Rightarrow> ('x, 'a) prog" where
  "perform collaborator c =
     (\<lambda>s. case collaborator c (ext s) of
             (r, x) \<Rightarrow> Some (r, record_call c (outcome_of r) x s))"

definition say :: "msg \<Rightarrow> ('x, unit) prog" where
  "say m = (\<lambda>s. Some (Inr (), record_call (Print m) Succeeded (ext s) s))"

text \<open>\<open>buildCache.Lookup(name)\<close> returns an entry and \<open>ok\<close>; it has no error.\<close>

definition lookup :: "'x env \<Rightarrow> string \<Rightarrow> ('x, CacheEntry option) prog" where
  "lookup env name =
     (\<lambda>s. case do_lookup env (Cache (CacheLookup name)) (ext s) of
             (r, x) \<Rightarrow>
               Some (Inr r, record_call (Cache (CacheLookup name))
                              (case r of None \<Rightarrow> Miss | Some ce \<Rightarrow> Hit ce) x s))"

text \<open>\<open>exec.Command(...).CombinedOutput()\<close> returns the output and an error.\<close>

definition combinedOutput :: "'x env \<Rightarrow> string list \<Rightarrow> ('x, string \<times> error option) prog" where
  "combinedOutput env args =
     (\<lambda>s. case do_exec env (OS (CombinedOutput args)) (ext s) of
             ((output, err), x) \<Rightarrow>
               Some (Inr (output, err),
                     record_call (OS (CombinedOutput args))
                       (case err of None \<Rightarrow> Succeeded | Some e \<Rightarrow> Failed e) x s))"

definition now :: "'x env \<Rightarrow> ('x, int) prog" where
  "now env = (\<lambda>s. Some (Inr (time_Now env (ext s)), s))"

section \<open>The bundle's mtree file\<close>

text \<open>The loop of \<open>updateBundleMtree\<close> over the entries that \<open>ioutil.ReadDir\<close>
  returned (their names, in its order): it returns at the first name with the suffix.\<close>

fun updateBundleMtree_loop :: "'x env \<Rightarrow> string \<Rightarrow> string \<Rightarrow> string list \<Rightarrow> ('x, unit) prog" where
  "updateBundleMtree_loop env rootPath newName [] = ret ()"
| "updateBundleMtree_loop env rootPath newName (fi # infos) =
     (if \<not> suffix ''.mtree'' fi then updateBundleMtree_loop env rootPath newName infos
      else perform (do_unit env)
             (OS (Rename (path_Join [rootPath, fi]) (path_Join [rootPath, newName]))))"

definition updateBundleMtree :: "'x env \<Rightarrow> string \<Rightarrow> Descriptor \<Rightarrow> ('x, unit) prog" where
  "updateBundleMtree env rootPath newPath =
     (let newName = strings_Replace1 (Digest newPath) (CHR '':'') (CHR ''_'') @ ''.mtree''
      in andThen (perform (do_strings env) (OS (ReadDir rootPath)))
           (\<lambda>infos. updateBundleMtree_loop env rootPath newName infos))"

section \<open>Base-layer importer\<close>

definition layer_bases_oci :: "StackerConfig \<Rightarrow> string" where
  "layer_bases_oci config = path_Join [StackerDir config, ''layer-bases'', ''oci'']"

text \<open>The function deferred by \<open>runSkopeo\<close>: open the layer-base layout and collect
  its garbage; every error is dropped.\<close>

definition runSkopeo_deferred :: "'x env \<Rightarrow> string \<Rightarrow> ('x, unit) prog" where
  "runSkopeo_deferred env cacheDir =
     andThen (attempt (perform (do_unit env) (Lib (OpenLayout cacheDir))))
       (\<lambda>opened. case opened of
            Inl err \<Rightarrow> ret ()
          | Inr _ \<Rightarrow>
              deferred (perform (do_unit env) (OnEngine cacheDir Close))
                (andThen (attempt (perform (do_unit env) (OnEngine cacheDir GC)))
                   (\<lambda>_. ret ())))"

definition runSkopeo :: "'x env \<Rightarrow> string \<Rightarrow> BaseLayerOpts \<Rightarrow> bool \<Rightarrow> ('x, unit) prog" where
  "runSkopeo env toImport bo copyToOutput =
     (case tagFromSkopeoUrl (url_Parse env) toImport of
        Inl err \<Rightarrow> fail err
      | Inr tag \<Rightarrow>
          (let cacheDir = layer_bases_oci (BaseLayerOpts.Config bo)
           in andThen (perform (do_unit env) (OS (MkdirAll cacheDir)))
                (\<lambda>_. deferred (runSkopeo_deferred env cacheDir)
                   (andThen
                      (perform (do_unit env)
                         (Lib (ImageCopy \<lparr>Src = toImport,
                                          Dest = ''oci:'' @ cacheDir @ '':'' @ tag,
                                          SkipTLS = Insecure (From (Layer bo))\<rparr>)))
                      (\<lambda>_. if \<not> copyToOutput then ret ()
                           else if BaseLayerOpts.LayerType bo = ''tar'' then
                             perform (do_unit env)
                               (Lib (ImageCopy
                                  \<lparr>Src = ''oci:'' @ cacheDir @ '':'' @ tag,
                                   Dest = ''oci:'' @ OCIDir (BaseLayerOpts.Config bo) @ '':'' @ tag,
                                   SkipTLS = False\<rparr>))
                           else ret ())))))"

definition RunUmociSubcommand :: "'x env \<Rightarrow> StackerConfig \<Rightarrow> bool \<Rightarrow> string list \<Rightarrow> ('x, unit) prog" where
  "RunUmociSubcommand env config debug args =
     andThen (perform (do_string env) (OS (Readlink ''/proc/self/exe'')))
       (\<lambda>binary.
          (let cmd = [binary, ''--oci-dir'', OCIDir config, ''--roots-dir'', RootFSDir config,
                      ''--stacker-dir'', StackerDir config];
               cmd = (if debug then cmd @ [''--debug''] else cmd);
               cmd = cmd @ [''umoci''];
               cmd = cmd @ args
           in perform (do_unit env) (Lib (MaybeRunInUserns cmd ''image unpack failed''))))"

text \<open>The squashfs rewrite of \<open>extractOutput\<close>, the body of its last \<open>if\<close>.\<close>

definition extractOutput_squashfs :: "'x env \<Rightarrow> BaseLayerOpts \<Rightarrow> ('x, unit) prog" where
  "extractOutput_squashfs env bo =
     andThen (attempt (perform (do_unit env) (OnEngine (OCI bo) GC)))
     (\<lambda>_. andThen (perform (do_string env) (Lib (MkSquashfs (BaseLayerOpts.Config bo) [])))
     (\<lambda>tmpSquashfs. andThen (perform (do_blob env) (OnEngine (OCI bo) (PutBlob tmpSquashfs)))
     (\<lambda>(layerDigest, layerSize).
        (let cacheDir = layer_bases_oci (BaseLayerOpts.Config bo)
         in andThen (wrapf ''couldn't open base layer dir''
                       (perform (do_unit env) (Lib (OpenLayout cacheDir))))
     (\<lambda>_. deferred (perform (do_unit env) (OnEngine cacheDir Close))
        (let cacheTag = (case tagFromSkopeoUrl (url_Parse env) (Url (From (Layer bo))) of
                           Inl err \<Rightarrow> []
                         | Inr t \<Rightarrow> t)
         in andThen (perform (do_manifest env) (OnEngine cacheDir (LookupManifest cacheTag)))
     (\<lambda>manifest. andThen (perform (do_image env)
                             (OnEngine cacheDir (LookupConfig (Manifest.Config manifest))))
     (\<lambda>config.
        (let desc = \<lparr>MediaType = MediaTypeLayerSquashfs, Digest = layerDigest, Size = layerSize\<rparr>;
             manifest = manifest\<lparr>Layers := [desc]\<rparr>;
             config = config\<lparr>DiffIDs := [layerDigest]\<rparr>
         in andThen (perform (do_blob env) (OnEngine (OCI bo) (PutBlobJSON_Image config)))
     (\<lambda>(configDigest, configSize).
        (let manifest = manifest\<lparr>Manifest.Config :=
                          \<lparr>MediaType = MediaTypeImageConfig, Digest = configDigest,
                           Size = configSize\<rparr>\<rparr>
         in andThen (perform (do_blob env) (OnEngine (OCI bo) (PutBlobJSON_Manifest manifest)))
     (\<lambda>(manifestDigest, manifestSize).
        (let desc = \<lparr>MediaType = MediaTypeImageManifest, Digest = manifestDigest,
                     Size = manifestSize\<rparr>
         in andThen (perform (do_unit env)
                       (OnEngine (OCI bo) (UpdateReference (BaseLayerOpts.Name bo) desc)))
     (\<lambda>_.
        (let bundlePath = path_Join [RootFSDir (BaseLayerOpts.Config bo), ''.working'']
         in andThen (updateBundleMtree env bundlePath desc)
     (\<lambda>_. perform (do_unit env)
             (Lib (WriteBundleMeta bundlePath \<lparr>Walk = [desc]\<rparr>))))))))))))))))))"

definition extractOutput :: "'x env \<Rightarrow> BaseLayerOpts \<Rightarrow> ('x, unit) prog" where
  "extractOutput env bo =
     andThen (lift (ParseTag (From (Layer bo))))
     (\<lambda>tag.
        (let target = path_Join [RootFSDir (BaseLayerOpts.Config bo), Target bo]
         in andThen (say (UnpackingTo target))
     (\<lambda>_.
        (let modifiedConfig =
               (BaseLayerOpts.Config bo)\<lparr>OCIDir := layer_bases_oci (BaseLayerOpts.Config bo)\<rparr>
         in andThen (RunUmociSubcommand env modifiedConfig (Debug bo)
                       [''--bundle-path'', target, ''--tag'', tag, ''unpack''])
     (\<lambda>_. andThen (attempt (perform (do_unit env) (OnEngine (OCI bo) (DeleteReference tag))))
     (\<lambda>_. if BaseLayerOpts.LayerType bo = ''squashfs'' \<and> \<not> BuildOnly (Layer bo)
           then extractOutput_squashfs env bo
           else ret ()))))))"

definition getDocker :: "'x env \<Rightarrow> BaseLayerOpts \<Rightarrow> ('x, unit) prog" where
  "getDocker env bo =
     andThen (runSkopeo env (Url (From (Layer bo))) bo
                (\<not> BuildOnly (Layer bo) \<and> BaseLayerOpts.LayerType bo = ''tar''))
       (\<lambda>_. extractOutput env bo)"

definition umociInit :: "'x env \<Rightarrow> BaseLayerOpts \<Rightarrow> ('x, unit) prog" where
  "umociInit env bo =
     RunUmociSubcommand env (BaseLayerOpts.Config bo) (Debug bo)
       [''--tag'', BaseLayerOpts.Name bo,
        ''--bundle-path'', path_Join [RootFSDir (BaseLayerOpts.Config bo), ''.working''],
        ''init'']"

definition getTar :: "'x env \<Rightarrow> BaseLayerOpts \<Rightarrow> ('x, unit) prog" where
  "getTar env bo =
     (let cacheDir = path_Join [StackerDir (BaseLayerOpts.Config bo), ''layer-bases'']
      in andThen (perform (do_unit env) (OS (MkdirAll cacheDir)))
     (\<lambda>_. andThen (perform (do_string env)
                     (Lib (AcquireUrl (BaseLayerOpts.Config bo) (Url (From (Layer bo))) cacheDir)))
     (\<lambda>tar. andThen (umociInit env bo)
     (\<lambda>_.
        (let layerPath = path_Join [RootFSDir (BaseLayerOpts.Config bo), Target bo, ''rootfs'']
         in andThen (combinedOutput env [''tar'', ''xf'', tar, ''-C'', layerPath])
     (\<lambda>(output, err). case err of
          Some e \<Rightarrow> fail (TarFailed e output)
        | None \<Rightarrow> ret ()))))))"

definition getScratch :: "'x env \<Rightarrow> BaseLayerOpts \<Rightarrow> ('x, unit) prog" where
  "getScratch env bo = umociInit env bo"

definition getOCI :: "'x env \<Rightarrow> BaseLayerOpts \<Rightarrow> ('x, unit) prog" where
  "getOCI env bo =
     andThen (runSkopeo env (''oci:'' @ Url (From (Layer bo))) bo (\<not> BuildOnly (Layer bo)))
       (\<lambda>_. extractOutput env bo)"

text \<open>The loop of \<open>getBuilt\<close> walks the chain of built layers to the first one that
  is not built from another layer. Nothing bounds it: on a recipe whose chain is a
  cycle it does not return.\<close>

partial_function (option) getBuilt_walk :: "Stackerfile \<Rightarrow> string \<Rightarrow> Layer \<Rightarrow> (error + Layer) option" where
  "getBuilt_walk sf tag0 base =
     (case Get sf (Tag (From base)) of
        None \<Rightarrow> Some (Inl (MissingBaseLayer tag0))
      | Some b \<Rightarrow>
          if Type (From b) \<noteq> BuiltType then Some (Inr b)
          else getBuilt_walk sf tag0 b)"

declare getBuilt_walk.simps [code]

definition getBuilt :: "'x env \<Rightarrow> BaseLayerOpts \<Rightarrow> Stackerfile \<Rightarrow> ('x, unit) prog" where
  "getBuilt env bo sf =
     (case getBuilt_walk sf (Tag (From (Layer bo))) (Layer bo) of
        None \<Rightarrow> diverge
      | Some (Inl err) \<Rightarrow> fail err
      | Some (Inr base) \<Rightarrow>
          if (Type (From base) \<noteq> DockerType \<and> Type (From base) \<noteq> OCIType) \<or> \<not> BuildOnly base
          then ret ()
          else if \<not> BuildOnly base then ret ()
          else
            andThen (lift (ParseTag (From base)))
            (\<lambda>tag.
               (let cacheDir = layer_bases_oci (BaseLayerOpts.Config bo)
                in andThen (perform (do_unit env)
                              (Lib (ImageCopy
                                 \<lparr>Src = ''oci:'' @ cacheDir @ '':'' @ tag,
                                  Dest = ''oci:'' @ OCIDir (BaseLayerOpts.Config bo) @ '':'' @ tag,
                                  SkipTLS = False\<rparr>)))
            (\<lambda>_. perform (do_unit env) (OnEngine (OCI bo) (DeleteReference tag))))))"

definition GetBaseLayer :: "'x env \<Rightarrow> BaseLayerOpts \<Rightarrow> Stackerfile \<Rightarrow> ('x, unit) prog" where
  "GetBaseLayer env bo sf =
     andThen (attempt (perform (do_unit env)
                         (OnEngine (OCI bo) (DeleteReference (BaseLayerOpts.Name bo)))))
       (\<lambda>_. case Type (From (Layer bo)) of
              BuiltType \<Rightarrow> getBuilt env bo sf
            | TarType \<Rightarrow> getTar env bo
            | OCIType \<Rightarrow> getOCI env bo
            | DockerType \<Rightarrow> getDocker env bo
            | ScratchType \<Rightarrow> getScratch env bo
            | OtherType t \<Rightarrow> fail (UnknownFromType t))"

section \<open>Build driver\<close>

text \<open>The image-config overrides of a recipe layer: the environment with a default
  \<open>PATH\<close>, then \<open>cmd\<close>, \<open>entrypoint\<close>, \<open>fullCommand\<close>, volumes, labels and the
  working directory.\<close>

definition Build_env :: "string \<Rightarrow> Layer \<Rightarrow> string list \<Rightarrow> string list" where
  "Build_env defaultPath l env0 =
     (let (pathSet, env1) =
            foldl (\<lambda>(pathSet, e) (k, v). (pathSet \<or> k = ''PATH'', e @ [k @ ''='' @ v]))
              (False, env0) (Environment l);
          pathSet = (if \<not> pathSet then list_ex (\<lambda>s. prefix ''PATH='' s) env1 else pathSet)
      in if \<not> pathSet then env1 @ [''PATH='' @ defaultPath] else env1)"

definition Build_imageConfig :: "string \<Rightarrow> Layer \<Rightarrow> ImageConfig \<Rightarrow> error + ImageConfig" where
  "Build_imageConfig defaultPath l imageConfig =
     (let imageConfig = imageConfig\<lparr>Env := Build_env defaultPath l (Env imageConfig)\<rparr>
      in case (case Layer.Cmd l of
                 None \<Rightarrow> Inr imageConfig
               | Some (Inl err) \<Rightarrow> Inl err
               | Some (Inr c) \<Rightarrow> Inr (imageConfig\<lparr>ImageConfig.Cmd := c\<rparr>)) of
           Inl err \<Rightarrow> Inl err
         | Inr imageConfig \<Rightarrow>
      (case (case Layer.Entrypoint l of
               None \<Rightarrow> Inr imageConfig
             | Some (Inl err) \<Rightarrow> Inl err
             | Some (Inr e) \<Rightarrow> Inr (imageConfig\<lparr>ImageConfig.Entrypoint := e\<rparr>)) of
           Inl err \<Rightarrow> Inl err
         | Inr imageConfig \<Rightarrow>
      (case (case FullCommand l of
               None \<Rightarrow> Inr imageConfig
             | Some (Inl err) \<Rightarrow> Inl err
             | Some (Inr e) \<Rightarrow>
                 Inr (imageConfig\<lparr>ImageConfig.Cmd := [], ImageConfig.Entrypoint := e\<rparr>)) of
           Inl err \<Rightarrow> Inl err
         | Inr imageConfig \<Rightarrow>
      (let volumes = (case ImageConfig.Volumes imageConfig of None \<Rightarrow> [] | Some vs \<Rightarrow> vs);
           volumes = foldl (\<lambda>vs v. List.insert v vs) volumes (Layer.Volumes l);
           labels = (case ImageConfig.Labels imageConfig of None \<Rightarrow> [] | Some ls \<Rightarrow> ls);
           labels = foldl (\<lambda>ls (k, v). AList.update k v ls) labels (Layer.Labels l);
           imageConfig = imageConfig\<lparr>ImageConfig.Volumes := Some volumes,
                                       ImageConfig.Labels := Some labels\<rparr>
       in Inr (if Layer.WorkingDir l \<noteq> []
               then imageConfig\<lparr>ImageConfig.WorkingDir := Layer.WorkingDir l\<rparr>
               else imageConfig)))))"

text \<open>A cache hit (the body of \<open>if ok\<close>).\<close>

definition Build_cached :: "'x env \<Rightarrow> Engine \<Rightarrow> Layer \<Rightarrow> string \<Rightarrow> CacheEntry \<Rightarrow> ('x, unit) prog" where
  "Build_cached env oci l name cacheEntry =
     andThen (if BuildOnly l then
                (if CacheEntry.Name cacheEntry \<noteq> name
                 then perform (do_unit env) (Storage (Snapshot (CacheEntry.Name cacheEntry) name))
                 else ret ())
              else perform (do_unit env) (OnEngine oci (UpdateReference name (Blob cacheEntry))))
       (\<lambda>_. say (FoundCached name))"

text \<open>The run script (the body of \<open>if len(run) != 0\<close>).\<close>

definition Build_run :: "'x env \<Rightarrow> BuildArgs \<Rightarrow> Layer \<Rightarrow> string \<Rightarrow> string list \<Rightarrow> ('x, unit) prog" where
  "Build_run env opts l name run =
     (let importsDir = path_Join [StackerDir (BuildArgs.Config opts), ''imports'', name];
          script = ''#!/bin/bash -xe'' @ [CHR 10] @ strings_Join run [CHR 10]
      in andThen (perform (do_unit env) (OS (WriteFile (path_Join [importsDir, ''.stacker-run.sh'']) script)))
     (\<lambda>_. andThen (say (RunningCommandsFor name))
     (\<lambda>_. perform (do_unit env) (Lib (Run (BuildArgs.Config opts) name ''/stacker/.stacker-run.sh'' l (OnRunFailure opts))))))"

text \<open>A build-only layer (the body of \<open>if l.BuildOnly\<close>).\<close>

definition Build_buildOnly :: "'x env \<Rightarrow> string \<Rightarrow> ('x, unit) prog" where
  "Build_buildOnly env name =
     andThen (attempt (perform (do_unit env) (Storage (Delete name))))
     (\<lambda>_. andThen (perform (do_unit env) (Storage (Snapshot ''.working'' name)))
     (\<lambda>_. andThen (say BuildOnlySkipping)
     (\<lambda>_. perform (do_unit env) (Cache (CachePut name zero_Descriptor)))))"

text \<open>Layer generation (the \<open>switch opts.LayerType\<close>).\<close>

definition Build_generate :: "'x env \<Rightarrow> BuildArgs \<Rightarrow> string \<Rightarrow> ('x, unit) prog" where
  "Build_generate env opts name =
     andThen (say GeneratingLayer)
     (\<lambda>_. if BuildArgs.LayerType opts = ''tar'' then
             perform (do_unit env)
               (Lib (MaybeRunInUserns
                  [''umoci'', ''repack'', ''--refresh-bundle'', ''--image'',
                   OCIDir (BuildArgs.Config opts) @ '':'' @ name,
                   path_Join [RootFSDir (BuildArgs.Config opts), ''.working'']]
                  ''layer generation failed''))
           else fail (UnknownLayerType (BuildArgs.LayerType opts)))"

text \<open>The image config, the metadata and the annotations are set and committed, and
  the reference of the layer is moved to the commit.\<close>

definition Build_commit ::
  "'x env \<Rightarrow> Stackerfile \<Rightarrow> Layer \<Rightarrow> Engine \<Rightarrow> string \<Rightarrow> string \<Rightarrow> string \<Rightarrow> ('x, DescriptorPath) prog" where
  "Build_commit env sf l oci author gitVersion name =
     andThen (perform (do_paths env) (OnEngine oci (ResolveReference name)))
     (\<lambda>descPaths. andThen (lift (index0 descPaths))
     (\<lambda>descPath0. andThen (wrapf ''mutator failed'' (perform (do_unit env) (Mutator (MutateNew oci descPath0))))
     (\<lambda>_. andThen (perform (do_imageconfig env) (Mutator MutatorConfig))
     (\<lambda>imageConfig. andThen (lift (Build_imageConfig (ReasonableDefaultPath env) l imageConfig))
     (\<lambda>imageConfig. andThen (perform (do_meta env) (Mutator MutatorMeta))
     (\<lambda>meta. andThen (now env)
     (\<lambda>created. (let meta = meta\<lparr>Meta.Created := created, Architecture := GOARCH env,
                      OS := GOOS env, Meta.Author := author\<rparr>
      in andThen (perform (do_annotations env) (Mutator MutatorAnnotations))
     (\<lambda>annotations. andThen (if gitVersion \<noteq> [] then
                andThen (say (SettingGitVersion gitVersion))
                  (\<lambda>_. ret (AList.update (GitVersionAnnotation env) gitVersion annotations))
              else ret (AList.update (StackerContentsAnnotation env) (AfterSubstitutions sf)
                          annotations))
     (\<lambda>annotations. (let history = \<lparr>EmptyLayer = True, History.Created = Meta.Created meta,
                     CreatedBy = ''stacker build'', History.Author = author\<rparr>
      in andThen (perform (do_unit env) (Mutator (MutatorSet imageConfig meta annotations history)))
     (\<lambda>_. andThen (perform (do_path env) (Mutator MutatorCommit))
     (\<lambda>newPath. andThen (lift (Root newPath))
     (\<lambda>root. andThen (perform (do_unit env) (OnEngine oci (UpdateReference name root)))
     (\<lambda>_. ret newPath)))))))))))))))"

text \<open>The bundle is told of its new layer, the snapshot of the layer is replaced and
  the cache entry is recorded.\<close>

definition Build_finish ::
  "'x env \<Rightarrow> BuildArgs \<Rightarrow> Engine \<Rightarrow> string \<Rightarrow> DescriptorPath \<Rightarrow> ('x, unit) prog" where
  "Build_finish env opts oci name newPath =
     (let bundlePath = path_Join [RootFSDir (BuildArgs.Config opts), ''.working'']
      in andThen (lift (Descriptor_of newPath))
     (\<lambda>d. andThen (updateBundleMtree env bundlePath d)
     (\<lambda>_. andThen (perform (do_unit env) (Lib (WriteBundleMeta bundlePath newPath)))
     (\<lambda>_. andThen (attempt (perform (do_unit env) (Storage (Delete name))))
     (\<lambda>_. andThen (perform (do_unit env) (Storage (Snapshot ''.working'' name)))
     (\<lambda>_. andThen (say (BuiltSuccessfully name))
     (\<lambda>_. andThen (perform (do_paths env) (OnEngine oci (ResolveReference name)))
     (\<lambda>descPaths. andThen (lift (index0 descPaths))
     (\<lambda>descPath0. andThen (lift (Descriptor_of descPath0))
     (\<lambda>d. perform (do_unit env) (Cache (CachePut name d))))))))))))"

text \<open>A cache miss: the rest of the loop body after the \<open>if ok\<close>.\<close>

definition Build_miss ::
  "'x env \<Rightarrow> BuildArgs \<Rightarrow> Stackerfile \<Rightarrow> Layer \<Rightarrow> Engine \<Rightarrow> string \<Rightarrow> string \<Rightarrow> string \<Rightarrow> ('x, unit) prog" where
  "Build_miss env opts sf l oci author gitVersion name =
     (let os = \<lparr>BaseLayerOpts.Config = BuildArgs.Config opts, BaseLayerOpts.Name = name,
                Target = ''.working'', Layer = l, OCI = oci,
                BaseLayerOpts.LayerType = [], Debug = False\<rparr>
      in andThen (attempt (perform (do_unit env) (Storage (Delete ''.working''))))
     (\<lambda>_. andThen (if Type (From l) = BuiltType
              then perform (do_unit env) (Storage (Restore (Tag (From l)) ''.working''))
              else perform (do_unit env) (Storage (Create ''.working'')))
     (\<lambda>_. andThen (GetBaseLayer env os sf)
     (\<lambda>_. andThen (perform (do_unit env) (Lib (NewApply os (ApplyConsiderTimestamps opts))))
     (\<lambda>_. andThen (perform (do_unit env) (Lib DoApply))
     (\<lambda>_. andThen (say RunningCommands)
     (\<lambda>_. andThen (lift (ParseRun l))
     (\<lambda>run. andThen (if length run \<noteq> 0 then Build_run env opts l name run else ret ())
     (\<lambda>_. if BuildOnly l then Build_buildOnly env name
           else andThen (Build_generate env opts name)
                  (\<lambda>_. andThen (Build_commit env sf l oci author gitVersion name)
                  (\<lambda>newPath. Build_finish env opts oci name newPath)))))))))))"

text \<open>One iteration of the loop over the dependency order.\<close>

definition Build_layer ::
  "'x env \<Rightarrow> BuildArgs \<Rightarrow> Stackerfile \<Rightarrow> Engine \<Rightarrow> string \<Rightarrow> string \<Rightarrow> string \<Rightarrow> ('x, unit) prog" where
  "Build_layer env opts sf oci author gitVersion name =
     (case Get sf name of
        None \<Rightarrow> fail (NotPresent name)
      | Some l \<Rightarrow>
          andThen (say (Building name))
          (\<lambda>_. andThen (say ImportingFiles)
          (\<lambda>_. andThen (lift (ParseImport l))
          (\<lambda>imports. andThen (perform (do_unit env)
                                  (Lib (Import (BuildArgs.Config opts) name imports)))
          (\<lambda>_. andThen (lookup env name)
          (\<lambda>found. case found of
               Some cacheEntry \<Rightarrow> Build_cached env oci l name cacheEntry
             | None \<Rightarrow> Build_miss env opts sf l oci author gitVersion name))))))"

fun Build_layers ::
  "'x env \<Rightarrow> BuildArgs \<Rightarrow> Stackerfile \<Rightarrow> Engine \<Rightarrow> string \<Rightarrow> string \<Rightarrow> string list \<Rightarrow> ('x, unit) prog" where
  "Build_layers env opts sf oci author gitVersion [] = ret ()"
| "Build_layers env opts sf oci author gitVersion (name # order) =
     andThen (Build_layer env opts sf oci author gitVersion name)
       (\<lambda>_. Build_layers env opts sf oci author gitVersion order)"

text \<open>The final garbage collection of the output layout and the return of
  \<open>Build\<close>.\<close>

definition Build_final :: "'x env \<Rightarrow> Engine \<Rightarrow> ('x, unit) prog" where
  "Build_final env oci =
     andThen (attempt (perform (do_unit env) (OnEngine oci GC)))
       (\<lambda>err. case err of
            Inl e \<Rightarrow> andThen (say (FinalGCFailed e)) (\<lambda>_. fail e)
          | Inr _ \<Rightarrow> ret ())"

text \<open>\<open>Build\<close> after the output layout is open: the cache, the author, the loop
  and the final collection.\<close>

definition Build_main ::
  "'x env \<Rightarrow> BuildArgs \<Rightarrow> Stackerfile \<Rightarrow> string list \<Rightarrow> Engine \<Rightarrow> ('x, unit) prog" where
  "Build_main env opts sf order oci =
     andThen (perform (do_unit env) (Cache (OpenCache (BuildArgs.Config opts) oci)))
     (\<lambda>_. andThen (perform (do_string env) (OS (Abs (path_Dir (StackerFile opts)))))
     (\<lambda>dir. andThen (attempt (perform (do_string env) (Lib (GitVersion dir))))
     (\<lambda>gv. (let gitVersion = (case gv of Inl err \<Rightarrow> [] | Inr v \<Rightarrow> v);
          username = Getenv env ''SUDO_USER''
      in andThen (if username = [] then perform (do_string env) (OS UserCurrent) else ret username)
     (\<lambda>username. andThen (perform (do_string env) (OS Hostname))
     (\<lambda>host. (let author = username @ ''@'' @ host
      in andThen (attempt (perform (do_unit env) (Storage (Delete ''.working''))))
     (\<lambda>_. andThen (Build_layers env opts sf oci author gitVersion order)
     (\<lambda>_. Build_final env oci)))))))))"

definition Build :: "'x env \<Rightarrow> BuildArgs \<Rightarrow> ('x, unit) prog" where
  "Build env opts =
     andThen (if NoCache opts
              then andThen (attempt (perform (do_unit env)
                                       (OS (RemoveAll (StackerDir (BuildArgs.Config opts))))))
                     (\<lambda>_. ret ())
              else ret ())
     (\<lambda>_. andThen (perform (do_stackerfile env)
                     (Lib (NewStackerfile (StackerFile opts) (Substitute opts))))
     (\<lambda>sf. andThen (perform (do_unit env) (Lib (NewStorage (BuildArgs.Config opts))))
     (\<lambda>_. deferred (if \<not> LeaveUnladen opts
                    then andThen (attempt (perform (do_unit env) (Storage Detach))) (\<lambda>_. ret ())
                    else ret ())
            (andThen (lift (DependencyOrder sf))
            (\<lambda>order. andThen (attempt (perform (do_unit env)
                                         (OS (Stat (OCIDir (BuildArgs.Config opts))))))
            (\<lambda>statErr. andThen (case statErr of
                                   Inl err \<Rightarrow>
                                     perform (do_unit env)
                                       (Lib (CreateLayout (OCIDir (BuildArgs.Config opts))))
                                 | Inr _ \<Rightarrow>
                                     perform (do_unit env)
                                       (Lib (OpenLayout (OCIDir (BuildArgs.Config opts)))))
            (\<lambda>_. (let oci = OCIDir (BuildArgs.Config opts)
                  in deferred (perform (do_unit env) (OnEngine oci Close))
                       (Build_main env opts sf order oci)))))))))"

text \<open>The steps of \<open>Build\<close> before the loop over the layers, from the removal of the
  stacker directory to the first \<open>s.Delete(".working")\<close>, with the recipe, the order,
  the author and the git version that the loop reads. The two calls deferred on the way
  run when \<open>Build\<close> returns and are not among these steps.\<close>

definition Build_prepare ::
  "'x env \<Rightarrow> BuildArgs \<Rightarrow> ('x, Stackerfile \<times> string list \<times> string \<times> string) prog" where
  "Build_prepare env opts =
     andThen (if NoCache opts
              then andThen (attempt (perform (do_unit env)
                                       (OS (RemoveAll (StackerDir (BuildArgs.Config opts))))))
                     (\<lambda>_. ret ())
              else ret ())
     (\<lambda>_. andThen (perform (do_stackerfile env)
                     (Lib (NewStackerfile (StackerFile opts) (Substitute opts))))
     (\<lambda>sf. andThen (perform (do_unit env) (Lib (NewStorage (BuildArgs.Config opts))))
     (\<lambda>_. andThen (lift (DependencyOrder sf))
     (\<lambda>order. andThen (attempt (perform (do_unit env)
                                  (OS (Stat (OCIDir (BuildArgs.Config opts))))))
     (\<lambda>statErr. andThen (case statErr of
                            Inl err \<Rightarrow>
                              perform (do_unit env)
                                (Lib (CreateLayout (OCIDir (BuildArgs.Config opts))))
                          | Inr _ \<Rightarrow>
                              perform (do_unit env)
                                (Lib (OpenLayout (OCIDir (BuildArgs.Config opts)))))
     (\<lambda>_. (let oci = OCIDir (BuildArgs.Config opts)
      in andThen (perform (do_unit env) (Cache (OpenCache (BuildArgs.Config opts) oci)))
     (\<lambda>_. andThen (perform (do_string env) (OS (Abs (path_Dir (StackerFile opts)))))
     (\<lambda>dir. andThen (attempt (perform (do_string env) (Lib (GitVersion dir))))
     (\<lambda>gv. (let gitVersion = (case gv of Inl err \<Rightarrow> [] | Inr v \<Rightarrow> v);
          username = Getenv env ''SUDO_USER''
      in andThen (if username = [] then perform (do_string env) (OS UserCurrent) else ret username)
     (\<lambda>username. andThen (perform (do_string env) (OS Hostname))
     (\<lambda>host. (let author = username @ ''@'' @ host
      in andThen (attempt (perform (do_unit env) (Storage (Delete ''.working''))))
     (\<lambda>_. ret (sf, order, author, gitVersion))))))))))))))))"

section \<open>Events of a run\<close>

text \<open>The events a run added to the trace, and the programs all of whose events
  satisfy a predicate.\<close>

definition events :: "'x world \<Rightarrow> 'x world \<Rightarrow> (call \<times> outcome) list" where
  "events s s' = drop (length (trace s)) (trace s')"

definition emits :: "(call \<times> outcome \<Rightarrow> bool) \<Rightarrow> ('x, 'a) prog \<Rightarrow> bool" where
  "emits P m \<longleftrightarrow>
     (\<forall>s r s'. m s = Some (r, s') \<longrightarrow> (\<exists>t. trace s' = trace s @ t \<and> list_all P t))"

named_theorems emits_intros

text \<open>\<open>traces T m\<close>: whenever \<open>m\<close> returns, its result and the events it added
  satisfy \<open>T\<close>. \<open>returns m\<close>: \<open>m\<close> returns from every state.\<close>

definition traces :: "(error + 'a \<Rightarrow> (call \<times> outcome) list \<Rightarrow> bool) \<Rightarrow> ('x, 'a) prog \<Rightarrow> bool" where
  "traces T m \<longleftrightarrow>
     (\<forall>s r s'. m s = Some (r, s') \<longrightarrow> (\<exists>t. trace s' = trace s @ t \<and> T r t))"

definition returns :: "('x, 'a) prog \<Rightarrow> bool" where
  "returns m \<longleftrightarrow> (\<forall>s. m s \<noteq> None)"

named_theorems returns_intros

section \<open>Readings of the specification\<close>

text \<open>The calls of a rebuild: the preparation of the working rootfs, the base import,
  the overlay, the run of the commands, the generation and the commit of the layer.\<close>

definition rebuilding :: "call \<Rightarrow> bool" where
  "rebuilding c =
     (case c of
        Storage (Delete n) \<Rightarrow> True
      | Storage (Create n) \<Rightarrow> True
      | Storage (Restore a b) \<Rightarrow> True
      | OnEngine e (DeleteReference n) \<Rightarrow> True
      | OnEngine e (PutBlob b) \<Rightarrow> True
      | Lib (ImageCopy x) \<Rightarrow> True
      | Lib (MaybeRunInUserns args m) \<Rightarrow> True
      | Lib (AcquireUrl a b d) \<Rightarrow> True
      | Lib (MkSquashfs a b) \<Rightarrow> True
      | Lib (NewApply a b) \<Rightarrow> True
      | Lib DoApply \<Rightarrow> True
      | Lib (Run a b d e f) \<Rightarrow> True
      | OS (WriteFile a b) \<Rightarrow> True
      | OS (CombinedOutput a) \<Rightarrow> True
      | Mutator m \<Rightarrow> True
      | _ \<Rightarrow> False)"

definition not_hit :: "call \<times> outcome \<Rightarrow> bool" where
  "not_hit ev = (case snd ev of Hit ce \<Rightarrow> False | _ \<Rightarrow> True)"

definition is_Rename :: "call \<times> outcome \<Rightarrow> bool" where
  "is_Rename ev = (case fst ev of OS (Rename a b) \<Rightarrow> True | _ \<Rightarrow> False)"

section \<open>Example recipes and collaborators\<close>

text \<open>A recipe with a registry layer \<open>a\<close>, a build-only scratch layer \<open>b\<close>, a scratch
  layer \<open>c\<close>, a layer \<open>bad\<close> with a malformed OCI URL and a layer \<open>o\<close> from a
  local OCI layout; and
  collaborators that always succeed, over an outside state without content.\<close>

definition example_layer :: Layer where
  "example_layer =
     \<lparr>From = \<lparr>Type = DockerType, Url = ''docker://docker.io/library/centos:latest'', Tag = [],
               Insecure = False, ParseTag = Inr ''centos''\<rparr>,
      BuildOnly = False, ParseImport = Inr [], ParseRun = Inr [],
      Environment = [], Layer.Cmd = None, Layer.Entrypoint = None, FullCommand = None,
      Layer.Volumes = [], Layer.Labels = [], Layer.WorkingDir = []\<rparr>"

definition example_buildonly :: Layer where
  "example_buildonly =
     example_layer\<lparr>From := \<lparr>Type = ScratchType, Url = [], Tag = [], Insecure = False,
                               ParseTag = Inr []\<rparr>,
                    BuildOnly := True\<rparr>"

definition example_bad :: Layer where
  "example_bad =
     example_layer\<lparr>From := \<lparr>Type = DockerType, Url = ''oci:foo:bar:baz:quux'', Tag = [],
                               Insecure = False, ParseTag = Inr ''quux''\<rparr>\<rparr>"

definition example_oci :: Layer where
  "example_oci =
     example_layer\<lparr>From := \<lparr>Type = OCIType, Url = ''/tmp/oci:centos'', Tag = [],
                               Insecure = False, ParseTag = Inr ''centos''\<rparr>\<rparr>"

definition example_scratch :: Layer where
  "example_scratch =
     example_layer\<lparr>From := \<lparr>Type = ScratchType, Url = [], Tag = [], Insecure = False,
                               ParseTag = Inr []\<rparr>\<rparr>"

definition example_sf :: "string list \<Rightarrow> Stackerfile" where
  "example_sf order =
     \<lparr>Get = (\<lambda>n. if n = ''a'' then Some example_layer
                  else if n = ''b'' then Some example_buildonly
                  else if n = ''bad'' then Some example_bad
                  else if n = ''o'' then Some example_oci
                  else if n = ''c'' then Some example_scratch
                  else None),
      DependencyOrder = Inr order, AfterSubstitutions = ''recipe''\<rparr>"

definition example_desc :: Descriptor where
  "example_desc = \<lparr>MediaType = MediaTypeImageManifest, Digest = ''sha256:00'', Size = 2\<rparr>"

definition example_env :: "string list \<Rightarrow> unit env" where
  "example_env order =
     \<lparr>url_Parse = example_Parse,
      Getenv = (\<lambda>v. if v = ''SUDO_USER'' then ''me'' else []),
      GOARCH = ''amd64'', GOOS = ''linux'', ReasonableDefaultPath = ''/usr/bin:/bin'',
      GitVersionAnnotation = ''git_version'', StackerContentsAnnotation = ''stacker_yaml'',
      time_Now = (\<lambda>x. 0),
      do_unit = (\<lambda>c x. (Inr (), x)),
      do_string = (\<lambda>c x. (Inr ''host'', x)),
      do_strings = (\<lambda>c x. (Inr [''rootfs'', ''sha256_11.mtree'', ''umoci.json'', ''z.mtree''], x)),
      do_stackerfile = (\<lambda>c x. (Inr (example_sf order), x)),
      do_lookup = (\<lambda>c x. (None, x)),
      do_paths = (\<lambda>c x. (Inr [\<lparr>Walk = [example_desc]\<rparr>], x)),
      do_path = (\<lambda>c x. (Inr \<lparr>Walk = [example_desc]\<rparr>, x)),
      do_blob = (\<lambda>c x. (Inr (''sha256:22'', 3), x)),
      do_manifest = (\<lambda>c x. (Inr \<lparr>Manifest.Config = example_desc,
                                     Layers = [example_desc, example_desc],
                                     Annotations = []\<rparr>, x)),
      do_image = (\<lambda>c x. (Inr \<lparr>DiffIDs = [''sha256:33'', ''sha256:44''], ImageRest = []\<rparr>, x)),
      do_imageconfig = (\<lambda>c x. (Inr \<lparr>Env = [], ImageConfig.Cmd = [], ImageConfig.Entrypoint = [],
                                        ImageConfig.Volumes = None, ImageConfig.Labels = None,
                                        ImageConfig.WorkingDir = []\<rparr>, x)),
      do_meta = (\<lambda>c x. (Inr \<lparr>Meta.Created = 0, Meta.Author = [], Architecture = [], OS = []\<rparr>, x)),
      do_annotations = (\<lambda>c x. (Inr [], x)),
      do_exec = (\<lambda>c x. (([], None), x))\<rparr>"

text \<open>The same collaborators, with a build cache that has an entry for every layer,
  with a directory without an mtree file, and with a garbage collection that fails.\<close>

definition example_env_hit :: "string list \<Rightarrow> unit env" where
  "example_env_hit order =
     (example_env order)
       \<lparr>do_lookup := (\<lambda>c x. (Some \<lparr>CacheEntry.Name = ''a'', Blob = example_desc\<rparr>, x))\<rparr>"

definition example_env_nomtree :: "unit env" where
  "example_env_nomtree = (example_env [])\<lparr>do_strings := (\<lambda>c x. (Inr [''rootfs'', ''umoci.json''], x))\<rparr>"

definition example_env_gc :: "string list \<Rightarrow> unit env" where
  "example_env_gc order =
     (example_env_hit order)
       \<lparr>do_unit := (\<lambda>c x. (case c of OnEngine e GC \<Rightarrow> Inl (External ''gc'') | _ \<Rightarrow> Inr (), x))\<rparr>"

definition example_config :: StackerConfig where
  "example_config = \<lparr>StackerDir = ''/s'', OCIDir = ''/o'', RootFSDir = ''/r''\<rparr>"

definition example_opts :: "string \<Rightarrow> BuildArgs" where
  "example_opts layerType =
     \<lparr>BuildArgs.Config = example_config, LeaveUnladen = False, StackerFile = ''/w/stacker.yaml'',
      NoCache = False, Substitute = [], OnRunFailure = [], ApplyConsiderTimestamps = False,
      BuildArgs.LayerType = layerType\<rparr>"

definition example_os :: "string \<Rightarrow> Layer \<Rightarrow> string \<Rightarrow> BaseLayerOpts" where
  "example_os name l layerType =
     \<lparr>BaseLayerOpts.Config = example_config, BaseLayerOpts.Name = name, Target = ''.working'',
      Layer = l, OCI = ''/o'', BaseLayerOpts.LayerType = layerType, Debug = False\<rparr>"

definition world0 :: "unit world" where
  "world0 = \<lparr>trace = [], ext = ()\<rparr>"

text \<open>The URL a layer from a registry or from a local layout is imported from, as
  \<open>getDocker\<close> and \<open>getOCI\<close> hand it to \<open>runSkopeo\<close>; the unpack of the base image;
  the image copies.\<close>

definition skopeo_url :: "Layer \<Rightarrow> string" where
  "skopeo_url l = (if Type (From l) = OCIType then ''oci:'' @ Url (From l) else Url (From l))"

definition is_unpack :: "call \<Rightarrow> bool" where
  "is_unpack c =
     (case c of Lib (MaybeRunInUserns args m) \<Rightarrow> args \<noteq> [] \<and> last args = ''unpack'' | _ \<Rightarrow> False)"

definition is_ImageCopy :: "call \<Rightarrow> bool" where
  "is_ImageCopy c = (case c of Lib (ImageCopy x) \<Rightarrow> True | _ \<Rightarrow> False)"

definition after_copy :: "call \<times> outcome \<Rightarrow> bool" where
  "after_copy ev \<longleftrightarrow> \<not> is_ImageCopy (fst ev)"

definition cache_gc :: "call \<times> outcome \<Rightarrow> bool" where
  "cache_gc ev \<longleftrightarrow> \<not> is_ImageCopy (fst ev) \<and> \<not> is_unpack (fst ev)"

text \<open>The writes of a reference into an OCI layout by the driver: the update of a
  reference and the repack. An image copy into the layer-base cache.\<close>

definition is_UpdateReference :: "call \<Rightarrow> bool" where
  "is_UpdateReference c = (case c of OnEngine e (UpdateReference n d) \<Rightarrow> True | _ \<Rightarrow> False)"

definition writes_reference :: "call \<Rightarrow> bool" where
  "writes_reference c =
     (case c of
        OnEngine e (UpdateReference n d) \<Rightarrow> True
      | Lib (MaybeRunInUserns args m) \<Rightarrow> take 2 args = [''umoci'', ''repack'']
      | _ \<Rightarrow> False)"

definition into_cache :: "StackerConfig \<Rightarrow> call \<Rightarrow> bool" where
  "into_cache config c =
     (case c of
        Lib (ImageCopy x) \<Rightarrow> prefix (''oci:'' @ layer_bases_oci config @ '':'') (Dest x)
      | _ \<Rightarrow> True)"

definition build_only_event :: "StackerConfig \<Rightarrow> bool \<Rightarrow> call \<times> outcome \<Rightarrow> bool" where
  "build_only_event config built ev \<longleftrightarrow>
     \<not> writes_reference (fst ev) \<and> (\<not> built \<longrightarrow> into_cache config (fst ev))"

definition build_only_end :: "string \<Rightarrow> error + unit \<Rightarrow> (call \<times> outcome) list \<Rightarrow> bool" where
  "build_only_end name r t \<longleftrightarrow>
     (r = Inr () \<longrightarrow>
        (\<exists>pre d. t = pre @ [(Storage (Delete name), d),
                            (Storage (Snapshot ''.working'' name), Succeeded),
                            (Print BuildOnlySkipping, Succeeded),
                            (Cache (CachePut name zero_Descriptor), Succeeded)]))"

definition no_update :: "call \<times> outcome \<Rightarrow> bool" where
  "no_update ev \<longleftrightarrow> \<not> is_UpdateReference (fst ev)"

definition only_committed :: "(call \<times> outcome) list \<Rightarrow> bool" where
  "only_committed t \<longleftrightarrow>
     (\<forall>ev \<in> set t. is_UpdateReference (fst ev) \<longrightarrow> (Mutator MutatorCommit, Succeeded) \<in> set t)"

definition deletes_first :: "Engine \<Rightarrow> string \<Rightarrow> (call \<times> outcome) list \<Rightarrow> bool" where
  "deletes_first oci name t \<longleftrightarrow> (\<exists>d rest. t = (OnEngine oci (DeleteReference name), d) # rest)"

text \<open>The end of \<open>Build\<close>: the events that are not the report of a failed final
  collection; the deferred clean-ups; and what the events and the result of a run of
  \<open>Build\<close> say about the final collection of the layout \<open>oci\<close>.\<close>

definition quiet_gc :: "call \<times> outcome \<Rightarrow> bool" where
  "quiet_gc ev = (case fst ev of Print (FinalGCFailed e) \<Rightarrow> False | _ \<Rightarrow> True)"

definition is_cleanup :: "call \<times> outcome \<Rightarrow> bool" where
  "is_cleanup ev = (case fst ev of OnEngine e Close \<Rightarrow> True | Storage Detach \<Rightarrow> True | _ \<Rightarrow> False)"

definition final_gc :: "Engine \<Rightarrow> error + unit \<Rightarrow> (call \<times> outcome) list \<Rightarrow> bool" where
  "final_gc oci r t \<longleftrightarrow>
     (\<forall>e. (Print (FinalGCFailed e), Succeeded) \<in> set t \<longrightarrow>
          r = Inl e \<and>
          (\<exists>pre post. t = pre @ [(OnEngine oci GC, Failed e),
                                 (Print (FinalGCFailed e), Succeeded)] @ post \<and>
                      list_all is_cleanup post)) \<and>
     (r = Inr () \<longrightarrow>
          (\<exists>pre post. t = pre @ [(OnEngine oci GC, Succeeded)] @ post \<and>
                      list_all is_cleanup post))"

text \<open>A run that ends with an error and has updated no reference.\<close>

definition never_built :: "error + unit \<Rightarrow> (call \<times> outcome) list \<Rightarrow> bool" where
  "never_built r t \<longleftrightarrow> (\<exists>e. r = Inl e) \<and> list_all no_update t"

section \<open>The references of the output layout\<close>

text \<open>
  What the output layout holds is part of the outside state, which the engine reaches
  through its collaborators only. \<open>preserves I W m\<close>: a run of \<open>m\<close> that starts where
  \<open>I\<close> holds of the outside state and makes no call in \<open>W\<close> ends where \<open>I\<close> holds.
\<close>

definition preserves :: "('x \<Rightarrow> bool) \<Rightarrow> (call \<Rightarrow> bool) \<Rightarrow> ('x, 'a) prog \<Rightarrow> bool" where
  "preserves I W m \<longleftrightarrow>
     (\<forall>s r s'. m s = Some (r, s') \<longrightarrow>
        (\<exists>t. trace s' = trace s @ t \<and>
             (I (ext s) \<longrightarrow> list_all (\<lambda>ev. \<not> W (fst ev)) t \<longrightarrow> I (ext s'))))"

named_theorems preserves_intros

text \<open>
  What is taken of the collaborators, for \<open>refs x oci name\<close> the descriptor that the
  reference \<open>name\<close> of the layout \<open>oci\<close> points to in the outside state \<open>x\<close>, and
  for \<open>W\<close> the calls that may write that reference: a \<open>DeleteReference\<close> that reports
  no error has removed the reference, and a reference that is absent stays absent
  through every call that is not in \<open>W\<close>.
\<close>

definition oracle_keeps :: "('x \<Rightarrow> bool) \<Rightarrow> (call \<Rightarrow> bool) \<Rightarrow> (call \<Rightarrow> 'x \<Rightarrow> 'r \<times> 'x) \<Rightarrow> bool" where
  "oracle_keeps I W f \<longleftrightarrow> (\<forall>c x. I x \<longrightarrow> \<not> W c \<longrightarrow> I (snd (f c x)))"

definition reference_store ::
  "'x env \<Rightarrow> ('x \<Rightarrow> Engine \<Rightarrow> string \<Rightarrow> Descriptor option) \<Rightarrow> Engine \<Rightarrow> string \<Rightarrow>
   (call \<Rightarrow> bool) \<Rightarrow> bool" where
  "reference_store env refs oci name W \<longleftrightarrow>
     (\<forall>x. fst (do_unit env (OnEngine oci (DeleteReference name)) x) = Inr () \<longrightarrow>
          refs (snd (do_unit env (OnEngine oci (DeleteReference name)) x)) oci name = None) \<and>
     oracle_keeps (\<lambda>x. refs x oci name = None) W (do_unit env) \<and>
     oracle_keeps (\<lambda>x. refs x oci name = None) W (do_string env) \<and>
     oracle_keeps (\<lambda>x. refs x oci name = None) W (do_strings env) \<and>
     oracle_keeps (\<lambda>x. refs x oci name = None) W (do_stackerfile env) \<and>
     oracle_keeps (\<lambda>x. refs x oci name = None) W (do_lookup env) \<and>
     oracle_keeps (\<lambda>x. refs x oci name = None) W (do_paths env) \<and>
     oracle_keeps (\<lambda>x. refs x oci name = None) W (do_path env) \<and>
     oracle_keeps (\<lambda>x. refs x oci name = None) W (do_blob env) \<and>
     oracle_keeps (\<lambda>x. refs x oci name = None) W (do_manifest env) \<and>
     oracle_keeps (\<lambda>x. refs x oci name = None) W (do_image env) \<and>
     oracle_keeps (\<lambda>x. refs x oci name = None) W (do_imageconfig env) \<and>
     oracle_keeps (\<lambda>x. refs x oci name = None) W (do_meta env) \<and>
     oracle_keeps (\<lambda>x. refs x oci name = None) W (do_annotations env) \<and>
     oracle_keeps (\<lambda>x. refs x oci name = None) W (do_exec env)"

text \<open>A cautious choice of \<open>W\<close>: the update of the reference \<open>name\<close> of the layout
  \<open>oci\<close>, an image copy onto it, and every command run in the user namespace
  (\<open>umoci init\<close>, \<open>umoci repack\<close>) that is given the name, or the image \<open>oci:name\<close>,
  as an argument.\<close>

definition writes_name :: "Engine \<Rightarrow> string \<Rightarrow> call \<Rightarrow> bool" where
  "writes_name oci name c =
     (case c of
        OnEngine e (UpdateReference n d) \<Rightarrow> e = oci \<and> n = name
      | Lib (ImageCopy x) \<Rightarrow> Dest x = ''oci:'' @ oci @ '':'' @ name
      | Lib (MaybeRunInUserns args m) \<Rightarrow> name \<in> set args \<or> (oci @ '':'' @ name) \<in> set args
      | _ \<Rightarrow> False)"

text \<open>An outside state that is the list of the references of the layouts, and
  collaborators over it: \<open>DeleteReference\<close> and \<open>UpdateReference\<close> do what their names
  say, every other call leaves the references alone, and the calls in \<open>failing\<close> fail
  and change nothing. The overlay fails; the deletion of the reference \<open>a\<close> and the
  overlay fail.\<close>

type_synonym ref_store = "((Engine \<times> string) \<times> Descriptor) list"

definition store_refs :: "ref_store \<Rightarrow> Engine \<Rightarrow> string \<Rightarrow> Descriptor option" where
  "store_refs x e n = map_of x (e, n)"

definition store_call :: "call \<Rightarrow> ref_store \<Rightarrow> ref_store" where
  "store_call c x =
     (case c of
        OnEngine e (DeleteReference n) \<Rightarrow> AList.delete (e, n) x
      | OnEngine e (UpdateReference n d) \<Rightarrow> AList.update (e, n) d x
      | _ \<Rightarrow> x)"

definition example_env_store :: "(call \<Rightarrow> bool) \<Rightarrow> ref_store env" where
  "example_env_store failing =
     \<lparr>url_Parse = example_Parse,
      Getenv = (\<lambda>v. if v = ''SUDO_USER'' then ''me'' else []),
      GOARCH = ''amd64'', GOOS = ''linux'', ReasonableDefaultPath = ''/usr/bin:/bin'',
      GitVersionAnnotation = ''git_version'', StackerContentsAnnotation = ''stacker_yaml'',
      time_Now = (\<lambda>x. 0),
      do_unit = (\<lambda>c x. if failing c then (Inl (External ''failed''), x)
                         else (Inr (), store_call c x)),
      do_string = (\<lambda>c x. (Inr ''host'', x)),
      do_strings = (\<lambda>c x. (Inr [''rootfs'', ''sha256_11.mtree'', ''umoci.json''], x)),
      do_stackerfile = (\<lambda>c x. (Inr (example_sf [''a'']), x)),
      do_lookup = (\<lambda>c x. (None, x)),
      do_paths = (\<lambda>c x. (Inr [\<lparr>Walk = [example_desc]\<rparr>], x)),
      do_path = (\<lambda>c x. (Inr \<lparr>Walk = [example_desc]\<rparr>, x)),
      do_blob = (\<lambda>c x. (Inr (''sha256:22'', 3), x)),
      do_manifest = (\<lambda>c x. (Inr \<lparr>Manifest.Config = example_desc,
                                     Layers = [example_desc, example_desc],
                                     Annotations = []\<rparr>, x)),
      do_image = (\<lambda>c x. (Inr \<lparr>DiffIDs = [''sha256:33'', ''sha256:44''], ImageRest = []\<rparr>, x)),
      do_imageconfig = (\<lambda>c x. (Inr \<lparr>Env = [], ImageConfig.Cmd = [], ImageConfig.Entrypoint = [],
                                        ImageConfig.Volumes = None, ImageConfig.Labels = None,
                                        ImageConfig.WorkingDir = []\<rparr>, x)),
      do_meta = (\<lambda>c x. (Inr \<lparr>Meta.Created = 0, Meta.Author = [], Architecture = [], OS = []\<rparr>, x)),
      do_annotations = (\<lambda>c x. (Inr [], x)),
      do_exec = (\<lambda>c x. (([], None), x))\<rparr>"

definition apply_fails :: "call \<Rightarrow> bool" where
  "apply_fails c = (case c of Lib DoApply \<Rightarrow> True | _ \<Rightarrow> False)"

definition delete_and_apply_fail :: "call \<Rightarrow> bool" where
  "delete_and_apply_fail c =
     (case c of
        OnEngine e (DeleteReference n) \<Rightarrow> n = ''a''
      | Lib DoApply \<Rightarrow> True
      | _ \<Rightarrow> False)"

section \<open>Properties\<close>

lemma aggregate_loop_none:
  "\<forall>l \<in> set ls. Digest l \<noteq> Digest d \<Longrightarrow> \<exists>h'. aggregate_loop ls d h = Inr (h', False)"
  by (induction ls arbitrary: h) (auto simp: sha256_Write_def)

lemma aggregate_loop_first:
  "k < length ls \<Longrightarrow> Digest (ls ! k) = Digest d \<Longrightarrow> \<forall>j<k. Digest (ls ! j) \<noteq> Digest d \<Longrightarrow>
   aggregate_loop ls d h = Inr (foldl (\<lambda>h d. h @ d) h (map Digest (take (Suc k) ls)), True)"
proof (induction ls arbitrary: k h)
  case Nil
  then show ?case by simp
next
  case (Cons l ls)
  show ?case
  proof (cases k)
    case 0
    with Cons.prems show ?thesis by (simp add: sha256_Write_def)
  next
    case (Suc k')
    from Cons.prems Suc have ne: "Digest l \<noteq> Digest d" by auto
    from Cons.prems Suc have "k' < length ls" "Digest (ls ! k') = Digest d"
      "\<forall>j<k'. Digest (ls ! j) \<noteq> Digest d" by auto
    from Cons.IH[OF this] ne Suc show ?thesis by (simp add: sha256_Write_def)
  qed
qed

lemma hex_digit_lowercase: "hex_digit n \<in> set ''0123456789abcdef''"
proof -
  have "n mod 16 < length ''0123456789abcdef''" by simp
  then show ?thesis unfolding hex_digit_def by (rule nth_mem)
qed

lemma fmt_hex_lowercase: "lowercase_hex (fmt_hex bs)"
  unfolding lowercase_hex_def fmt_hex_def list_all_iff
  using hex_digit_lowercase by auto

lemma fmt_hex_length: "length (fmt_hex bs) = 2 * length bs"
  unfolding fmt_hex_def by (induction bs) auto

text \<open>
  C1. \<open>ComputeAggregateHash\<close> returns the lowercase hexadecimal SHA-256 digest of the
  stringified digests of the layers \<open>0..k\<close> fed in order into the hasher, where \<open>k\<close> is
  the index of the (first) layer whose digest is the descriptor's; when no layer of the
  manifest matches, as in a manifest with no layers, it fails with the
  descriptor-not-in-manifest error and returns no hash.
\<close>

theorem ComputeAggregateHash_spec:
  "(\<forall>k. k < length (Layers manifest) \<and> Digest (Layers manifest ! k) = Digest descriptor \<and>
        (\<forall>j<k. Digest (Layers manifest ! j) \<noteq> Digest descriptor) \<longrightarrow>
        ComputeAggregateHash sha manifest descriptor =
          Inr (fmt_hex (sha (fed (map Digest (take (Suc k) (Layers manifest)))))) \<and>
        lowercase_hex (fmt_hex (sha (fed (map Digest (take (Suc k) (Layers manifest))))))) \<and>
   ((\<forall>l \<in> set (Layers manifest). Digest l \<noteq> Digest descriptor) \<longrightarrow>
        ComputeAggregateHash sha manifest descriptor =
          Inl (DescriptorNotInManifest (Digest descriptor)
                 (annotation (Annotations manifest) ''org.opencontainers.image.ref.name''))) \<and>
   (Layers manifest = [] \<longrightarrow>
        (\<exists>d r. ComputeAggregateHash sha manifest descriptor = Inl (DescriptorNotInManifest d r)))"
proof (intro conjI allI impI)
  fix k
  assume k: "k < length (Layers manifest) \<and> Digest (Layers manifest ! k) = Digest descriptor \<and>
        (\<forall>j<k. Digest (Layers manifest ! j) \<noteq> Digest descriptor)"
  then have "aggregate_loop (Layers manifest) descriptor sha256_New =
      Inr (fed (map Digest (take (Suc k) (Layers manifest))), True)"
    unfolding fed_def by (intro aggregate_loop_first) auto
  then show "ComputeAggregateHash sha manifest descriptor =
          Inr (fmt_hex (sha (fed (map Digest (take (Suc k) (Layers manifest))))))"
    by (simp add: ComputeAggregateHash_def sha256_Sum_def)
  show "lowercase_hex (fmt_hex (sha (fed (map Digest (take (Suc k) (Layers manifest))))))"
    by (rule fmt_hex_lowercase)
next
  assume "\<forall>l \<in> set (Layers manifest). Digest l \<noteq> Digest descriptor"
  from aggregate_loop_none[OF this, of sha256_New]
  show "ComputeAggregateHash sha manifest descriptor =
          Inl (DescriptorNotInManifest (Digest descriptor)
                 (annotation (Annotations manifest) ''org.opencontainers.image.ref.name''))"
    by (auto simp: ComputeAggregateHash_def)
next
  assume "Layers manifest = []"
  then show "\<exists>d r. ComputeAggregateHash sha manifest descriptor = Inl (DescriptorNotInManifest d r)"
    by (simp add: ComputeAggregateHash_def)
qed

theorem ComputeAggregateHash_spec_witness:
  "ComputeAggregateHash rev
     \<lparr>Manifest.Config = zero_Descriptor,
      Layers = [\<lparr>MediaType = [], Digest = ''a:1'', Size = 1\<rparr>,
                \<lparr>MediaType = [], Digest = ''b:2'', Size = 2\<rparr>,
                \<lparr>MediaType = [], Digest = ''c:3'', Size = 3\<rparr>],
      Annotations = []\<rparr>
     \<lparr>MediaType = [], Digest = ''b:2'', Size = 2\<rparr> = Inr (fmt_hex ''2:b1:a'') \<and>
   ComputeAggregateHash rev
     \<lparr>Manifest.Config = zero_Descriptor, Layers = [], Annotations = [(''org.opencontainers.image.ref.name'', ''r'')]\<rparr>
     \<lparr>MediaType = [], Digest = ''b:2'', Size = 2\<rparr> = Inl (DescriptorNotInManifest ''b:2'' ''r'')"
proof -
  let ?m = "\<lparr>Manifest.Config = zero_Descriptor,
      Layers = [\<lparr>MediaType = [], Digest = ''a:1'', Size = 1\<rparr>,
                \<lparr>MediaType = [], Digest = ''b:2'', Size = 2\<rparr>,
                \<lparr>MediaType = [], Digest = ''c:3'', Size = 3\<rparr>],
      Annotations = []\<rparr>"
  let ?e = "\<lparr>Manifest.Config = zero_Descriptor, Layers = [],
      Annotations = [(''org.opencontainers.image.ref.name'', ''r'')]\<rparr>"
  let ?d = "\<lparr>MediaType = [], Digest = ''b:2'', Size = 2\<rparr>"
  have h: "(1::nat) < length (Layers ?m) \<and> Digest (Layers ?m ! 1) = Digest ?d \<and>
        (\<forall>j<(1::nat). Digest (Layers ?m ! j) \<noteq> Digest ?d)" by simp
  have a: "ComputeAggregateHash rev ?m ?d = Inr (fmt_hex ''2:b1:a'')"
    using ComputeAggregateHash_spec[of ?m ?d rev] h
    by (auto simp: fed_def sha256_New_def numeral_2_eq_2)
  have b: "ComputeAggregateHash rev ?e ?d = Inl (DescriptorNotInManifest ''b:2'' ''r'')"
    using ComputeAggregateHash_spec[of ?e ?d rev]
    by (simp add: annotation_def)
  from a b show ?thesis by simp
qed

subsection \<open>The reference URL parser\<close>

lemma strings_Split_nonempty: "strings_Split s sep \<noteq> []"
  by (induction s) (auto split: list.splits)

lemma strings_Split_length: "length (strings_Split s sep) = Suc (count_list s sep)"
  by (induction s) (auto split: list.splits simp: strings_Split_nonempty)

lemma strings_Split_first: "index0 (strings_Split s sep) = Inr (takeWhile (\<lambda>c. c \<noteq> sep) s)"
  by (induction s) (auto simp: index0_def split: list.splits)

lemma strings_Split_fields: "f \<in> set (strings_Split s sep) \<Longrightarrow> sep \<notin> set f"
  by (induction s arbitrary: f) (auto split: if_splits list.splits)

lemma strings_Split_Join: "strings_Join (strings_Split s sep) [sep] = s"
proof (induction s)
  case Nil
  show ?case by simp
next
  case (Cons c cs)
  obtain f fs where fs: "strings_Split cs sep = f # fs"
    using strings_Split_nonempty[of cs sep] by (cases "strings_Split cs sep") auto
  with Cons show ?case by (cases fs) auto
qed

text \<open>
  C5. For every input string, \<open>tagFromSkopeoUrl\<close> returns: for a \<open>docker\<close>-prefixed
  URL (one that \<open>url.Parse\<close> accepts; its error is returned otherwise), the basename of
  the URL path taken up to an optional \<open>:tag\<close> suffix or, if the path is empty, the host
  portion before any \<open>:port\<close>; for an \<open>oci\<close>-prefixed string, the third
  colon-delimited field, failing with a bad-OCI-tag error whenever the number of
  colon-delimited fields (one more than the number of colons) is not exactly three; and
  for any other string it fails with an invalid-image-URL error.
\<close>

theorem tagFromSkopeoUrl_spec:
  "(prefix ''docker'' thing \<longrightarrow>
      (\<forall>u. parse thing = Inr u \<longrightarrow>
         tagFromSkopeoUrl parse thing =
           Inr (if Path u \<noteq> [] then path_Base (takeWhile (\<lambda>c. c \<noteq> CHR '':'') (Path u))
                else takeWhile (\<lambda>c. c \<noteq> CHR '':'') (Host u))) \<and>
      (\<forall>e. parse thing = Inl e \<longrightarrow> tagFromSkopeoUrl parse thing = Inl e)) \<and>
   (\<not> prefix ''docker'' thing \<and> prefix ''oci'' thing \<longrightarrow>
      length (strings_Split thing (CHR '':'')) = Suc (count_list thing (CHR '':'')) \<and>
      strings_Join (strings_Split thing (CHR '':'')) '':'' = thing \<and>
      (\<forall>f \<in> set (strings_Split thing (CHR '':'')). CHR '':'' \<notin> set f) \<and>
      tagFromSkopeoUrl parse thing =
        (if length (strings_Split thing (CHR '':'')) = 3
         then Inr (strings_Split thing (CHR '':'') ! 2)
         else Inl (BadOCITag thing))) \<and>
   (\<not> prefix ''docker'' thing \<and> \<not> prefix ''oci'' thing \<longrightarrow>
      tagFromSkopeoUrl parse thing = Inl (InvalidImageURL thing))"
proof (intro conjI impI allI ballI)
  fix u
  assume "prefix ''docker'' thing" "parse thing = Inr u"
  then show "tagFromSkopeoUrl parse thing =
           Inr (if Path u \<noteq> [] then path_Base (takeWhile (\<lambda>c. c \<noteq> CHR '':'') (Path u))
                else takeWhile (\<lambda>c. c \<noteq> CHR '':'') (Host u))"
    by (simp add: tagFromSkopeoUrl_def strings_Split_first)
next
  fix e
  assume "prefix ''docker'' thing" "parse thing = Inl e"
  then show "tagFromSkopeoUrl parse thing = Inl e"
    by (simp add: tagFromSkopeoUrl_def)
next
  show "length (strings_Split thing (CHR '':'')) = Suc (count_list thing (CHR '':''))"
    by (rule strings_Split_length)
next
  show "strings_Join (strings_Split thing (CHR '':'')) '':'' = thing"
    by (rule strings_Split_Join)
next
  fix f
  assume "f \<in> set (strings_Split thing (CHR '':''))"
  then show "CHR '':'' \<notin> set f" by (rule strings_Split_fields)
next
  assume "\<not> prefix ''docker'' thing \<and> prefix ''oci'' thing"
  then show "tagFromSkopeoUrl parse thing =
        (if length (strings_Split thing (CHR '':'')) = 3
         then Inr (strings_Split thing (CHR '':'') ! 2)
         else Inl (BadOCITag thing))"
    by (simp add: tagFromSkopeoUrl_def Let_def)
next
  assume "\<not> prefix ''docker'' thing \<and> \<not> prefix ''oci'' thing"
  then show "tagFromSkopeoUrl parse thing = Inl (InvalidImageURL thing)"
    by (simp add: tagFromSkopeoUrl_def)
qed

theorem tagFromSkopeoUrl_spec_witness:
  "tagFromSkopeoUrl example_Parse ''docker://docker.io/library/centos:latest'' = Inr ''centos'' \<and>
   tagFromSkopeoUrl example_Parse ''docker://centos:5000'' = Inr ''centos'' \<and>
   tagFromSkopeoUrl example_Parse ''docker://%'' = Inl (External ''parse'') \<and>
   tagFromSkopeoUrl example_Parse ''oci:/tmp/oci:centos'' = Inr ''centos'' \<and>
   tagFromSkopeoUrl example_Parse ''oci:foo:bar:baz:quux'' = Inl (BadOCITag ''oci:foo:bar:baz:quux'') \<and>
   tagFromSkopeoUrl example_Parse ''zot:a:b'' = Inl (InvalidImageURL ''zot:a:b'')"
proof -
  have a: "tagFromSkopeoUrl example_Parse ''docker://docker.io/library/centos:latest'' = Inr ''centos''"
    using tagFromSkopeoUrl_spec[of "''docker://docker.io/library/centos:latest''" example_Parse]
    by (simp add: example_Parse_def path_Base_def)
  have b: "tagFromSkopeoUrl example_Parse ''docker://centos:5000'' = Inr ''centos''"
    using tagFromSkopeoUrl_spec[of "''docker://centos:5000''" example_Parse]
    by (simp add: example_Parse_def)
  have c: "tagFromSkopeoUrl example_Parse ''docker://%'' = Inl (External ''parse'')"
    using tagFromSkopeoUrl_spec[of "''docker://%''" example_Parse]
    by (simp add: example_Parse_def)
  have d: "tagFromSkopeoUrl example_Parse ''oci:/tmp/oci:centos'' = Inr ''centos''"
    using tagFromSkopeoUrl_spec[of "''oci:/tmp/oci:centos''" example_Parse]
    by (simp add: numeral_3_eq_3 numeral_2_eq_2)
  have e: "tagFromSkopeoUrl example_Parse ''oci:foo:bar:baz:quux'' = Inl (BadOCITag ''oci:foo:bar:baz:quux'')"
    using tagFromSkopeoUrl_spec[of "''oci:foo:bar:baz:quux''" example_Parse]
    by simp
  have f: "tagFromSkopeoUrl example_Parse ''zot:a:b'' = Inl (InvalidImageURL ''zot:a:b'')"
    using tagFromSkopeoUrl_spec[of "''zot:a:b''" example_Parse]
    by simp
  from a b c d e f show ?thesis by simp
qed

subsection \<open>Runs and their events\<close>

text \<open>\<open>emits P m\<close>: whenever \<open>m\<close> returns, it has added events to the trace, and
  each of them satisfies \<open>P\<close>.\<close>

lemma emitsI:
  "(\<And>s r s'. m s = Some (r, s') \<Longrightarrow> \<exists>t. trace s' = trace s @ t \<and> list_all P t) \<Longrightarrow> emits P m"
  unfolding emits_def by blast

lemma emitsD:
  "emits P m \<Longrightarrow> m s = Some (r, s') \<Longrightarrow> \<exists>t. trace s' = trace s @ t \<and> list_all P t"
  unfolding emits_def by blast

lemma emits_events:
  "emits P m \<Longrightarrow> m s = Some (r, s') \<Longrightarrow>
   trace s' = trace s @ events s s' \<and> list_all P (events s s')"
  by (drule (1) emitsD) (auto simp: events_def)

lemma emits_weaken: "emits Q m \<Longrightarrow> (\<And>ev. Q ev \<Longrightarrow> P ev) \<Longrightarrow> emits P m"
  unfolding emits_def list_all_iff by blast

lemma emits_ret [emits_intros]: "emits P (ret a)"
  by (rule emitsI) (simp add: ret_def)

lemma emits_fail [emits_intros]: "emits P (fail e)"
  by (rule emitsI) (simp add: fail_def)

lemma emits_lift [emits_intros]: "emits P (lift r)"
  by (rule emitsI) (simp add: lift_def)

lemma emits_diverge [emits_intros]: "emits P diverge"
  by (rule emitsI) (simp add: diverge_def)

lemma emits_now [emits_intros]: "emits P (now env)"
  by (rule emitsI) (auto simp: now_def)

lemma emits_andThen [emits_intros]:
  assumes "emits P m" and "\<And>a. emits P (k a)"
  shows "emits P (andThen m k)"
proof (rule emitsI)
  fix s r s'
  assume run: "andThen m k s = Some (r, s')"
  show "\<exists>t. trace s' = trace s @ t \<and> list_all P t"
  proof (cases "m s")
    case None
    with run show ?thesis by (simp add: andThen_def)
  next
    case (Some p)
    obtain r1 s1 where p: "p = (r1, s1)" by (cases p)
    from emitsD[OF assms(1)] Some p obtain t1 where
      t1: "trace s1 = trace s @ t1" "list_all P t1" by blast
    show ?thesis
    proof (cases r1)
      case (Inl e)
      with run Some p t1 show ?thesis by (auto simp: andThen_def)
    next
      case (Inr a)
      with run Some p have "k a s1 = Some (r, s')" by (simp add: andThen_def)
      from emitsD[OF assms(2) this] obtain t2 where
        "trace s' = trace s1 @ t2" "list_all P t2" by blast
      with t1 show ?thesis by auto
    qed
  qed
qed

lemma emits_attempt [emits_intros]: "emits P m \<Longrightarrow> emits P (attempt m)"
  unfolding emits_def attempt_def by (auto split: option.splits)

lemma emits_wrapf [emits_intros]: "emits P m \<Longrightarrow> emits P (wrapf msg m)"
  unfolding emits_def wrapf_def by (auto split: option.splits sum.splits)

lemma emits_deferred [emits_intros]:
  assumes "emits P c" and "emits P b"
  shows "emits P (deferred c b)"
proof (rule emitsI)
  fix s r s'
  assume "deferred c b s = Some (r, s')"
  then obtain s1 r2 where b: "b s = Some (r, s1)" and c: "c s1 = Some (r2, s')"
    by (auto simp: deferred_def split: option.splits)
  from emitsD[OF assms(2) b] emitsD[OF assms(1) c]
  show "\<exists>t. trace s' = trace s @ t \<and> list_all P t" by auto
qed

lemma emits_perform [emits_intros]:
  "P (c, Succeeded) \<Longrightarrow> (\<And>e. P (c, Failed e)) \<Longrightarrow> emits P (perform collaborator c)"
  unfolding emits_def perform_def record_call_def outcome_of_def
  by (auto split: prod.splits sum.splits)

lemma emits_say [emits_intros]: "P (Print m, Succeeded) \<Longrightarrow> emits P (say m)"
  unfolding emits_def say_def record_call_def by auto

lemma emits_lookup [emits_intros]:
  "P (Cache (CacheLookup name), Miss) \<Longrightarrow> (\<And>ce. P (Cache (CacheLookup name), Hit ce)) \<Longrightarrow>
   emits P (lookup env name)"
  unfolding emits_def lookup_def record_call_def
  by (auto split: prod.splits option.splits)

lemma emits_combinedOutput [emits_intros]:
  "P (OS (CombinedOutput args), Succeeded) \<Longrightarrow> (\<And>e. P (OS (CombinedOutput args), Failed e)) \<Longrightarrow>
   emits P (combinedOutput env args)"
  unfolding emits_def combinedOutput_def record_call_def
  by (auto split: prod.splits option.splits)

lemma emits_if [emits_intros]:
  "(c \<Longrightarrow> emits P a) \<Longrightarrow> (\<not> c \<Longrightarrow> emits P b) \<Longrightarrow> emits P (if c then a else b)"
  by simp

lemma emits_Let [emits_intros]: "emits P (f x) \<Longrightarrow> emits P (Let x f)"
  by simp

lemma emits_case_sum [emits_intros]:
  "(\<And>e. emits P (f e)) \<Longrightarrow> (\<And>a. emits P (g a)) \<Longrightarrow> emits P (case_sum f g x)"
  by (cases x) simp_all

lemma emits_case_option [emits_intros]:
  "emits P f \<Longrightarrow> (\<And>a. emits P (g a)) \<Longrightarrow> emits P (case_option f g x)"
  by (cases x) simp_all

lemma emits_case_prod [emits_intros]:
  "(\<And>a b. emits P (f a b)) \<Longrightarrow> emits P (case_prod f x)"
  by (cases x) simp_all

lemma emits_case_from_type [emits_intros]:
  "emits P a \<Longrightarrow> emits P b \<Longrightarrow> emits P c \<Longrightarrow> emits P d \<Longrightarrow> emits P e \<Longrightarrow>
   (\<And>t. emits P (f t)) \<Longrightarrow> emits P (case_from_type a b c d e f x)"
  by (cases x) simp_all

text \<open>What a run through \<open>andThen\<close> looks like.\<close>

lemma andThen_SomeE:
  assumes "andThen m k s = Some (r, s')"
  obtains (failed) e where "m s = Some (Inl e, s')" "r = Inl e"
  | (continued) a s1 where "m s = Some (Inr a, s1)" "k a s1 = Some (r, s')"
  using assms by (auto simp: andThen_def split: option.splits sum.splits)

lemma andThen_Inl: "m s = Some (Inl e, s1) \<Longrightarrow> andThen m k s = Some (Inl e, s1)"
  by (simp add: andThen_def)

lemma andThen_Inr: "m s = Some (Inr a, s1) \<Longrightarrow> andThen m k s = k a s1"
  by (simp add: andThen_def)

lemma events_append: "trace s' = trace s @ t \<Longrightarrow> events s s' = t"
  by (simp add: events_def)

lemma tracesI:
  "(\<And>s r s'. m s = Some (r, s') \<Longrightarrow> \<exists>t. trace s' = trace s @ t \<and> T r t) \<Longrightarrow> traces T m"
  unfolding traces_def by blast

lemma tracesD:
  "traces T m \<Longrightarrow> m s = Some (r, s') \<Longrightarrow> trace s' = trace s @ events s s' \<and> T r (events s s')"
  unfolding traces_def by (fastforce simp: events_def)

lemma emits_traces: "emits P m \<Longrightarrow> traces (\<lambda>r t. list_all P t) m"
  unfolding emits_def traces_def by simp

lemma traces_weaken: "traces T m \<Longrightarrow> (\<And>r t. T r t \<Longrightarrow> T' r t) \<Longrightarrow> traces T' m"
  unfolding traces_def by blast

text \<open>Sequencing: the events of the first part, then those of the second.\<close>

lemma traces_andThen:
  assumes m: "traces T1 m" and k: "\<And>a. traces T2 (k a)"
    and stop: "\<And>e t. T1 (Inl e) t \<Longrightarrow> T (Inl e) t"
    and both: "\<And>a r t1 t2. T1 (Inr a) t1 \<Longrightarrow> T2 r t2 \<Longrightarrow> T r (t1 @ t2)"
  shows "traces T (andThen m k)"
proof (rule tracesI)
  fix s r s'
  assume "andThen m k s = Some (r, s')"
  then show "\<exists>t. trace s' = trace s @ t \<and> T r t"
  proof (cases rule: andThen_SomeE)
    case (failed e)
    from tracesD[OF m failed(1)] failed(2) stop show ?thesis by blast
  next
    case (continued a s1)
    from tracesD[OF m continued(1)] tracesD[OF k continued(2)] both
    show ?thesis by (metis append.assoc)
  qed
qed

text \<open>A part whose events do not matter, before the part that does.\<close>

lemma traces_after:
  assumes m: "emits P m" and k: "\<And>a. traces T (k a)"
    and stop: "\<And>e t. list_all P t \<Longrightarrow> T (Inl e) t"
    and pre: "\<And>r t1 t2. list_all P t1 \<Longrightarrow> T r t2 \<Longrightarrow> T r (t1 @ t2)"
  shows "traces T (andThen m k)"
  by (rule traces_andThen[OF emits_traces[OF m] k]) (auto intro: stop pre)

lemma traces_deferred:
  assumes b: "traces T b" and c: "emits P c"
    and post: "\<And>r t1 t2. T r t1 \<Longrightarrow> list_all P t2 \<Longrightarrow> T r (t1 @ t2)"
  shows "traces T (deferred c b)"
proof (rule tracesI)
  fix s r s'
  assume "deferred c b s = Some (r, s')"
  then obtain s1 r2 where rb: "b s = Some (r, s1)" and rc: "c s1 = Some (r2, s')"
    by (auto simp: deferred_def split: option.splits)
  from tracesD[OF b rb] emits_events[OF c rc] post
  show "\<exists>t. trace s' = trace s @ t \<and> T r t" by (metis append.assoc)
qed

text \<open>The primitive steps.\<close>

lemma perform_run:
  assumes "perform collaborator c s = Some (r, s')"
  shows "trace s' = trace s @ [(c, outcome_of r)]" and "collaborator c (ext s) = (r, ext s')"
  using assms by (auto simp: perform_def record_call_def split: prod.splits)

lemma attempt_perform_run:
  assumes "attempt (perform collaborator c) s = Some (r, s')"
  obtains r0 where "r = Inr r0" "trace s' = trace s @ [(c, outcome_of r0)]"
    "collaborator c (ext s) = (r0, ext s')"
  using assms by (auto simp: attempt_def perform_def record_call_def split: prod.splits)

lemma say_run:
  assumes "say m s = Some (r, s')"
  shows "r = Inr ()" and "trace s' = trace s @ [(Print m, Succeeded)]" and "ext s' = ext s"
  using assms by (auto simp: say_def record_call_def)

lemma lift_run:
  assumes "lift v s = Some (r, s')"
  shows "r = v" and "s' = s"
  using assms by (auto simp: lift_def)

lemma ret_run:
  assumes "ret v s = Some (r, s')"
  shows "r = Inr v" and "s' = s"
  using assms by (auto simp: ret_def)

lemma fail_run:
  assumes "fail e s = Some (r, s')"
  shows "r = Inl e" and "s' = s"
  using assms by (auto simp: fail_def)

lemma lookup_run:
  assumes "lookup env name s = Some (r, s')"
  obtains found where "r = Inr found"
    "trace s' = trace s @ [(Cache (CacheLookup name), case found of None \<Rightarrow> Miss | Some ce \<Rightarrow> Hit ce)]"
    "do_lookup env (Cache (CacheLookup name)) (ext s) = (found, ext s')"
  using assms by (auto simp: lookup_def record_call_def split: prod.splits)

lemma outcome_of_simps [simp]:
  "outcome_of (Inl e) = Failed e" "outcome_of (Inr a) = Succeeded"
  by (simp_all add: outcome_of_def)

lemma outcome_of_Succeeded [simp]: "outcome_of r = Succeeded \<longleftrightarrow> (\<exists>a. r = Inr a)"
  by (cases r) simp_all

text \<open>Programs that return.\<close>

lemma returnsD: "returns m \<Longrightarrow> \<exists>r s'. m s = Some (r, s')"
proof -
  assume "returns m"
  then have "m s \<noteq> None" unfolding returns_def by blast
  then show ?thesis by (cases "m s") auto
qed

lemma returns_ret [returns_intros]: "returns (ret a)"
  by (simp add: returns_def ret_def)

lemma returns_fail [returns_intros]: "returns (fail e)"
  by (simp add: returns_def fail_def)

lemma returns_lift [returns_intros]: "returns (lift r)"
  by (simp add: returns_def lift_def)

lemma returns_now [returns_intros]: "returns (now env)"
  by (simp add: returns_def now_def)

lemma returns_say [returns_intros]: "returns (say m)"
  by (simp add: returns_def say_def)

lemma returns_perform [returns_intros]: "returns (perform collaborator c)"
  by (simp add: returns_def perform_def split: prod.splits)

lemma returns_lookup [returns_intros]: "returns (lookup env name)"
  by (simp add: returns_def lookup_def split: prod.splits)

lemma returns_combinedOutput [returns_intros]: "returns (combinedOutput env args)"
  by (simp add: returns_def combinedOutput_def split: prod.splits)

lemma returns_andThen [returns_intros]:
  "returns m \<Longrightarrow> (\<And>a. returns (k a)) \<Longrightarrow> returns (andThen m k)"
  unfolding returns_def andThen_def by (auto split: option.splits sum.splits)

lemma returns_attempt [returns_intros]:
  assumes "returns m"
  shows "returns (attempt m)"
  unfolding returns_def
proof
  fix s
  from returnsD[OF assms, of s] show "attempt m s \<noteq> None"
    by (auto simp: attempt_def)
qed

lemma returns_wrapf [returns_intros]: "returns m \<Longrightarrow> returns (wrapf msg m)"
  unfolding returns_def wrapf_def by (auto split: option.splits sum.splits)

lemma returns_deferred [returns_intros]:
  assumes "returns c" and "returns b"
  shows "returns (deferred c b)"
  unfolding returns_def
proof
  fix s
  from returnsD[OF assms(2), of s] obtain r s1 where b: "b s = Some (r, s1)" by blast
  from returnsD[OF assms(1), of s1] b show "deferred c b s \<noteq> None"
    by (auto simp: deferred_def)
qed

lemma returns_if [returns_intros]:
  "(c \<Longrightarrow> returns a) \<Longrightarrow> (\<not> c \<Longrightarrow> returns b) \<Longrightarrow> returns (if c then a else b)"
  by simp

lemma returns_Let [returns_intros]: "returns (f x) \<Longrightarrow> returns (Let x f)"
  by simp

lemma returns_case_sum [returns_intros]:
  "(\<And>e. returns (f e)) \<Longrightarrow> (\<And>a. returns (g a)) \<Longrightarrow> returns (case_sum f g x)"
  by (cases x) simp_all

lemma returns_case_option [returns_intros]:
  "returns f \<Longrightarrow> (\<And>a. returns (g a)) \<Longrightarrow> returns (case_option f g x)"
  by (cases x) simp_all

lemma returns_case_prod [returns_intros]:
  "(\<And>a b. returns (f a b)) \<Longrightarrow> returns (case_prod f x)"
  by (cases x) simp_all

lemmas prog_defs = runSkopeo_deferred_def runSkopeo_def RunUmociSubcommand_def
  extractOutput_squashfs_def extractOutput_def getDocker_def umociInit_def getTar_def
  getScratch_def getOCI_def updateBundleMtree_def
  Build_cached_def Build_run_def Build_buildOnly_def Build_generate_def Build_commit_def
  Build_finish_def

lemma updateBundleMtree_loop_find:
  "updateBundleMtree_loop env rootPath newName infos =
     (case find (\<lambda>fi. suffix ''.mtree'' fi) infos of
        None \<Rightarrow> ret ()
      | Some fi \<Rightarrow> perform (do_unit env)
             (OS (Rename (path_Join [rootPath, fi]) (path_Join [rootPath, newName]))))"
  by (induction infos) auto

lemma returns_updateBundleMtree_loop [returns_intros]:
  "returns (updateBundleMtree_loop env rootPath newName infos)"
  unfolding updateBundleMtree_loop_find by (intro returns_intros)

lemma emits_updateBundleMtree_loop [emits_intros]:
  "(\<And>a b. P (OS (Rename a b), Succeeded)) \<Longrightarrow> (\<And>a b e. P (OS (Rename a b), Failed e)) \<Longrightarrow>
   emits P (updateBundleMtree_loop env rootPath newName infos)"
  unfolding updateBundleMtree_loop_find by (intro emits_intros)

text \<open>Apart from the walk of \<open>getBuilt\<close>, every part of the engine returns.\<close>

lemma returns_getBuilt:
  "getBuilt_walk sf (Tag (From (Layer bo))) (Layer bo) \<noteq> None \<Longrightarrow> returns (getBuilt env bo sf)"
  unfolding getBuilt_def by (auto intro!: returns_intros split: option.splits sum.splits)

lemma returns_GetBaseLayer:
  "Type (From (Layer bo)) = BuiltType \<longrightarrow>
     getBuilt_walk sf (Tag (From (Layer bo))) (Layer bo) \<noteq> None \<Longrightarrow>
   returns (GetBaseLayer env bo sf)"
  unfolding GetBaseLayer_def
  by (cases "Type (From (Layer bo))")
     (auto intro!: returns_intros returns_getBuilt simp: prog_defs)

lemma returns_Build_miss:
  "Type (From l) = BuiltType \<longrightarrow> getBuilt_walk sf (Tag (From l)) l \<noteq> None \<Longrightarrow>
   returns (Build_miss env opts sf l oci author gitVersion name)"
  unfolding Build_miss_def prog_defs
  by (intro returns_intros returns_GetBaseLayer) simp

lemma returns_Build_layer:
  "\<forall>l. Get sf name = Some l \<and> Type (From l) = BuiltType \<longrightarrow>
         getBuilt_walk sf (Tag (From l)) l \<noteq> None \<Longrightarrow>
   returns (Build_layer env opts sf oci author gitVersion name)"
  unfolding Build_layer_def
  by (cases "Get sf name")
     (auto intro!: returns_intros returns_Build_miss simp: Build_cached_def)

subsection \<open>The bundle's mtree file\<close>

lemma updateBundleMtree_run:
  "updateBundleMtree env rootPath newPath s =
     (case do_strings env (OS (ReadDir rootPath)) (ext s) of
        (Inl err, x) \<Rightarrow>
          Some (Inl err, \<lparr>trace = trace s @ [(OS (ReadDir rootPath), Failed err)], ext = x\<rparr>)
      | (Inr infos, x) \<Rightarrow>
          (case find (\<lambda>fi. suffix ''.mtree'' fi) infos of
             None \<Rightarrow>
               Some (Inr (), \<lparr>trace = trace s @ [(OS (ReadDir rootPath), Succeeded)], ext = x\<rparr>)
           | Some fi \<Rightarrow>
               (case do_unit env
                       (OS (Rename (path_Join [rootPath, fi])
                              (path_Join [rootPath,
                                 strings_Replace1 (Digest newPath) (CHR '':'') (CHR ''_'') @ ''.mtree'']))) x of
                  (r, x') \<Rightarrow>
                    Some (r, \<lparr>trace = trace s @
                                 [(OS (ReadDir rootPath), Succeeded),
                                  (OS (Rename (path_Join [rootPath, fi])
                                         (path_Join [rootPath,
                                            strings_Replace1 (Digest newPath) (CHR '':'') (CHR ''_'') @ ''.mtree''])),
                                   outcome_of r)],
                              ext = x'\<rparr>))))"
  by (simp add: updateBundleMtree_def updateBundleMtree_loop_find andThen_def perform_def
      record_call_def ret_def split: prod.splits sum.splits option.splits)

text \<open>
  C10. For every bundle directory, \<open>updateBundleMtree\<close> renames at most one file, the
  first directory entry whose name ends in \<open>.mtree\<close>, to the new descriptor's digest
  string with the first \<open>:\<close> replaced by \<open>_\<close> plus a \<open>.mtree\<close> suffix; when the
  directory contains no file ending in \<open>.mtree\<close>, it returns success without modifying
  the directory at all: its only call is the reading of the directory, and the outside
  state is as that reading left it. Here \<open>infos\<close> are the names \<open>ReadDir\<close> returned,
  in its order, and \<open>x\<close> is the outside state after the reading.
\<close>

theorem updateBundleMtree_spec:
  assumes "do_strings env (OS (ReadDir rootPath)) (ext s) = (Inr infos, x)"
  shows "(find (\<lambda>fi. suffix ''.mtree'' fi) infos = None \<longrightarrow>
            updateBundleMtree env rootPath newPath s =
              Some (Inr (), \<lparr>trace = trace s @ [(OS (ReadDir rootPath), Succeeded)], ext = x\<rparr>)) \<and>
         (\<forall>fi. find (\<lambda>fi. suffix ''.mtree'' fi) infos = Some fi \<longrightarrow>
            (\<exists>r s'. updateBundleMtree env rootPath newPath s = Some (r, s') \<and>
               events s s' =
                 [(OS (ReadDir rootPath), Succeeded),
                  (OS (Rename (path_Join [rootPath, fi])
                         (path_Join [rootPath,
                            strings_Replace1 (Digest newPath) (CHR '':'') (CHR ''_'') @ ''.mtree''])),
                   outcome_of r)] \<and>
               do_unit env
                 (OS (Rename (path_Join [rootPath, fi])
                        (path_Join [rootPath,
                           strings_Replace1 (Digest newPath) (CHR '':'') (CHR ''_'') @ ''.mtree''])))
                 x = (r, ext s'))) \<and>
         (\<exists>r s'. updateBundleMtree env rootPath newPath s = Some (r, s') \<and>
            length (filter is_Rename (events s s')) \<le> 1)"
  using assms
  by (auto simp: updateBundleMtree_run events_def is_Rename_def split: prod.splits option.splits)

theorem updateBundleMtree_spec_witness:
  "updateBundleMtree (example_env []) ''/r/.working'' example_desc world0 =
     Some (Inr (), \<lparr>trace = [(OS (ReadDir ''/r/.working''), Succeeded),
                              (OS (Rename ''/r/.working/sha256_11.mtree''
                                     ''/r/.working/sha256_00.mtree''), Succeeded)],
                     ext = ()\<rparr>) \<and>
   updateBundleMtree example_env_nomtree ''/r/.working'' example_desc world0 =
     Some (Inr (), \<lparr>trace = [(OS (ReadDir ''/r/.working''), Succeeded)], ext = ()\<rparr>)"
proof -
  have a: "do_strings (example_env []) (OS (ReadDir ''/r/.working'')) (ext world0) =
             (Inr [''rootfs'', ''sha256_11.mtree'', ''umoci.json'', ''z.mtree''], ())"
    by (simp add: example_env_def)
  have b: "do_strings example_env_nomtree (OS (ReadDir ''/r/.working'')) (ext world0) =
             (Inr [''rootfs'', ''umoci.json''], ())"
    by (simp add: example_env_nomtree_def example_env_def)
  have fa: "find (\<lambda>fi. suffix ''.mtree'' fi) [''rootfs'', ''sha256_11.mtree'', ''umoci.json'', ''z.mtree'']
              = Some ''sha256_11.mtree''"
    by code_simp
  have fb: "find (\<lambda>fi. suffix ''.mtree'' fi) [''rootfs'', ''umoci.json''] = None"
    by code_simp
  have ra: "updateBundleMtree (example_env []) ''/r/.working'' example_desc world0 =
     Some (Inr (), \<lparr>trace = [(OS (ReadDir ''/r/.working''), Succeeded),
                              (OS (Rename ''/r/.working/sha256_11.mtree''
                                     ''/r/.working/sha256_00.mtree''), Succeeded)],
                     ext = ()\<rparr>)"
    by code_simp
  from updateBundleMtree_spec[OF a, of example_desc] fa ra
  have "events world0 \<lparr>trace = [(OS (ReadDir ''/r/.working''), Succeeded),
                              (OS (Rename ''/r/.working/sha256_11.mtree''
                                     ''/r/.working/sha256_00.mtree''), Succeeded)],
                     ext = ()\<rparr> \<noteq> []"
    by auto
  moreover from updateBundleMtree_spec[OF b, of example_desc] fb
  have "updateBundleMtree example_env_nomtree ''/r/.working'' example_desc world0 =
     Some (Inr (), \<lparr>trace = [(OS (ReadDir ''/r/.working''), Succeeded)], ext = ()\<rparr>)"
    by (simp add: world0_def)
  ultimately show ?thesis using ra by simp
qed

subsection \<open>One iteration of the build loop\<close>

text \<open>An iteration on a layer of the recipe stops at the parsing of the imports, at
  the import, or goes on, after the cache lookup, with the hit or with the miss.\<close>

lemma Build_layer_cases:
  assumes run: "Build_layer env opts sf oci author gitVersion name s = Some (r, s')"
    and l: "Get sf name = Some l"
  obtains
    (parse) e where "ParseImport l = Inl e" "r = Inl e"
      "events s s' = [(Print (Building name), Succeeded), (Print ImportingFiles, Succeeded)]"
  | (import_failed) imps e where "ParseImport l = Inr imps" "r = Inl e"
      "events s s' = [(Print (Building name), Succeeded), (Print ImportingFiles, Succeeded),
                      (Lib (Import (BuildArgs.Config opts) name imps), Failed e)]"
  | (hit) imps cacheEntry s1 where "ParseImport l = Inr imps"
      "trace s1 = trace s @ [(Print (Building name), Succeeded), (Print ImportingFiles, Succeeded),
                      (Lib (Import (BuildArgs.Config opts) name imps), Succeeded),
                      (Cache (CacheLookup name), Hit cacheEntry)]"
      "Build_cached env oci l name cacheEntry s1 = Some (r, s')"
  | (miss) imps s1 where "ParseImport l = Inr imps"
      "trace s1 = trace s @ [(Print (Building name), Succeeded), (Print ImportingFiles, Succeeded),
                      (Lib (Import (BuildArgs.Config opts) name imps), Succeeded),
                      (Cache (CacheLookup name), Miss)]"
      "Build_miss env opts sf l oci author gitVersion name s1 = Some (r, s')"
proof -
  from run l have run':
    "andThen (say (Building name))
          (\<lambda>_. andThen (say ImportingFiles)
          (\<lambda>_. andThen (lift (ParseImport l))
          (\<lambda>imports. andThen (perform (do_unit env)
                                  (Lib (Import (BuildArgs.Config opts) name imports)))
          (\<lambda>_. andThen (lookup env name)
          (\<lambda>found. case found of
               Some cacheEntry \<Rightarrow> Build_cached env oci l name cacheEntry
             | None \<Rightarrow> Build_miss env opts sf l oci author gitVersion name))))) s = Some (r, s')"
    by (simp add: Build_layer_def)
  from run' show thesis
  proof (cases rule: andThen_SomeE)
    case (failed e)
    then show ?thesis using say_run(1)[OF failed(1)] by simp
  next
    case c1: (continued a1 s1)
    note t1 = say_run(2)[OF c1(1)]
    from c1(2) show ?thesis
    proof (cases rule: andThen_SomeE)
      case (failed e)
      then show ?thesis using say_run(1)[OF failed(1)] by simp
    next
      case c2: (continued a2 s2)
      note t2 = say_run(2)[OF c2(1)]
      from c2(2) show ?thesis
      proof (cases rule: andThen_SomeE)
        case (failed e)
        from lift_run[OF failed(1)] failed(2) t1 t2 show ?thesis
          by (intro parse[of e]) (auto simp: events_def)
      next
        case c3: (continued imps s3)
        from lift_run[OF c3(1)] have pi: "ParseImport l = Inr imps" and s3: "s3 = s2" by auto
        from c3(2) show ?thesis
        proof (cases rule: andThen_SomeE)
          case (failed e)
          from perform_run(1)[OF failed(1)] failed(2) t1 t2 s3 pi show ?thesis
            by (intro import_failed[of imps e]) (auto simp: events_def)
        next
          case c4: (continued a4 s4)
          note t4 = perform_run(1)[OF c4(1)]
          from c4(2) show ?thesis
          proof (cases rule: andThen_SomeE)
            case (failed e)
            from failed(1) show ?thesis by (auto elim: lookup_run)
          next
            case c5: (continued found s5)
            from c5(1) have t5: "trace s5 = trace s4 @
                [(Cache (CacheLookup name), case found of None \<Rightarrow> Miss | Some ce \<Rightarrow> Hit ce)]"
              by (auto elim: lookup_run)
            show ?thesis
            proof (cases found)
              case None
              with c5(2) t1 t2 s3 t4 t5 pi show ?thesis
                by (intro miss[of imps s5]) auto
            next
              case (Some ce)
              with c5(2) t1 t2 s3 t4 t5 pi show ?thesis
                by (intro hit[of imps s5 ce]) auto
            qed
          qed
        qed
      qed
    qed
  qed
qed

lemmas miss_defs = prog_defs getBuilt_def GetBaseLayer_def Build_miss_def

lemma emits_Build_miss_not_hit:
  "emits not_hit (Build_miss env opts sf l oci author gitVersion name)"
  unfolding miss_defs
  by (intro emits_intros; simp add: not_hit_def)

lemma Build_cached_run:
  assumes "Build_cached env oci l name cacheEntry s = Some (r, s')"
  shows "trace s' = trace s @
           (if BuildOnly l then
              (if CacheEntry.Name cacheEntry \<noteq> name
               then [(Storage (Snapshot (CacheEntry.Name cacheEntry) name), outcome_of r)]
               else [])
            else [(OnEngine oci (UpdateReference name (Blob cacheEntry)), outcome_of r)]) @
           (if r = Inr () then [(Print (FoundCached name), Succeeded)] else [])"
  using assms
  by (auto simp: Build_cached_def andThen_def perform_def say_def ret_def record_call_def
           split: if_splits prod.splits sum.splits)

text \<open>
  C7. For every layer on which the build cache reports a hit, the driver short-circuits
  the rest of the pipeline: for a layer that is not build-only it writes the cached
  descriptor as the reference of the output OCI under the layer's name; for a build-only
  layer it makes the cached snapshot available under the layer's name, by a snapshot
  from the name of the cache entry when that name differs from the layer's (when the
  names are equal the snapshot is already there and nothing is done); in either case
  no base import, no run command and no repack is performed for that layer. The events
  of the iteration are exactly the two progress lines, the import of the files, the
  lookup, the publication and, when it succeeded, the line \<open>found cached layer\<close>.
\<close>

theorem Build_layer_cache_hit:
  assumes run: "Build_layer env opts sf oci author gitVersion name s = Some (r, s')"
    and l: "Get sf name = Some l"
    and hit: "(Cache (CacheLookup name), Hit cacheEntry) \<in> set (events s s')"
  shows "(\<exists>imps. events s s' =
           [(Print (Building name), Succeeded), (Print ImportingFiles, Succeeded),
            (Lib (Import (BuildArgs.Config opts) name imps), Succeeded),
            (Cache (CacheLookup name), Hit cacheEntry)] @
           (if BuildOnly l then
              (if CacheEntry.Name cacheEntry \<noteq> name
               then [(Storage (Snapshot (CacheEntry.Name cacheEntry) name), outcome_of r)]
               else [])
            else [(OnEngine oci (UpdateReference name (Blob cacheEntry)), outcome_of r)]) @
           (if r = Inr () then [(Print (FoundCached name), Succeeded)] else [])) \<and>
         list_all (\<lambda>ev. \<not> rebuilding (fst ev)) (events s s')"
  using run l
proof (cases rule: Build_layer_cases)
  case (parse e)
  with hit show ?thesis by simp
next
  case (import_failed imps e)
  with hit show ?thesis by simp
next
  case (miss imps s1)
  from emits_events[OF emits_Build_miss_not_hit miss(3)]
  have t: "trace s' = trace s1 @ events s1 s'" and nh: "list_all not_hit (events s1 s')"
    by simp_all
  from t miss(2) have "trace s' = trace s @
      ([(Print (Building name), Succeeded), (Print ImportingFiles, Succeeded),
        (Lib (Import (BuildArgs.Config opts) name imps), Succeeded),
        (Cache (CacheLookup name), Miss)] @ events s1 s')"
    by simp
  from events_append[OF this] nh hit have False by (auto simp: list_all_iff not_hit_def)
  then show ?thesis ..
next
  case (hit imps ce s1)
  note tr = Build_cached_run[OF hit(3)]
  let ?publish = "(if BuildOnly l then
              (if CacheEntry.Name ce \<noteq> name
               then [(Storage (Snapshot (CacheEntry.Name ce) name), outcome_of r)]
               else [])
            else [(OnEngine oci (UpdateReference name (Blob ce)), outcome_of r)]) @
           (if r = Inr () then [(Print (FoundCached name), Succeeded)] else [])"
  from tr hit(2) have "trace s' = trace s @
      ([(Print (Building name), Succeeded), (Print ImportingFiles, Succeeded),
       (Lib (Import (BuildArgs.Config opts) name imps), Succeeded),
       (Cache (CacheLookup name), Hit ce)] @ ?publish)"
    by simp
  from events_append[OF this] have ev: "events s s' =
      [(Print (Building name), Succeeded), (Print ImportingFiles, Succeeded),
       (Lib (Import (BuildArgs.Config opts) name imps), Succeeded),
       (Cache (CacheLookup name), Hit ce)] @ ?publish" .
  with assms(3) have "ce = cacheEntry" by (auto split: if_splits)
  with ev show ?thesis by (auto simp: rebuilding_def)
qed

theorem Build_layer_cache_hit_witness:
  "Build_layer (example_env_hit [''a'']) (example_opts ''tar'') (example_sf [''a'']) ''/o''
     ''me@host'' [] ''a'' world0 =
   Some (Inr (),
     \<lparr>trace = [(Print (Building ''a''), Succeeded), (Print ImportingFiles, Succeeded),
               (Lib (Import example_config ''a'' []), Succeeded),
               (Cache (CacheLookup ''a''), Hit \<lparr>CacheEntry.Name = ''a'', Blob = example_desc\<rparr>),
               (OnEngine ''/o'' (UpdateReference ''a'' example_desc), Succeeded),
               (Print (FoundCached ''a''), Succeeded)],
      ext = ()\<rparr>) \<and>
   list_all (\<lambda>ev. \<not> rebuilding (fst ev))
     [(Print (Building ''a''), Succeeded), (Print ImportingFiles, Succeeded),
      (Lib (Import example_config ''a'' []), Succeeded),
      (Cache (CacheLookup ''a''), Hit \<lparr>CacheEntry.Name = ''a'', Blob = example_desc\<rparr>),
      (OnEngine ''/o'' (UpdateReference ''a'' example_desc), Succeeded),
      (Print (FoundCached ''a''), Succeeded)]"
proof -
  let ?t = "[(Print (Building ''a''), Succeeded), (Print ImportingFiles, Succeeded),
               (Lib (Import example_config ''a'' []), Succeeded),
               (Cache (CacheLookup ''a''), Hit \<lparr>CacheEntry.Name = ''a'', Blob = example_desc\<rparr>),
               (OnEngine ''/o'' (UpdateReference ''a'' example_desc), Succeeded),
               (Print (FoundCached ''a''), Succeeded)]"
  have run: "Build_layer (example_env_hit [''a'']) (example_opts ''tar'') (example_sf [''a''])
      ''/o'' ''me@host'' [] ''a'' world0 = Some (Inr (), \<lparr>trace = ?t, ext = ()\<rparr>)"
    by code_simp
  have l: "Get (example_sf [''a'']) ''a'' = Some example_layer"
    by (simp add: example_sf_def)
  have ev: "events world0 \<lparr>trace = ?t, ext = ()\<rparr> = ?t"
    by (simp add: events_def world0_def)
  have hit: "(Cache (CacheLookup ''a''), Hit \<lparr>CacheEntry.Name = ''a'', Blob = example_desc\<rparr>)
      \<in> set (events world0 \<lparr>trace = ?t, ext = ()\<rparr>)"
    unfolding ev by simp
  from Build_layer_cache_hit[OF run l hit] run show ?thesis
    unfolding ev by simp
qed

subsection \<open>A malformed image URL\<close>

lemma GetBaseLayer_bad_url:
  assumes ty: "Type (From (Layer bo)) = OCIType \<or> Type (From (Layer bo)) = DockerType"
    and bad: "tagFromSkopeoUrl (url_Parse env) (skopeo_url (Layer bo)) = Inl e"
  shows "GetBaseLayer env bo sf s =
     (case do_unit env (OnEngine (OCI bo) (DeleteReference (BaseLayerOpts.Name bo))) (ext s) of
        (d, x) \<Rightarrow>
          Some (Inl e, \<lparr>trace = trace s @
                           [(OnEngine (OCI bo) (DeleteReference (BaseLayerOpts.Name bo)), outcome_of d)],
                        ext = x\<rparr>))"
  using assms
  by (auto simp: GetBaseLayer_def getOCI_def getDocker_def runSkopeo_def skopeo_url_def
        andThen_def attempt_def perform_def fail_def record_call_def
        split: prod.splits sum.splits)

lemma Build_miss_bad_url:
  assumes run: "Build_miss env opts sf l oci author gitVersion name s = Some (r, s')"
    and ty: "Type (From l) = OCIType \<or> Type (From l) = DockerType"
    and bad: "tagFromSkopeoUrl (url_Parse env) (skopeo_url l) = Inl e"
  shows "\<exists>d. (r = Inl e \<and>
              (\<exists>d'. events s s' = [(Storage (Delete ''.working''), d),
                                  (Storage (Create ''.working''), Succeeded),
                                  (OnEngine oci (DeleteReference name), d')])) \<or>
             (\<exists>e'. r = Inl e' \<and>
                   events s s' = [(Storage (Delete ''.working''), d),
                                  (Storage (Create ''.working''), Failed e')])"
proof -
  let ?os = "\<lparr>BaseLayerOpts.Config = BuildArgs.Config opts, BaseLayerOpts.Name = name,
                Target = ''.working'', Layer = l, OCI = oci,
                BaseLayerOpts.LayerType = [], Debug = False\<rparr>"
  from ty bad have g: "\<And>s. GetBaseLayer env ?os sf s =
     (case do_unit env (OnEngine oci (DeleteReference name)) (ext s) of
        (d, x) \<Rightarrow>
          Some (Inl e, \<lparr>trace = trace s @ [(OnEngine oci (DeleteReference name), outcome_of d)],
                        ext = x\<rparr>))"
    using GetBaseLayer_bad_url[of ?os env e sf] by simp
  from ty have nb: "Type (From l) \<noteq> BuiltType" by auto
  from run show ?thesis
    unfolding Build_miss_def Let_def
    by (auto simp: g nb andThen_def attempt_def perform_def record_call_def events_def
          split: prod.splits sum.splits)
qed

text \<open>
  C6, as amended. For a layer from a registry or a local layout whose image URL is
  malformed, such as \<open>oci:foo:bar:baz:quux\<close>, \<open>tagFromSkopeoUrl\<close> fails with a
  bad-OCI-tag error and, on a cache miss, the iteration aborts with that error. By then
  the driver has deleted and created the \<open>.working\<close> rootfs and has asked the output OCI
  to delete the reference of the layer; it has made no image copy, no unpack, no run, no
  snapshot and no cache write. (When the creation of \<open>.working\<close> itself fails, the
  iteration ends there, with the error of the creation.)
\<close>

theorem Build_layer_bad_url:
  assumes run: "Build_layer env opts sf oci author gitVersion name s = Some (r, s')"
    and l: "Get sf name = Some l"
    and miss: "(Cache (CacheLookup name), Miss) \<in> set (events s s')"
    and ty: "Type (From l) = OCIType \<or> Type (From l) = DockerType"
    and bad: "tagFromSkopeoUrl (url_Parse env) (skopeo_url l) = Inl e"
  shows "\<exists>imps d.
           (r = Inl e \<and>
            (\<exists>d'. events s s' =
               [(Print (Building name), Succeeded), (Print ImportingFiles, Succeeded),
                (Lib (Import (BuildArgs.Config opts) name imps), Succeeded),
                (Cache (CacheLookup name), Miss),
                (Storage (Delete ''.working''), d),
                (Storage (Create ''.working''), Succeeded),
                (OnEngine oci (DeleteReference name), d')])) \<or>
           (\<exists>e'. r = Inl e' \<and>
              events s s' =
               [(Print (Building name), Succeeded), (Print ImportingFiles, Succeeded),
                (Lib (Import (BuildArgs.Config opts) name imps), Succeeded),
                (Cache (CacheLookup name), Miss),
                (Storage (Delete ''.working''), d),
                (Storage (Create ''.working''), Failed e')])"
  using run l
proof (cases rule: Build_layer_cases)
  case (parse e)
  with miss show ?thesis by simp
next
  case (import_failed imps e)
  with miss show ?thesis by simp
next
  case (hit imps ce s1)
  from Build_cached_run[OF hit(3)] hit(2)
  have "trace s' = trace s @
      ([(Print (Building name), Succeeded), (Print ImportingFiles, Succeeded),
       (Lib (Import (BuildArgs.Config opts) name imps), Succeeded),
       (Cache (CacheLookup name), Hit ce)] @
       (if BuildOnly l then
              (if CacheEntry.Name ce \<noteq> name
               then [(Storage (Snapshot (CacheEntry.Name ce) name), outcome_of r)]
               else [])
            else [(OnEngine oci (UpdateReference name (Blob ce)), outcome_of r)]) @
           (if r = Inr () then [(Print (FoundCached name), Succeeded)] else []))"
    by simp
  from events_append[OF this] miss have False by (auto split: if_splits)
  then show ?thesis ..
next
  case (miss imps s1)
  let ?pre = "[(Print (Building name), Succeeded), (Print ImportingFiles, Succeeded),
                (Lib (Import (BuildArgs.Config opts) name imps), Succeeded),
                (Cache (CacheLookup name), Miss)]"
  from Build_miss_bad_url[OF miss(3) ty bad] obtain d where
    d: "(r = Inl e \<and>
              (\<exists>d'. events s1 s' = [(Storage (Delete ''.working''), d),
                                  (Storage (Create ''.working''), Succeeded),
                                  (OnEngine oci (DeleteReference name), d')])) \<or>
             (\<exists>e'. r = Inl e' \<and>
                   events s1 s' = [(Storage (Delete ''.working''), d),
                                  (Storage (Create ''.working''), Failed e')])"
    by blast
  have "emits (\<lambda>_. True) (Build_miss env opts sf l oci author gitVersion name)"
    unfolding miss_defs by (intro emits_intros; simp)
  from emits_events[OF this miss(3)] miss(2)
  have "trace s' = trace s @ (?pre @ events s1 s')" by simp
  from events_append[OF this] have "events s s' = ?pre @ events s1 s'" .
  with d show ?thesis by auto
qed

theorem Build_layer_bad_url_witness:
  "Build_layer (example_env [''bad'']) (example_opts ''tar'') (example_sf [''bad'']) ''/o''
     ''me@host'' [] ''bad'' world0 =
   Some (Inl (BadOCITag ''oci:foo:bar:baz:quux''),
     \<lparr>trace =
        [(Print (Building ''bad''), Succeeded),
        (Print ImportingFiles, Succeeded),
        (Lib (Import \<lparr>StackerDir = ''/s'', OCIDir = ''/o'', RootFSDir = ''/r''\<rparr>
           ''bad'' []), Succeeded),
        (Cache (CacheLookup ''bad''), Miss),
        (Storage (Delete ''.working''), Succeeded),
        (Storage (Create ''.working''), Succeeded),
        (OnEngine ''/o'' (DeleteReference ''bad''), Succeeded)],
      ext = ()\<rparr>)"
proof -
  let ?t = "[(Print (Building ''bad''), Succeeded),
            (Print ImportingFiles, Succeeded),
            (Lib (Import \<lparr>StackerDir = ''/s'', OCIDir = ''/o'', RootFSDir = ''/r''\<rparr>
               ''bad'' []), Succeeded),
            (Cache (CacheLookup ''bad''), Miss),
            (Storage (Delete ''.working''), Succeeded),
            (Storage (Create ''.working''), Succeeded),
            (OnEngine ''/o'' (DeleteReference ''bad''), Succeeded)]"
  have run: "Build_layer (example_env [''bad'']) (example_opts ''tar'') (example_sf [''bad''])
      ''/o'' ''me@host'' [] ''bad'' world0 = Some (Inl (BadOCITag ''oci:foo:bar:baz:quux''), \<lparr>trace = ?t, ext = ()\<rparr>)"
    by code_simp
  have l: "Get (example_sf [''bad'']) ''bad'' = Some example_bad"
    by (simp add: example_sf_def)
  have ev: "events world0 \<lparr>trace = ?t, ext = ()\<rparr> = ?t"
    by (simp add: events_def world0_def)
  have miss: "(Cache (CacheLookup ''bad''), Miss) \<in> set (events world0 \<lparr>trace = ?t, ext = ()\<rparr>)"
    unfolding ev by simp
  have ty: "Type (From example_bad) = OCIType \<or> Type (From example_bad) = DockerType"
    by (simp add: example_bad_def)
  have bad: "tagFromSkopeoUrl (url_Parse (example_env [''bad''])) (skopeo_url example_bad) =
      Inl (BadOCITag ''oci:foo:bar:baz:quux'')"
    by code_simp
  from Build_layer_bad_url[OF run l miss ty bad] run show ?thesis by simp
qed

text \<open>The claim as it was stated fails: when the build aborts on the malformed URL, the
  storage driver has already deleted and created the \<open>.working\<close> rootfs for that
  layer.\<close>

theorem Build_bad_url_after_storage:
  "Build (example_env [''bad'']) (example_opts ''tar'') world0 =
   Some (Inl (BadOCITag ''oci:foo:bar:baz:quux''),
     \<lparr>trace =
        [(Lib (NewStackerfile ''/w/stacker.yaml'' []), Succeeded),
        (Lib (NewStorage \<lparr>StackerDir = ''/s'', OCIDir = ''/o'', RootFSDir = ''/r''\<rparr>),
           Succeeded),
        (OS (Stat ''/o''), Succeeded),
        (Lib (OpenLayout ''/o''), Succeeded),
        (Cache (OpenCache \<lparr>StackerDir = ''/s'', OCIDir = ''/o'', RootFSDir = ''/r''\<rparr>
           ''/o''), Succeeded),
        (OS (Abs ''/w''), Succeeded),
        (Lib (GitVersion ''host''), Succeeded),
        (OS Hostname, Succeeded),
        (Storage (Delete ''.working''), Succeeded),
        (Print (Building ''bad''), Succeeded),
        (Print ImportingFiles, Succeeded),
        (Lib (Import \<lparr>StackerDir = ''/s'', OCIDir = ''/o'', RootFSDir = ''/r''\<rparr>
           ''bad'' []), Succeeded),
        (Cache (CacheLookup ''bad''), Miss),
        (Storage (Delete ''.working''), Succeeded),
        (Storage (Create ''.working''), Succeeded),
        (OnEngine ''/o'' (DeleteReference ''bad''), Succeeded),
        (OnEngine ''/o'' Close, Succeeded),
        (Storage Detach, Succeeded)],
      ext = ()\<rparr>)"
  by code_simp

subsection \<open>The import of a base image from a local OCI layout\<close>

lemma emits_runSkopeo_deferred: "emits cache_gc (runSkopeo_deferred env cacheDir)"
  unfolding runSkopeo_deferred_def
  by (intro emits_intros; simp add: cache_gc_def is_ImageCopy_def is_unpack_def)

lemma emits_extractOutput: "emits after_copy (extractOutput env bo)"
  unfolding prog_defs
  by (intro emits_intros; simp add: after_copy_def is_ImageCopy_def)

lemma deferred_SomeE:
  assumes "deferred c b s = Some (r, s')"
  obtains s1 r2 where "b s = Some (r, s1)" "c s1 = Some (r2, s')"
  using assms by (auto simp: deferred_def split: option.splits)

lemma runSkopeo_run:
  assumes run: "runSkopeo env toImport bo copyToOutput s = Some (r, s')"
    and tag: "tagFromSkopeoUrl (url_Parse env) toImport = Inr tag"
  shows "\<exists>gc. list_all cache_gc gc \<and>
     ((\<exists>e. r = Inl e \<and>
           events s s' = [(OS (MkdirAll (layer_bases_oci (BaseLayerOpts.Config bo))), Failed e)]) \<or>
      (\<exists>e. r = Inl e \<and>
           events s s' =
             [(OS (MkdirAll (layer_bases_oci (BaseLayerOpts.Config bo))), Succeeded),
              (Lib (ImageCopy \<lparr>Src = toImport,
                      Dest = ''oci:'' @ layer_bases_oci (BaseLayerOpts.Config bo) @ '':'' @ tag,
                      SkipTLS = Insecure (From (Layer bo))\<rparr>), Failed e)] @ gc) \<or>
      (events s s' =
             [(OS (MkdirAll (layer_bases_oci (BaseLayerOpts.Config bo))), Succeeded),
              (Lib (ImageCopy \<lparr>Src = toImport,
                      Dest = ''oci:'' @ layer_bases_oci (BaseLayerOpts.Config bo) @ '':'' @ tag,
                      SkipTLS = Insecure (From (Layer bo))\<rparr>), Succeeded)] @
             (if copyToOutput \<and> BaseLayerOpts.LayerType bo = ''tar''
              then [(Lib (ImageCopy
                       \<lparr>Src = ''oci:'' @ layer_bases_oci (BaseLayerOpts.Config bo) @ '':'' @ tag,
                        Dest = ''oci:'' @ OCIDir (BaseLayerOpts.Config bo) @ '':'' @ tag,
                        SkipTLS = False\<rparr>), outcome_of r)]
              else []) @ gc \<and>
       (\<not> (copyToOutput \<and> BaseLayerOpts.LayerType bo = ''tar'') \<longrightarrow> r = Inr ())))"
proof -
  let ?cacheDir = "layer_bases_oci (BaseLayerOpts.Config bo)"
  let ?copy1 = "Lib (ImageCopy \<lparr>Src = toImport, Dest = ''oci:'' @ ?cacheDir @ '':'' @ tag,
                      SkipTLS = Insecure (From (Layer bo))\<rparr>)"
  let ?copy2 = "Lib (ImageCopy \<lparr>Src = ''oci:'' @ ?cacheDir @ '':'' @ tag,
                        Dest = ''oci:'' @ OCIDir (BaseLayerOpts.Config bo) @ '':'' @ tag,
                        SkipTLS = False\<rparr>)"
  let ?body = "andThen (perform (do_unit env) ?copy1)
                 (\<lambda>_. if \<not> copyToOutput then ret ()
                       else if BaseLayerOpts.LayerType bo = ''tar'' then perform (do_unit env) ?copy2
                       else ret ())"
  from run tag have run':
    "andThen (perform (do_unit env) (OS (MkdirAll ?cacheDir)))
       (\<lambda>_. deferred (runSkopeo_deferred env ?cacheDir) ?body) s = Some (r, s')"
    by (simp add: runSkopeo_def Let_def)
  from run' show ?thesis
  proof (cases rule: andThen_SomeE)
    case (failed e)
    from perform_run(1)[OF failed(1)] failed(2) have "events s s' = [(OS (MkdirAll ?cacheDir), Failed e)]"
      by (simp add: events_def)
    with failed(2) show ?thesis by (intro exI[of _ "[]"]) auto
  next
    case (continued a s1)
    from perform_run(1)[OF continued(1)]
    have t1: "trace s1 = trace s @ [(OS (MkdirAll ?cacheDir), Succeeded)]" by simp
    from continued(2) obtain s2 r2 where body: "?body s1 = Some (r, s2)"
      and gc: "runSkopeo_deferred env ?cacheDir s2 = Some (r2, s')"
      by (rule deferred_SomeE)
    from emits_events[OF emits_runSkopeo_deferred gc]
    have t3: "trace s' = trace s2 @ events s2 s'" and g: "list_all cache_gc (events s2 s')"
      by simp_all
    from body show ?thesis
    proof (cases rule: andThen_SomeE)
      case (failed e)
      from perform_run(1)[OF failed(1)] failed(2) t1 t3
      have "trace s' = trace s @ ([(OS (MkdirAll ?cacheDir), Succeeded), (?copy1, Failed e)] @ events s2 s')"
        by simp
      from events_append[OF this] g failed(2) show ?thesis
        by (intro exI[of _ "events s2 s'"]) auto
    next
      case c2: (continued a2 s3)
      from perform_run(1)[OF c2(1)]
      have t2: "trace s3 = trace s1 @ [(?copy1, Succeeded)]" by simp
      show ?thesis
      proof (cases "copyToOutput \<and> BaseLayerOpts.LayerType bo = ''tar''")
        case True
        with c2(2) have "perform (do_unit env) ?copy2 s3 = Some (r, s2)" by simp
        from perform_run(1)[OF this] t1 t2 t3
        have "trace s' = trace s @ ([(OS (MkdirAll ?cacheDir), Succeeded), (?copy1, Succeeded)] @
                 [(?copy2, outcome_of r)] @ events s2 s')"
          by simp
        from events_append[OF this] g True show ?thesis
          by (intro exI[of _ "events s2 s'"]) auto
      next
        case False
        with c2(2) have "ret () s3 = Some (r, s2)" by (auto split: if_splits)
        from ret_run[OF this] t1 t2 t3
        have "r = Inr ()" and "trace s' = trace s @ ([(OS (MkdirAll ?cacheDir), Succeeded), (?copy1, Succeeded)] @
                 events s2 s')"
          by simp_all
        from this(1) events_append[OF this(2)] g False show ?thesis
          by (intro exI[of _ "events s2 s'"]) auto
      qed
    qed
  qed
qed


lemma runSkopeo_extends:
  assumes "runSkopeo env toImport bo copyToOutput s = Some (r, s')"
  shows "trace s' = trace s @ events s s'"
proof -
  have "emits (\<lambda>_. True) (runSkopeo env toImport bo copyToOutput)"
    unfolding runSkopeo_def runSkopeo_deferred_def by (intro emits_intros; simp)
  from emits_events[OF this assms] show ?thesis by simp
qed

text \<open>
  C3, as amended. For every layer with \<open>from.type == oci\<close> that is not build-only, the
  base import first copies the image from the local \<open>oci:<url>\<close> into the layer-base
  cache; then, when the layer type of the base-layer options is \<open>tar\<close>, it copies it
  further into the output OCI layout; and only then it unpacks it into the \<open>.working\<close>
  bundle. With another layer type the second copy is not made. In every run that
  reaches the unpack, the events begin with the deletion of the layer's reference, the
  creation of the cache directory and the successful copies, and no copy follows.
\<close>

theorem GetBaseLayer_oci_order:
  assumes run: "GetBaseLayer env bo sf s = Some (r, s')"
    and ty: "Type (From (Layer bo)) = OCIType"
    and nb: "\<not> BuildOnly (Layer bo)"
    and unpack: "\<exists>ev \<in> set (events s s'). is_unpack (fst ev)"
  shows "\<exists>tag d rest.
           tagFromSkopeoUrl (url_Parse env) (''oci:'' @ Url (From (Layer bo))) = Inr tag \<and>
           events s s' =
             [(OnEngine (OCI bo) (DeleteReference (BaseLayerOpts.Name bo)), d),
              (OS (MkdirAll (layer_bases_oci (BaseLayerOpts.Config bo))), Succeeded),
              (Lib (ImageCopy \<lparr>Src = ''oci:'' @ Url (From (Layer bo)),
                      Dest = ''oci:'' @ layer_bases_oci (BaseLayerOpts.Config bo) @ '':'' @ tag,
                      SkipTLS = Insecure (From (Layer bo))\<rparr>), Succeeded)] @
             (if BaseLayerOpts.LayerType bo = ''tar''
              then [(Lib (ImageCopy
                       \<lparr>Src = ''oci:'' @ layer_bases_oci (BaseLayerOpts.Config bo) @ '':'' @ tag,
                        Dest = ''oci:'' @ OCIDir (BaseLayerOpts.Config bo) @ '':'' @ tag,
                        SkipTLS = False\<rparr>), Succeeded)]
              else []) @ rest \<and>
           list_all (\<lambda>ev. \<not> is_ImageCopy (fst ev)) rest \<and>
           (\<exists>ev \<in> set rest. is_unpack (fst ev))"
proof -
  let ?del = "OnEngine (OCI bo) (DeleteReference (BaseLayerOpts.Name bo))"
  let ?url = "''oci:'' @ Url (From (Layer bo))"
  from run ty have run':
    "andThen (attempt (perform (do_unit env) ?del))
       (\<lambda>_. andThen (runSkopeo env ?url bo (\<not> BuildOnly (Layer bo)))
               (\<lambda>_. extractOutput env bo)) s = Some (r, s')"
    by (simp add: GetBaseLayer_def getOCI_def)
  from run' show ?thesis
  proof (cases rule: andThen_SomeE)
    case (failed e)
    then show ?thesis by (auto elim: attempt_perform_run)
  next
    case (continued a s1)
    from continued(1) obtain d where t1: "trace s1 = trace s @ [(?del, d)]"
      by (auto elim: attempt_perform_run)
    show ?thesis
    proof (cases "tagFromSkopeoUrl (url_Parse env) ?url")
      case (Inl e)
      with continued(2) have "s' = s1"
        by (simp add: runSkopeo_def andThen_def fail_def)
      with t1 have "events s s' = [(?del, d)]" by (simp add: events_def)
      with unpack show ?thesis by (simp add: is_unpack_def)
    next
      case (Inr tag)
      let ?mk = "(OS (MkdirAll (layer_bases_oci (BaseLayerOpts.Config bo))), Succeeded)"
      let ?c1 = "Lib (ImageCopy \<lparr>Src = ?url,
                      Dest = ''oci:'' @ layer_bases_oci (BaseLayerOpts.Config bo) @ '':'' @ tag,
                      SkipTLS = Insecure (From (Layer bo))\<rparr>)"
      let ?c2 = "Lib (ImageCopy
                       \<lparr>Src = ''oci:'' @ layer_bases_oci (BaseLayerOpts.Config bo) @ '':'' @ tag,
                        Dest = ''oci:'' @ OCIDir (BaseLayerOpts.Config bo) @ '':'' @ tag,
                        SkipTLS = False\<rparr>)"
      from continued(2) show ?thesis
      proof (cases rule: andThen_SomeE)
        case (failed e)
        note t2 = runSkopeo_extends[OF failed(1)]
        from runSkopeo_run[OF failed(1) Inr] failed(2) obtain gc where
          gc: "list_all cache_gc gc" and
          ev: "events s1 s' = [(OS (MkdirAll (layer_bases_oci (BaseLayerOpts.Config bo))), Failed e)] \<or>
               events s1 s' = [?mk, (?c1, Failed e)] @ gc \<or>
               events s1 s' = [?mk, (?c1, Succeeded)] @
                 (if \<not> BuildOnly (Layer bo) \<and> BaseLayerOpts.LayerType bo = ''tar''
                  then [(?c2, Failed e)] else []) @ gc"
          by auto
        from gc have gcu: "list_all (\<lambda>ev. \<not> is_unpack (fst ev)) gc"
          by (simp add: list_all_iff cache_gc_def)
        have nu: "\<not> is_unpack (OS (MkdirAll (layer_bases_oci (BaseLayerOpts.Config bo))))"
          "\<not> is_unpack ?c1" "\<not> is_unpack ?c2" "\<not> is_unpack ?del"
          by (simp_all add: is_unpack_def)
        from ev gcu nu have "list_all (\<lambda>ev. \<not> is_unpack (fst ev)) (events s1 s')"
          by (elim disjE) (simp_all split: if_splits)
        moreover from t1 t2 have "trace s' = trace s @ ((?del, d) # events s1 s')"
          by simp
        from events_append[OF this] have "events s s' = (?del, d) # events s1 s'" .
        ultimately show ?thesis using unpack nu by (auto simp: list_all_iff)
      next
        case c2: (continued a2 s2)
        from runSkopeo_run[OF c2(1) Inr] nb obtain gc where
          gc: "list_all cache_gc gc" and
          ev: "events s1 s2 = [?mk, (?c1, Succeeded)] @
                 (if BaseLayerOpts.LayerType bo = ''tar'' then [(?c2, Succeeded)] else []) @ gc"
          by (auto split: if_splits)
        note runSkopeo_extends[OF c2(1)]
        moreover from emits_events[OF emits_extractOutput c2(2)]
        have t3: "trace s' = trace s2 @ events s2 s'" and ac: "list_all after_copy (events s2 s')"
          by simp_all
        ultimately have "trace s' = trace s @ ([(?del, d), ?mk, (?c1, Succeeded)] @
                 (if BaseLayerOpts.LayerType bo = ''tar'' then [(?c2, Succeeded)] else []) @
                 (gc @ events s2 s'))"
          using t1 ev by simp
        from events_append[OF this]
        have e: "events s s' = [(?del, d), ?mk, (?c1, Succeeded)] @
                 (if BaseLayerOpts.LayerType bo = ''tar'' then [(?c2, Succeeded)] else []) @
                 (gc @ events s2 s')" .
        have nc: "list_all (\<lambda>ev. \<not> is_ImageCopy (fst ev)) (gc @ events s2 s')"
          using gc ac by (auto simp: list_all_iff cache_gc_def after_copy_def)
        have nu: "\<not> is_unpack (OS (MkdirAll (layer_bases_oci (BaseLayerOpts.Config bo))))"
          "\<not> is_unpack ?c1" "\<not> is_unpack ?c2" "\<not> is_unpack ?del"
          by (simp_all add: is_unpack_def)
        from unpack nu have "\<exists>ev \<in> set (gc @ events s2 s'). is_unpack (fst ev)"
          unfolding e by (auto split: if_splits)
        with e nc Inr show ?thesis by blast
      qed
    qed
  qed
qed

theorem GetBaseLayer_oci_order_witness:
  "GetBaseLayer (example_env [''o'']) (example_os ''o'' example_oci ''tar'') (example_sf [''o''])
     world0 =
   Some (Inr (),
     \<lparr>trace =
        [(OnEngine ''/o'' (DeleteReference ''o''), Succeeded),
        (OS (MkdirAll ''/s/layer-bases/oci''), Succeeded),
        (Lib (ImageCopy \<lparr>Src = ''oci:/tmp/oci:centos'', Dest =
           ''oci:/s/layer-bases/oci:centos'', SkipTLS = False\<rparr>), Succeeded),
        (Lib (ImageCopy \<lparr>Src = ''oci:/s/layer-bases/oci:centos'', Dest = ''oci:/o:centos'',
           SkipTLS = False\<rparr>), Succeeded),
        (Lib (OpenLayout ''/s/layer-bases/oci''), Succeeded),
        (OnEngine ''/s/layer-bases/oci'' GC, Succeeded),
        (OnEngine ''/s/layer-bases/oci'' Close, Succeeded),
        (Print (UnpackingTo ''/r/.working''), Succeeded),
        (OS (Readlink ''/proc/self/exe''), Succeeded),
        (Lib (MaybeRunInUserns [''host'', ''--oci-dir'', ''/s/layer-bases/oci'', ''--roots-dir'',
           ''/r'', ''--stacker-dir'', ''/s'', ''umoci'', ''--bundle-path'', ''/r/.working'',
           ''--tag'', ''centos'', ''unpack''] ''image unpack failed''), Succeeded),
        (OnEngine ''/o'' (DeleteReference ''centos''), Succeeded)],
      ext = ()\<rparr>)"
proof -
  let ?t = "[(OnEngine ''/o'' (DeleteReference ''o''), Succeeded),
            (OS (MkdirAll ''/s/layer-bases/oci''), Succeeded),
            (Lib (ImageCopy \<lparr>Src = ''oci:/tmp/oci:centos'', Dest =
               ''oci:/s/layer-bases/oci:centos'', SkipTLS = False\<rparr>), Succeeded),
            (Lib (ImageCopy \<lparr>Src = ''oci:/s/layer-bases/oci:centos'', Dest =
               ''oci:/o:centos'', SkipTLS = False\<rparr>), Succeeded),
            (Lib (OpenLayout ''/s/layer-bases/oci''), Succeeded),
            (OnEngine ''/s/layer-bases/oci'' GC, Succeeded),
            (OnEngine ''/s/layer-bases/oci'' Close, Succeeded),
            (Print (UnpackingTo ''/r/.working''), Succeeded),
            (OS (Readlink ''/proc/self/exe''), Succeeded),
            (Lib (MaybeRunInUserns [''host'', ''--oci-dir'', ''/s/layer-bases/oci'',
               ''--roots-dir'', ''/r'', ''--stacker-dir'', ''/s'', ''umoci'', ''--bundle-path'',
               ''/r/.working'', ''--tag'', ''centos'', ''unpack''] ''image unpack failed''),
               Succeeded),
            (OnEngine ''/o'' (DeleteReference ''centos''), Succeeded)]"
  have run: "GetBaseLayer (example_env [''o'']) (example_os ''o'' example_oci ''tar'')
      (example_sf [''o'']) world0 = Some (Inr (), \<lparr>trace = ?t, ext = ()\<rparr>)"
    by code_simp
  have ty: "Type (From (Layer (example_os ''o'' example_oci ''tar''))) = OCIType"
    by (simp add: example_os_def example_oci_def)
  have nb: "\<not> BuildOnly (Layer (example_os ''o'' example_oci ''tar''))"
    by (simp add: example_os_def example_oci_def example_layer_def)
  have ev: "events world0 \<lparr>trace = ?t, ext = ()\<rparr> = ?t"
    by (simp add: events_def world0_def)
  have unpack: "\<exists>ev \<in> set (events world0 \<lparr>trace = ?t, ext = ()\<rparr>). is_unpack (fst ev)"
    unfolding ev by (simp add: is_unpack_def)
  from GetBaseLayer_oci_order[OF run ty nb unpack] run show ?thesis by simp
qed

text \<open>The claim as it was stated fails: with the layer type \<open>squashfs\<close> the image is
  copied into the layer-base cache and unpacked, and never copied into the output
  layout.\<close>

theorem GetBaseLayer_oci_squashfs_no_output_copy:
  "GetBaseLayer (example_env [''o'']) (example_os ''o'' example_oci ''squashfs'')
     (example_sf [''o'']) world0 =
   Some (Inr (),
     \<lparr>trace =
        [(OnEngine ''/o'' (DeleteReference ''o''), Succeeded),
        (OS (MkdirAll ''/s/layer-bases/oci''), Succeeded),
        (Lib (ImageCopy \<lparr>Src = ''oci:/tmp/oci:centos'', Dest =
           ''oci:/s/layer-bases/oci:centos'', SkipTLS = False\<rparr>), Succeeded),
        (Lib (OpenLayout ''/s/layer-bases/oci''), Succeeded),
        (OnEngine ''/s/layer-bases/oci'' GC, Succeeded),
        (OnEngine ''/s/layer-bases/oci'' Close, Succeeded),
        (Print (UnpackingTo ''/r/.working''), Succeeded),
        (OS (Readlink ''/proc/self/exe''), Succeeded),
        (Lib (MaybeRunInUserns [''host'', ''--oci-dir'', ''/s/layer-bases/oci'', ''--roots-dir'',
           ''/r'', ''--stacker-dir'', ''/s'', ''umoci'', ''--bundle-path'', ''/r/.working'',
           ''--tag'', ''centos'', ''unpack''] ''image unpack failed''), Succeeded),
        (OnEngine ''/o'' (DeleteReference ''centos''), Succeeded),
        (OnEngine ''/o'' GC, Succeeded),
        (Lib (MkSquashfs \<lparr>StackerDir = ''/s'', OCIDir = ''/o'', RootFSDir = ''/r''\<rparr>
           []), Succeeded),
        (OnEngine ''/o'' (PutBlob ''host''), Succeeded),
        (Lib (OpenLayout ''/s/layer-bases/oci''), Succeeded),
        (OnEngine ''/s/layer-bases/oci'' (LookupManifest []), Succeeded),
        (OnEngine ''/s/layer-bases/oci'' (LookupConfig \<lparr>MediaType =
           ''application/vnd.oci.image.manifest.v1+json'', Digest = ''sha256:00'', Size =
           2\<rparr>), Succeeded),
        (OnEngine ''/o'' (PutBlobJSON_Image \<lparr>DiffIDs = [''sha256:22''], ImageRest =
           []\<rparr>), Succeeded),
        (OnEngine ''/o'' (PutBlobJSON_Manifest \<lparr>Manifest.Config = \<lparr>MediaType =
           ''application/vnd.oci.image.config.v1+json'', Digest = ''sha256:22'', Size = 3\<rparr>,
           Layers = [\<lparr>MediaType = ''application/vnd.oci.image.layer.squashfs'', Digest =
           ''sha256:22'', Size = 3\<rparr>], Annotations = []\<rparr>), Succeeded),
        (OnEngine ''/o'' (UpdateReference ''o'' \<lparr>MediaType =
           ''application/vnd.oci.image.manifest.v1+json'', Digest = ''sha256:22'', Size =
           3\<rparr>), Succeeded),
        (OS (ReadDir ''/r/.working''), Succeeded),
        (OS (Rename ''/r/.working/sha256_11.mtree'' ''/r/.working/sha256_22.mtree''), Succeeded),
        (Lib (WriteBundleMeta ''/r/.working'' \<lparr>Walk = [\<lparr>MediaType =
           ''application/vnd.oci.image.manifest.v1+json'', Digest = ''sha256:22'', Size =
           3\<rparr>]\<rparr>), Succeeded),
        (OnEngine ''/s/layer-bases/oci'' Close, Succeeded)],
      ext = ()\<rparr>)"
  by code_simp

subsection \<open>Build-only layers\<close>

lemma emits_GetBaseLayer_build_only:
  assumes bo: "BuildOnly (Layer bo)"
  shows "emits (build_only_event (BaseLayerOpts.Config bo) (Type (From (Layer bo)) = BuiltType))
           (GetBaseLayer env bo sf)"
proof (cases "Type (From (Layer bo))")
  case BuiltType
  then show ?thesis
    unfolding GetBaseLayer_def getBuilt_def
    by (simp only: from_type.case)
       (intro emits_intros; simp add: build_only_event_def writes_reference_def)
next
  case TarType
  then show ?thesis
    unfolding GetBaseLayer_def prog_defs
    by (simp only: from_type.case)
       (intro emits_intros; simp add: build_only_event_def writes_reference_def into_cache_def)
next
  case OCIType
  then show ?thesis
    unfolding GetBaseLayer_def prog_defs
    by (simp only: from_type.case)
       (intro emits_intros; simp add: bo build_only_event_def writes_reference_def into_cache_def)
next
  case DockerType
  then show ?thesis
    unfolding GetBaseLayer_def prog_defs
    by (simp only: from_type.case)
       (intro emits_intros; simp add: bo build_only_event_def writes_reference_def into_cache_def)
next
  case ScratchType
  then show ?thesis
    unfolding GetBaseLayer_def prog_defs
    by (simp only: from_type.case)
       (intro emits_intros; simp add: build_only_event_def writes_reference_def into_cache_def)
next
  case (OtherType t)
  then show ?thesis
    unfolding GetBaseLayer_def
    by (simp only: from_type.case)
       (intro emits_intros; simp add: build_only_event_def writes_reference_def into_cache_def)
qed

lemma emits_Build_miss_build_only:
  assumes bo: "BuildOnly l"
  shows "emits (build_only_event (BuildArgs.Config opts) (Type (From l) = BuiltType))
           (Build_miss env opts sf l oci author gitVersion name)"
proof -
  let ?os = "\<lparr>BaseLayerOpts.Config = BuildArgs.Config opts, BaseLayerOpts.Name = name,
                Target = ''.working'', Layer = l, OCI = oci,
                BaseLayerOpts.LayerType = [], Debug = False\<rparr>"
  have g: "emits (build_only_event (BuildArgs.Config opts) (Type (From l) = BuiltType))
             (GetBaseLayer env ?os sf)"
    using emits_GetBaseLayer_build_only[of ?os env sf] bo by simp
  show ?thesis
    unfolding Build_miss_def Let_def Build_run_def Build_buildOnly_def
    by (intro emits_intros g; simp add: bo build_only_event_def writes_reference_def into_cache_def)
qed


lemma build_only_end_after:
  assumes "emits (\<lambda>_. True) m" and "\<And>a. traces (build_only_end name) (k a)"
  shows "traces (build_only_end name) (andThen m k)"
proof (rule traces_after[OF assms])
  fix e :: error and t :: "(call \<times> outcome) list"
  show "build_only_end name (Inl e) t" by (simp add: build_only_end_def)
next
  fix r t1 t2
  assume "build_only_end name r t2"
  then show "build_only_end name r (t1 @ t2)"
    unfolding build_only_end_def by (metis append.assoc)
qed

lemma traces_Build_buildOnly: "traces (build_only_end name) (Build_buildOnly env name)"
proof (rule tracesI)
  fix s r s'
  assume "Build_buildOnly env name s = Some (r, s')"
  then show "\<exists>t. trace s' = trace s @ t \<and> build_only_end name r t"
    unfolding Build_buildOnly_def build_only_end_def
    by (auto simp: andThen_def attempt_def perform_def say_def record_call_def
          split: prod.splits sum.splits)
qed

lemma emits_GetBaseLayer_any: "emits (\<lambda>_. True) (GetBaseLayer env bo sf)"
  unfolding GetBaseLayer_def getBuilt_def prog_defs by (intro emits_intros; simp)

lemma traces_Build_miss_build_only:
  assumes bo: "BuildOnly l"
  shows "traces (build_only_end name) (Build_miss env opts sf l oci author gitVersion name)"
  unfolding Build_miss_def Let_def
  by (intro build_only_end_after emits_GetBaseLayer_any emits_intros;
      simp add: bo traces_Build_buildOnly Build_run_def emits_intros)

text \<open>
  C8. For every build-only layer that is rebuilt (cache miss), the driver deletes any
  existing snapshot named after the layer, snapshots \<open>.working\<close> under the layer's name
  and records a cache entry with a zero (empty) OCI descriptor: these are, with the
  progress line, the last events of every iteration that succeeds. It writes no reference
  for that layer into the output OCI, whatever the layer type, \<open>squashfs\<close> included: no
  event of the iteration is an update of a reference or a repack, and the image copies of
  a layer that is not built from another layer all go into the layer-base cache.
\<close>

theorem Build_layer_build_only:
  assumes run: "Build_layer env opts sf oci author gitVersion name s = Some (r, s')"
    and l: "Get sf name = Some l"
    and miss: "(Cache (CacheLookup name), Miss) \<in> set (events s s')"
    and bo: "BuildOnly l"
  shows "list_all (\<lambda>ev. \<not> writes_reference (fst ev)) (events s s') \<and>
         (Type (From l) \<noteq> BuiltType \<longrightarrow>
            list_all (\<lambda>ev. into_cache (BuildArgs.Config opts) (fst ev)) (events s s')) \<and>
         (r = Inr () \<longrightarrow>
            (\<exists>pre d. events s s' =
               pre @ [(Storage (Delete name), d),
                      (Storage (Snapshot ''.working'' name), Succeeded),
                      (Print BuildOnlySkipping, Succeeded),
                      (Cache (CachePut name zero_Descriptor), Succeeded)]))"
  using run l
proof (cases rule: Build_layer_cases)
  case (parse e)
  with miss show ?thesis by simp
next
  case (import_failed imps e)
  with miss show ?thesis by simp
next
  case (hit imps ce s1)
  from Build_cached_run[OF hit(3)] hit(2)
  have "trace s' = trace s @
      ([(Print (Building name), Succeeded), (Print ImportingFiles, Succeeded),
       (Lib (Import (BuildArgs.Config opts) name imps), Succeeded),
       (Cache (CacheLookup name), Hit ce)] @
       (if BuildOnly l then
              (if CacheEntry.Name ce \<noteq> name
               then [(Storage (Snapshot (CacheEntry.Name ce) name), outcome_of r)]
               else [])
            else [(OnEngine oci (UpdateReference name (Blob ce)), outcome_of r)]) @
           (if r = Inr () then [(Print (FoundCached name), Succeeded)] else []))"
    by simp
  from events_append[OF this] miss have False by (auto split: if_splits)
  then show ?thesis ..
next
  case (miss imps s1)
  let ?pre = "[(Print (Building name), Succeeded), (Print ImportingFiles, Succeeded),
                (Lib (Import (BuildArgs.Config opts) name imps), Succeeded),
                (Cache (CacheLookup name), Miss)]"
  from emits_events[OF emits_Build_miss_build_only[OF bo] miss(3)]
  have t: "trace s' = trace s1 @ events s1 s'"
    and ev: "list_all (build_only_event (BuildArgs.Config opts) (Type (From l) = BuiltType))
               (events s1 s')"
    by simp_all
  from t miss(2) have "trace s' = trace s @ (?pre @ events s1 s')" by simp
  from events_append[OF this] have e: "events s s' = ?pre @ events s1 s'" .
  from tracesD[OF traces_Build_miss_build_only[OF bo] miss(3)]
  have "build_only_end name r (events s1 s')" by simp
  then have "r = Inr () \<longrightarrow>
            (\<exists>pre d. events s s' =
               pre @ [(Storage (Delete name), d),
                      (Storage (Snapshot ''.working'' name), Succeeded),
                      (Print BuildOnlySkipping, Succeeded),
                      (Cache (CachePut name zero_Descriptor), Succeeded)])"
    unfolding e build_only_end_def by (metis append.assoc)
  moreover from ev have "list_all (\<lambda>ev. \<not> writes_reference (fst ev)) (events s s')"
    unfolding e by (auto simp: list_all_iff build_only_event_def writes_reference_def)
  moreover from ev have "Type (From l) \<noteq> BuiltType \<longrightarrow>
            list_all (\<lambda>ev. into_cache (BuildArgs.Config opts) (fst ev)) (events s s')"
    unfolding e by (auto simp: list_all_iff build_only_event_def into_cache_def)
  ultimately show ?thesis by blast
qed

theorem Build_layer_build_only_witness:
  "Build_layer (example_env [''b'']) (example_opts ''squashfs'') (example_sf [''b'']) ''/o''
     ''me@host'' [] ''b'' world0 =
   Some (Inr (),
     \<lparr>trace =
        [(Print (Building ''b''), Succeeded),
        (Print ImportingFiles, Succeeded),
        (Lib (Import example_config ''b'' []), Succeeded),
        (Cache (CacheLookup ''b''), Miss),
        (Storage (Delete ''.working''), Succeeded),
        (Storage (Create ''.working''), Succeeded),
        (OnEngine ''/o'' (DeleteReference ''b''), Succeeded),
        (OS (Readlink ''/proc/self/exe''), Succeeded),
        (Lib (MaybeRunInUserns [''host'', ''--oci-dir'', ''/o'', ''--roots-dir'', ''/r'',
           ''--stacker-dir'', ''/s'', ''umoci'', ''--tag'', ''b'', ''--bundle-path'',
           ''/r/.working'', ''init''] ''image unpack failed''), Succeeded),
        (Lib (NewApply (example_os ''b'' example_buildonly []) False), Succeeded),
        (Lib DoApply, Succeeded),
        (Print RunningCommands, Succeeded),
        (Storage (Delete ''b''), Succeeded),
        (Storage (Snapshot ''.working'' ''b''), Succeeded),
        (Print BuildOnlySkipping, Succeeded),
        (Cache (CachePut ''b'' zero_Descriptor), Succeeded)],
      ext = ()\<rparr>) \<and>
   list_all (\<lambda>ev. \<not> writes_reference (fst ev))
        [(Print (Building ''b''), Succeeded),
        (Print ImportingFiles, Succeeded),
        (Lib (Import example_config ''b'' []), Succeeded),
        (Cache (CacheLookup ''b''), Miss),
        (Storage (Delete ''.working''), Succeeded),
        (Storage (Create ''.working''), Succeeded),
        (OnEngine ''/o'' (DeleteReference ''b''), Succeeded),
        (OS (Readlink ''/proc/self/exe''), Succeeded),
        (Lib (MaybeRunInUserns [''host'', ''--oci-dir'', ''/o'', ''--roots-dir'', ''/r'',
           ''--stacker-dir'', ''/s'', ''umoci'', ''--tag'', ''b'', ''--bundle-path'',
           ''/r/.working'', ''init''] ''image unpack failed''), Succeeded),
        (Lib (NewApply (example_os ''b'' example_buildonly []) False), Succeeded),
        (Lib DoApply, Succeeded),
        (Print RunningCommands, Succeeded),
        (Storage (Delete ''b''), Succeeded),
        (Storage (Snapshot ''.working'' ''b''), Succeeded),
        (Print BuildOnlySkipping, Succeeded),
        (Cache (CachePut ''b'' zero_Descriptor), Succeeded)]"
proof -
  let ?t = "[(Print (Building ''b''), Succeeded),
            (Print ImportingFiles, Succeeded),
            (Lib (Import example_config ''b'' []), Succeeded),
            (Cache (CacheLookup ''b''), Miss),
            (Storage (Delete ''.working''), Succeeded),
            (Storage (Create ''.working''), Succeeded),
            (OnEngine ''/o'' (DeleteReference ''b''), Succeeded),
            (OS (Readlink ''/proc/self/exe''), Succeeded),
            (Lib (MaybeRunInUserns [''host'', ''--oci-dir'', ''/o'', ''--roots-dir'', ''/r'',
               ''--stacker-dir'', ''/s'', ''umoci'', ''--tag'', ''b'', ''--bundle-path'',
               ''/r/.working'', ''init''] ''image unpack failed''), Succeeded),
            (Lib (NewApply (example_os ''b'' example_buildonly []) False), Succeeded),
            (Lib DoApply, Succeeded),
            (Print RunningCommands, Succeeded),
            (Storage (Delete ''b''), Succeeded),
            (Storage (Snapshot ''.working'' ''b''), Succeeded),
            (Print BuildOnlySkipping, Succeeded),
            (Cache (CachePut ''b'' zero_Descriptor), Succeeded)]"
  have run: "Build_layer (example_env [''b'']) (example_opts ''squashfs'') (example_sf [''b''])
      ''/o'' ''me@host'' [] ''b'' world0 = Some (Inr (), \<lparr>trace = ?t, ext = ()\<rparr>)"
    by code_simp
  have l: "Get (example_sf [''b'']) ''b'' = Some example_buildonly"
    by (simp add: example_sf_def)
  have ev: "events world0 \<lparr>trace = ?t, ext = ()\<rparr> = ?t"
    by (simp add: events_def world0_def)
  have miss: "(Cache (CacheLookup ''b''), Miss) \<in> set (events world0 \<lparr>trace = ?t, ext = ()\<rparr>)"
    unfolding ev by simp
  have bo: "BuildOnly example_buildonly"
    by (simp add: example_buildonly_def)
  from Build_layer_build_only[OF run l miss bo] run show ?thesis
    unfolding ev by simp
qed

subsection \<open>The deletion of the layer's reference\<close>

lemma GetBaseLayer_deletes_first:
  "traces (\<lambda>r t. deletes_first (OCI bo) (BaseLayerOpts.Name bo) t) (GetBaseLayer env bo sf)"
  unfolding GetBaseLayer_def
proof (rule traces_andThen[where
      ?T1.0 = "\<lambda>r t. (\<exists>d. t = [(OnEngine (OCI bo) (DeleteReference (BaseLayerOpts.Name bo)), d)]) \<and> (\<exists>a. r = Inr a)"
      and ?T2.0 = "\<lambda>r t. True"])
  show "traces (\<lambda>r t. (\<exists>d. t = [(OnEngine (OCI bo) (DeleteReference (BaseLayerOpts.Name bo)), d)]) \<and> (\<exists>a. r = Inr a))
     (attempt (perform (do_unit env) (OnEngine (OCI bo) (DeleteReference (BaseLayerOpts.Name bo)))))"
    by (rule tracesI) (auto elim!: attempt_perform_run)
next
  fix a :: "error + unit"
  have "emits (\<lambda>_. True) (case Type (From (Layer bo)) of
              BuiltType \<Rightarrow> getBuilt env bo sf
            | TarType \<Rightarrow> getTar env bo
            | OCIType \<Rightarrow> getOCI env bo
            | DockerType \<Rightarrow> getDocker env bo
            | ScratchType \<Rightarrow> getScratch env bo
            | OtherType t \<Rightarrow> fail (UnknownFromType t))"
    unfolding getBuilt_def prog_defs by (intro emits_intros; simp)
  then show "traces (\<lambda>r t. True) (case Type (From (Layer bo)) of
              BuiltType \<Rightarrow> getBuilt env bo sf
            | TarType \<Rightarrow> getTar env bo
            | OCIType \<Rightarrow> getOCI env bo
            | DockerType \<Rightarrow> getDocker env bo
            | ScratchType \<Rightarrow> getScratch env bo
            | OtherType t \<Rightarrow> fail (UnknownFromType t))"
    by (auto dest!: emits_traces elim: traces_weaken)
qed (auto simp: deletes_first_def)

lemma only_committed_after:
  assumes "emits no_update m" and "\<And>a. traces (\<lambda>r. only_committed) (k a)"
  shows "traces (\<lambda>r. only_committed) (andThen m k)"
proof (rule traces_after[OF assms])
  fix e :: error and t :: "(call \<times> outcome) list"
  assume "list_all no_update t"
  then show "only_committed t" by (auto simp: only_committed_def list_all_iff no_update_def)
next
  fix t1 t2 :: "(call \<times> outcome) list"
  assume "list_all no_update t1" "only_committed t2"
  then show "only_committed (t1 @ t2)"
    by (auto simp: only_committed_def list_all_iff no_update_def)
qed

lemma only_committed_quiet: "emits no_update m \<Longrightarrow> traces (\<lambda>r. only_committed) m"
  by (drule emits_traces, erule traces_weaken)
     (auto simp: only_committed_def list_all_iff no_update_def)

lemma emits_Build_finish_no_update: "emits no_update (Build_finish env opts oci name newPath)"
  unfolding Build_finish_def updateBundleMtree_def
  by (intro emits_intros; simp add: no_update_def is_UpdateReference_def)

lemma traces_commit_tail:
  "traces (\<lambda>r. only_committed)
     (andThen (perform (do_path env) (Mutator MutatorCommit))
        (\<lambda>newPath. andThen (lift (Root newPath))
        (\<lambda>root. andThen (perform (do_unit env) (OnEngine oci (UpdateReference name root)))
        (\<lambda>_. ret newPath))))"
proof (rule tracesI)
  fix s r s'
  assume "andThen (perform (do_path env) (Mutator MutatorCommit))
        (\<lambda>newPath. andThen (lift (Root newPath))
        (\<lambda>root. andThen (perform (do_unit env) (OnEngine oci (UpdateReference name root)))
        (\<lambda>_. ret newPath))) s = Some (r, s')"
  then show "\<exists>t. trace s' = trace s @ t \<and> only_committed t"
    by (auto simp: andThen_def perform_def lift_def ret_def record_call_def only_committed_def
          is_UpdateReference_def split: prod.splits sum.splits)
qed

lemma traces_Build_commit:
  "traces (\<lambda>r. only_committed) (Build_commit env sf l oci author gitVersion name)"
  unfolding Build_commit_def Let_def
  by (intro traces_commit_tail only_committed_after emits_intros;
      simp add: no_update_def is_UpdateReference_def)

lemma traces_commit_finish:
  "traces (\<lambda>r. only_committed)
     (andThen (Build_commit env sf l oci author gitVersion name)
        (\<lambda>newPath. Build_finish env opts oci name newPath))"
proof (rule traces_andThen[OF traces_Build_commit emits_traces[OF emits_Build_finish_no_update]])
  fix t1 t2 :: "(call \<times> outcome) list"
  assume "only_committed t1" "list_all no_update t2"
  then show "only_committed (t1 @ t2)"
    by (auto simp: only_committed_def list_all_iff no_update_def)
qed

lemma emits_GetBaseLayer_no_update:
  assumes "BaseLayerOpts.LayerType bo \<noteq> ''squashfs''"
  shows "emits no_update (GetBaseLayer env bo sf)"
  unfolding GetBaseLayer_def getBuilt_def getOCI_def getDocker_def getTar_def getScratch_def
    umociInit_def RunUmociSubcommand_def runSkopeo_def runSkopeo_deferred_def extractOutput_def
  by (intro emits_intros; simp add: assms no_update_def is_UpdateReference_def)

lemma traces_if:
  "(c \<Longrightarrow> traces T a) \<Longrightarrow> (\<not> c \<Longrightarrow> traces T b) \<Longrightarrow> traces T (if c then a else b)"
  by simp

lemma traces_Build_miss_only_committed:
  "traces (\<lambda>r. only_committed) (Build_miss env opts sf l oci author gitVersion name)"
  unfolding Build_miss_def Let_def
  by (intro traces_commit_finish only_committed_after traces_if only_committed_quiet
        emits_GetBaseLayer_no_update emits_intros;
      simp add: no_update_def is_UpdateReference_def Build_run_def Build_buildOnly_def
        Build_generate_def emits_intros)


lemma andThen_starts:
  assumes run: "andThen m k s = Some (r, s')"
    and m: "traces (\<lambda>r t. deletes_first oci name t) m"
    and k: "\<And>a. emits (\<lambda>_. True) (k a)"
  shows "trace s' = trace s @ events s s' \<and> deletes_first oci name (events s s')"
  using run
proof (cases rule: andThen_SomeE)
  case (failed e)
  from tracesD[OF m failed(1)] show ?thesis .
next
  case (continued a s1)
  from tracesD[OF m continued(1)] obtain d rest where
    t1: "trace s1 = trace s @ (OnEngine oci (DeleteReference name), d) # rest"
    by (auto simp: deletes_first_def)
  from emits_events[OF k continued(2)] t1
  have "trace s' = trace s @ ((OnEngine oci (DeleteReference name), d) # rest @ events s1 s')"
    by simp
  from events_append[OF this] this show ?thesis by (simp add: deletes_first_def)
qed

lemma perform_if:
  "(if c then perform f a else perform f b) = perform f (if c then a else b)"
  by simp

lemma Build_miss_starts:
  assumes run: "Build_miss env opts sf l oci author gitVersion name s = Some (r, s')"
  shows "\<exists>d0 c rest.
           events s s' =
             (Storage (Delete ''.working''), d0) #
             (if Type (From l) = BuiltType then Storage (Restore (Tag (From l)) ''.working'')
              else Storage (Create ''.working''), c) # rest \<and>
           (c = Succeeded \<longrightarrow> deletes_first oci name rest) \<and>
           (c \<noteq> Succeeded \<longrightarrow> rest = [] \<and> (\<exists>e. r = Inl e))"
  using run[unfolded Build_miss_def Let_def perform_if]
proof (cases rule: andThen_SomeE)
  case (failed e)
  then show ?thesis by (auto elim: attempt_perform_run)
next
  case (continued a s1)
  let ?prep = "if Type (From l) = BuiltType then Storage (Restore (Tag (From l)) ''.working'')
              else Storage (Create ''.working'')"
  from continued(1) obtain d0 where
    t1: "trace s1 = trace s @ [(Storage (Delete ''.working''), d0)]"
    by (auto elim: attempt_perform_run)
  from continued(2) show ?thesis
  proof (cases rule: andThen_SomeE)
    case (failed e)
    from perform_run(1)[OF failed(1)] failed(2) t1
    have "trace s' = trace s @ ((Storage (Delete ''.working''), d0) # (?prep, Failed e) # [])"
      by simp
    from events_append[OF this] failed(2) show ?thesis by auto
  next
    case c2: (continued a2 s2)
    from perform_run(1)[OF c2(1)] t1
    have t2: "trace s2 = trace s @ [(Storage (Delete ''.working''), d0), (?prep, Succeeded)]"
      by simp
    have "trace s' = trace s2 @ events s2 s' \<and> deletes_first oci name (events s2 s')"
      by (rule andThen_starts[OF c2(2)])
         (use GetBaseLayer_deletes_first[of "\<lparr>BaseLayerOpts.Config = BuildArgs.Config opts,
             BaseLayerOpts.Name = name, Target = ''.working'', Layer = l, OCI = oci,
             BaseLayerOpts.LayerType = [], Debug = False\<rparr>" env sf] in simp,
          (intro emits_intros; simp add: prog_defs emits_intros))
    with t2 have "trace s' = trace s @ ((Storage (Delete ''.working''), d0) # (?prep, Succeeded) #
        events s2 s')" and df: "deletes_first oci name (events s2 s')"
      by simp_all
    from events_append[OF this(1)] df show ?thesis by auto
  qed
qed

text \<open>The reference after the deletion: what is kept through the calls that do not
  write it.\<close>

lemma preservesI:
  "(\<And>s r s'. m s = Some (r, s') \<Longrightarrow>
      \<exists>t. trace s' = trace s @ t \<and>
          (I (ext s) \<longrightarrow> list_all (\<lambda>ev. \<not> W (fst ev)) t \<longrightarrow> I (ext s'))) \<Longrightarrow>
   preserves I W m"
  unfolding preserves_def by blast

lemma preservesD:
  "preserves I W m \<Longrightarrow> m s = Some (r, s') \<Longrightarrow>
   \<exists>t. trace s' = trace s @ t \<and>
       (I (ext s) \<longrightarrow> list_all (\<lambda>ev. \<not> W (fst ev)) t \<longrightarrow> I (ext s'))"
  unfolding preserves_def by blast

lemma preserves_ret [preserves_intros]: "preserves I W (ret a)"
  by (rule preservesI) (simp add: ret_def)

lemma preserves_fail [preserves_intros]: "preserves I W (fail e)"
  by (rule preservesI) (simp add: fail_def)

lemma preserves_lift [preserves_intros]: "preserves I W (lift r)"
  by (rule preservesI) (simp add: lift_def)

lemma preserves_diverge [preserves_intros]: "preserves I W diverge"
  by (rule preservesI) (simp add: diverge_def)

lemma preserves_now [preserves_intros]: "preserves I W (now env)"
  by (rule preservesI) (auto simp: now_def)

lemma preserves_say [preserves_intros]: "preserves I W (say m)"
  by (rule preservesI) (auto simp: say_def record_call_def)

lemma preserves_perform [preserves_intros]:
  "oracle_keeps I W f \<Longrightarrow> preserves I W (perform f c)"
  unfolding oracle_keeps_def
  by (rule preservesI) (auto simp: perform_def record_call_def split: prod.splits, metis snd_conv)

lemma preserves_lookup [preserves_intros]:
  "oracle_keeps I W (do_lookup env) \<Longrightarrow> preserves I W (lookup env name)"
  unfolding oracle_keeps_def
  by (rule preservesI) (auto simp: lookup_def record_call_def split: prod.splits, metis snd_conv)

lemma preserves_combinedOutput [preserves_intros]:
  "oracle_keeps I W (do_exec env) \<Longrightarrow> preserves I W (combinedOutput env args)"
  unfolding oracle_keeps_def
  by (rule preservesI) (auto simp: combinedOutput_def record_call_def split: prod.splits, metis snd_conv)

lemma preserves_andThen [preserves_intros]:
  assumes m: "preserves I W m" and k: "\<And>a. preserves I W (k a)"
  shows "preserves I W (andThen m k)"
proof (rule preservesI)
  fix s r s'
  assume "andThen m k s = Some (r, s')"
  then show "\<exists>t. trace s' = trace s @ t \<and>
      (I (ext s) \<longrightarrow> list_all (\<lambda>ev. \<not> W (fst ev)) t \<longrightarrow> I (ext s'))"
  proof (cases rule: andThen_SomeE)
    case (failed e)
    from preservesD[OF m failed(1)] show ?thesis .
  next
    case (continued a s1)
    from preservesD[OF m continued(1)] obtain t1 where
      t1: "trace s1 = trace s @ t1"
        "I (ext s) \<longrightarrow> list_all (\<lambda>ev. \<not> W (fst ev)) t1 \<longrightarrow> I (ext s1)" by blast
    from preservesD[OF k continued(2)] obtain t2 where
      t2: "trace s' = trace s1 @ t2"
        "I (ext s1) \<longrightarrow> list_all (\<lambda>ev. \<not> W (fst ev)) t2 \<longrightarrow> I (ext s')" by blast
    from t1 t2 show ?thesis by (intro exI[of _ "t1 @ t2"]) simp
  qed
qed

lemma preserves_attempt [preserves_intros]: "preserves I W m \<Longrightarrow> preserves I W (attempt m)"
  unfolding preserves_def attempt_def by (auto split: option.splits)

lemma preserves_wrapf [preserves_intros]: "preserves I W m \<Longrightarrow> preserves I W (wrapf msg m)"
  unfolding preserves_def wrapf_def by (auto split: option.splits sum.splits)

lemma preserves_deferred [preserves_intros]:
  assumes c: "preserves I W c" and b: "preserves I W b"
  shows "preserves I W (deferred c b)"
proof (rule preservesI)
  fix s r s'
  assume "deferred c b s = Some (r, s')"
  then obtain s1 r2 where rb: "b s = Some (r, s1)" and rc: "c s1 = Some (r2, s')"
    by (auto simp: deferred_def split: option.splits)
  from preservesD[OF b rb] obtain t1 where
    t1: "trace s1 = trace s @ t1"
      "I (ext s) \<longrightarrow> list_all (\<lambda>ev. \<not> W (fst ev)) t1 \<longrightarrow> I (ext s1)" by blast
  from preservesD[OF c rc] obtain t2 where
    t2: "trace s' = trace s1 @ t2"
      "I (ext s1) \<longrightarrow> list_all (\<lambda>ev. \<not> W (fst ev)) t2 \<longrightarrow> I (ext s')" by blast
  from t1 t2 show "\<exists>t. trace s' = trace s @ t \<and>
      (I (ext s) \<longrightarrow> list_all (\<lambda>ev. \<not> W (fst ev)) t \<longrightarrow> I (ext s'))"
    by (intro exI[of _ "t1 @ t2"]) simp
qed

lemma preserves_if [preserves_intros]:
  "(c \<Longrightarrow> preserves I W a) \<Longrightarrow> (\<not> c \<Longrightarrow> preserves I W b) \<Longrightarrow>
   preserves I W (if c then a else b)"
  by simp

lemma preserves_Let [preserves_intros]: "preserves I W (f x) \<Longrightarrow> preserves I W (Let x f)"
  by simp

lemma preserves_case_sum [preserves_intros]:
  "(\<And>e. preserves I W (f e)) \<Longrightarrow> (\<And>a. preserves I W (g a)) \<Longrightarrow>
   preserves I W (case_sum f g x)"
  by (cases x) simp_all

lemma preserves_case_option [preserves_intros]:
  "preserves I W f \<Longrightarrow> (\<And>a. preserves I W (g a)) \<Longrightarrow> preserves I W (case_option f g x)"
  by (cases x) simp_all

lemma preserves_case_prod [preserves_intros]:
  "(\<And>a b. preserves I W (f a b)) \<Longrightarrow> preserves I W (case_prod f x)"
  by (cases x) simp_all

lemma preserves_case_from_type [preserves_intros]:
  "preserves I W a \<Longrightarrow> preserves I W b \<Longrightarrow> preserves I W c \<Longrightarrow> preserves I W d \<Longrightarrow>
   preserves I W e \<Longrightarrow> (\<And>t. preserves I W (f t)) \<Longrightarrow>
   preserves I W (case_from_type a b c d e f x)"
  by (cases x) simp_all

lemma preserves_updateBundleMtree_loop [preserves_intros]:
  "oracle_keeps I W (do_unit env) \<Longrightarrow>
   preserves I W (updateBundleMtree_loop env rootPath newName infos)"
  unfolding updateBundleMtree_loop_find by (intro preserves_intros)

lemma reference_store_keeps:
  assumes "reference_store env refs oci name W"
  shows "oracle_keeps (\<lambda>x. refs x oci name = None) W (do_unit env)"
    "oracle_keeps (\<lambda>x. refs x oci name = None) W (do_string env)"
    "oracle_keeps (\<lambda>x. refs x oci name = None) W (do_strings env)"
    "oracle_keeps (\<lambda>x. refs x oci name = None) W (do_stackerfile env)"
    "oracle_keeps (\<lambda>x. refs x oci name = None) W (do_lookup env)"
    "oracle_keeps (\<lambda>x. refs x oci name = None) W (do_paths env)"
    "oracle_keeps (\<lambda>x. refs x oci name = None) W (do_path env)"
    "oracle_keeps (\<lambda>x. refs x oci name = None) W (do_blob env)"
    "oracle_keeps (\<lambda>x. refs x oci name = None) W (do_manifest env)"
    "oracle_keeps (\<lambda>x. refs x oci name = None) W (do_image env)"
    "oracle_keeps (\<lambda>x. refs x oci name = None) W (do_imageconfig env)"
    "oracle_keeps (\<lambda>x. refs x oci name = None) W (do_meta env)"
    "oracle_keeps (\<lambda>x. refs x oci name = None) W (do_annotations env)"
    "oracle_keeps (\<lambda>x. refs x oci name = None) W (do_exec env)"
  using assms unfolding reference_store_def by simp_all

lemma reference_store_deletes:
  assumes "reference_store env refs oci name W"
    and "do_unit env (OnEngine oci (DeleteReference name)) x = (Inr (), x')"
  shows "refs x' oci name = None"
  using assms unfolding reference_store_def by (metis fst_conv snd_conv)

lemma preserves_import:
  assumes st: "reference_store env refs oci name W"
  shows "preserves (\<lambda>x. refs x oci name = None) W
     (case Type (From (Layer bo)) of
              BuiltType \<Rightarrow> getBuilt env bo sf
            | TarType \<Rightarrow> getTar env bo
            | OCIType \<Rightarrow> getOCI env bo
            | DockerType \<Rightarrow> getDocker env bo
            | ScratchType \<Rightarrow> getScratch env bo
            | OtherType t \<Rightarrow> fail (UnknownFromType t))"
  unfolding getBuilt_def prog_defs
  by (intro preserves_intros reference_store_keeps[OF st])

lemma preserves_Build_miss_rest:
  assumes st: "reference_store env refs oci name W"
  shows "preserves (\<lambda>x. refs x oci name = None) W
     (andThen (perform (do_unit env) (Lib (NewApply os (ApplyConsiderTimestamps opts))))
     (\<lambda>_. andThen (perform (do_unit env) (Lib DoApply))
     (\<lambda>_. andThen (say RunningCommands)
     (\<lambda>_. andThen (lift (ParseRun l))
     (\<lambda>run. andThen (if length run \<noteq> 0 then Build_run env opts l name' run else ret ())
     (\<lambda>_. if BuildOnly l then Build_buildOnly env name'
           else andThen (Build_generate env opts name')
                  (\<lambda>_. andThen (Build_commit env sf l oci' author gitVersion name')
                  (\<lambda>newPath. Build_finish env opts oci' name' newPath))))))))"
  unfolding prog_defs
  by (intro preserves_intros reference_store_keeps[OF st])


lemma attempt_never_fails: "attempt m s \<noteq> Some (Inl e, s')"
  by (auto simp: attempt_def split: option.splits)

lemma attempt_InrD: "attempt m s = Some (Inr a, s1) \<Longrightarrow> m s = Some (a, s1)"
  by (auto simp: attempt_def split: option.splits)

lemma GetBaseLayer_run:
  assumes run: "GetBaseLayer env bo sf s = Some (r, s')"
  shows "\<exists>a s1. perform (do_unit env) (OnEngine (OCI bo) (DeleteReference (BaseLayerOpts.Name bo))) s = Some (a, s1) \<and>
     (case Type (From (Layer bo)) of
              BuiltType \<Rightarrow> getBuilt env bo sf
            | TarType \<Rightarrow> getTar env bo
            | OCIType \<Rightarrow> getOCI env bo
            | DockerType \<Rightarrow> getDocker env bo
            | ScratchType \<Rightarrow> getScratch env bo
            | OtherType t \<Rightarrow> fail (UnknownFromType t)) s1 = Some (r, s')"
  using run[unfolded GetBaseLayer_def]
proof (cases rule: andThen_SomeE)
  case (failed e)
  with attempt_never_fails show ?thesis by blast
next
  case (continued a s1)
  from attempt_InrD[OF continued(1)] continued(2) show ?thesis by blast
qed


lemma preservesE:
  assumes "preserves I W m" and "m s = Some (r, s')"
  obtains t where "trace s' = trace s @ t"
    and "I (ext s) \<Longrightarrow> list_all (\<lambda>ev. \<not> W (fst ev)) t \<Longrightarrow> I (ext s')"
  using assms unfolding preserves_def by meson

lemma GetBaseLayer_reference:
  assumes st: "reference_store env refs (OCI bo) (BaseLayerOpts.Name bo) W"
    and run: "GetBaseLayer env bo sf s = Some (r, s')"
  shows "\<exists>d rest.
           trace s' = trace s @ (OnEngine (OCI bo) (DeleteReference (BaseLayerOpts.Name bo)), d) # rest \<and>
           (d = Succeeded \<longrightarrow>
              list_all (\<lambda>ev. \<not> W (fst ev)) rest \<longrightarrow>
              refs (ext s') (OCI bo) (BaseLayerOpts.Name bo) = None)"
proof -
  let ?D = "OnEngine (OCI bo) (DeleteReference (BaseLayerOpts.Name bo))"
  from GetBaseLayer_run[OF run] obtain a s1 where p: "perform (do_unit env) ?D s = Some (a, s1)"
    and d: "(case Type (From (Layer bo)) of
              BuiltType \<Rightarrow> getBuilt env bo sf
            | TarType \<Rightarrow> getTar env bo
            | OCIType \<Rightarrow> getOCI env bo
            | DockerType \<Rightarrow> getDocker env bo
            | ScratchType \<Rightarrow> getScratch env bo
            | OtherType t \<Rightarrow> fail (UnknownFromType t)) s1 = Some (r, s')"
    by (elim exE conjE)
  from perform_run[OF p] have t1: "trace s1 = trace s @ [(?D, outcome_of a)]"
    and x1: "do_unit env ?D (ext s) = (a, ext s1)" by simp_all
  have i: "outcome_of a = Succeeded \<Longrightarrow> refs (ext s1) (OCI bo) (BaseLayerOpts.Name bo) = None"
  proof -
    assume "outcome_of a = Succeeded"
    then have "a = Inr ()" by (cases a) simp_all
    with x1 reference_store_deletes[OF st] show "refs (ext s1) (OCI bo) (BaseLayerOpts.Name bo) = None"
      by simp
  qed
  show ?thesis
  proof (rule preservesE[OF preserves_import[OF st] d])
    fix t
    assume t: "trace s' = trace s1 @ t"
      and k: "refs (ext s1) (OCI bo) (BaseLayerOpts.Name bo) = None \<Longrightarrow>
        list_all (\<lambda>ev. \<not> W (fst ev)) t \<Longrightarrow>
        refs (ext s') (OCI bo) (BaseLayerOpts.Name bo) = None"
    from t1 t have "trace s' = trace s @ (?D, outcome_of a) # t" by simp
    moreover have "outcome_of a = Succeeded \<longrightarrow>
        list_all (\<lambda>ev. \<not> W (fst ev)) t \<longrightarrow>
        refs (ext s') (OCI bo) (BaseLayerOpts.Name bo) = None"
    proof (intro impI)
      assume a1: "outcome_of a = Succeeded"
        and a2: "list_all (\<lambda>ev. \<not> W (fst ev)) t"
      from k[OF i[OF a1] a2]
      show "refs (ext s') (OCI bo) (BaseLayerOpts.Name bo) = None" .
    qed
    ultimately show ?thesis by (intro exI conjI)
  qed
qed

lemma andThen_reference:
  assumes run: "andThen m k s = Some (r, s')"
    and m: "\<And>r1 s1. m s = Some (r1, s1) \<Longrightarrow>
              \<exists>d rest. trace s1 = trace s @ (c, d) # rest \<and>
                 (d = Succeeded \<longrightarrow> list_all (\<lambda>ev. \<not> W (fst ev)) rest \<longrightarrow> I (ext s1))"
    and k: "\<And>a. preserves I W (k a)"
  shows "\<exists>d rest. trace s' = trace s @ (c, d) # rest \<and>
           (d = Succeeded \<longrightarrow> list_all (\<lambda>ev. \<not> W (fst ev)) rest \<longrightarrow> I (ext s'))"
  using run
proof (cases rule: andThen_SomeE)
  case (failed e)
  from m[OF failed(1)] show ?thesis .
next
  case (continued a s1)
  from m[OF continued(1)] obtain d rest where
    t1: "trace s1 = trace s @ (c, d) # rest"
    and i1: "d = Succeeded \<longrightarrow> list_all (\<lambda>ev. \<not> W (fst ev)) rest \<longrightarrow> I (ext s1)"
    by (elim exE conjE)
  show ?thesis
  proof (rule preservesE[OF k continued(2)])
    fix t2
    assume t2: "trace s' = trace s1 @ t2"
      and i2: "I (ext s1) \<Longrightarrow> list_all (\<lambda>ev. \<not> W (fst ev)) t2 \<Longrightarrow> I (ext s')"
    from t1 t2 have "trace s' = trace s @ (c, d) # (rest @ t2)" by simp
    moreover have "d = Succeeded \<longrightarrow> list_all (\<lambda>ev. \<not> W (fst ev)) (rest @ t2) \<longrightarrow> I (ext s')"
    proof (intro impI)
      assume a1: "d = Succeeded" and a2: "list_all (\<lambda>ev. \<not> W (fst ev)) (rest @ t2)"
      from a2 have r: "list_all (\<lambda>ev. \<not> W (fst ev)) rest"
        and t: "list_all (\<lambda>ev. \<not> W (fst ev)) t2" by simp_all
      from i1 a1 r have "I (ext s1)" by simp
      from i2[OF this t] show "I (ext s')" .
    qed
    ultimately show ?thesis by (intro exI conjI)
  qed
qed

lemma Build_miss_reference:
  assumes st: "reference_store env refs oci name W"
    and run: "Build_miss env opts sf l oci author gitVersion name s = Some (r, s')"
  shows "\<exists>d0 c rest.
           events s s' =
             (Storage (Delete ''.working''), d0) #
             (if Type (From l) = BuiltType then Storage (Restore (Tag (From l)) ''.working'')
              else Storage (Create ''.working''), c) # rest \<and>
           (c = Succeeded \<longrightarrow>
              (\<exists>d post. rest = (OnEngine oci (DeleteReference name), d) # post \<and>
                 (d = Succeeded \<longrightarrow>
                    list_all (\<lambda>ev. \<not> W (fst ev)) post \<longrightarrow>
                    refs (ext s') oci name = None))) \<and>
           (c \<noteq> Succeeded \<longrightarrow> rest = [] \<and> (\<exists>e. r = Inl e))"
  using run[unfolded Build_miss_def Let_def perform_if]
proof (cases rule: andThen_SomeE)
  case (failed e)
  with attempt_never_fails show ?thesis by blast
next
  case (continued a s1)
  let ?prep = "if Type (From l) = BuiltType then Storage (Restore (Tag (From l)) ''.working'')
              else Storage (Create ''.working'')"
  let ?os = "\<lparr>BaseLayerOpts.Config = BuildArgs.Config opts,
             BaseLayerOpts.Name = name, Target = ''.working'', Layer = l, OCI = oci,
             BaseLayerOpts.LayerType = [], Debug = False\<rparr>"
  from perform_run(1)[OF attempt_InrD[OF continued(1)]]
  have t1: "trace s1 = trace s @ [(Storage (Delete ''.working''), outcome_of a)]" .
  from continued(2) show ?thesis
  proof (cases rule: andThen_SomeE)
    case (failed e)
    from perform_run(1)[OF failed(1)] failed(2) t1
    have "trace s' = trace s @ ((Storage (Delete ''.working''), outcome_of a) # (?prep, Failed e) # [])"
      by simp
    from events_append[OF this]
    have "events s s' = (Storage (Delete ''.working''), outcome_of a) # (?prep, Failed e) # []" .
    with failed(2) show ?thesis
      by (intro exI[of _ "outcome_of a"] exI[of _ "Failed e"] exI[of _ "[]"]) simp
  next
    case c2: (continued a2 s2)
    from perform_run(1)[OF c2(1)] t1
    have t2: "trace s2 = trace s @ [(Storage (Delete ''.working''), outcome_of a), (?prep, Succeeded)]"
      by simp
    have st': "reference_store env refs (OCI ?os) (BaseLayerOpts.Name ?os) W"
      using st by simp
    have "\<exists>d rest. trace s' = trace s2 @ (OnEngine oci (DeleteReference name), d) # rest \<and>
           (d = Succeeded \<longrightarrow> list_all (\<lambda>ev. \<not> W (fst ev)) rest \<longrightarrow>
              refs (ext s') oci name = None)"
    proof (rule andThen_reference[OF c2(2)])
      fix r1 s3
      assume "GetBaseLayer env ?os sf s2 = Some (r1, s3)"
      from GetBaseLayer_reference[OF st' this]
      show "\<exists>d rest. trace s3 = trace s2 @ (OnEngine oci (DeleteReference name), d) # rest \<and>
           (d = Succeeded \<longrightarrow> list_all (\<lambda>ev. \<not> W (fst ev)) rest \<longrightarrow>
              refs (ext s3) oci name = None)"
        by simp
    next
      fix a3 :: unit
      show "preserves (\<lambda>x. refs x oci name = None) W
         (andThen (perform (do_unit env) (Lib (NewApply ?os (ApplyConsiderTimestamps opts))))
         (\<lambda>_. andThen (perform (do_unit env) (Lib DoApply))
         (\<lambda>_. andThen (say RunningCommands)
         (\<lambda>_. andThen (lift (ParseRun l))
         (\<lambda>run. andThen (if length run \<noteq> 0 then Build_run env opts l name run else ret ())
         (\<lambda>_. if BuildOnly l then Build_buildOnly env name
               else andThen (Build_generate env opts name)
                      (\<lambda>_. andThen (Build_commit env sf l oci author gitVersion name)
                      (\<lambda>newPath. Build_finish env opts oci name newPath))))))))"
        by (rule preserves_Build_miss_rest[OF st])
    qed
    then obtain d post where
      p: "trace s' = trace s2 @ (OnEngine oci (DeleteReference name), d) # post"
      and i: "d = Succeeded \<longrightarrow> list_all (\<lambda>ev. \<not> W (fst ev)) post \<longrightarrow>
           refs (ext s') oci name = None" by (elim exE conjE)
    from p t2 have "trace s' = trace s @ ((Storage (Delete ''.working''), outcome_of a) #
        (?prep, Succeeded) # (OnEngine oci (DeleteReference name), d) # post)" by simp
    from events_append[OF this]
    have "events s s' = (Storage (Delete ''.working''), outcome_of a) #
        (?prep, Succeeded) # (OnEngine oci (DeleteReference name), d) # post" .
    moreover from i have "\<exists>d' post'. (OnEngine oci (DeleteReference name), d) # post =
        (OnEngine oci (DeleteReference name), d') # post' \<and>
        (d' = Succeeded \<longrightarrow> list_all (\<lambda>ev. \<not> W (fst ev)) post' \<longrightarrow>
           refs (ext s') oci name = None)"
      by (intro exI[of _ d] exI[of _ post] conjI refl)
    ultimately show ?thesis
      by (intro exI[of _ "outcome_of a"] exI[of _ Succeeded]
            exI[of _ "(OnEngine oci (DeleteReference name), d) # post"]) simp
  qed
qed

text \<open>
  C9, as amended. For every layer processed on the cache-miss path, \<open>GetBaseLayer\<close>
  unconditionally asks the output OCI to delete any existing reference named after the
  layer before it dispatches on \<open>from.type\<close>: the deletion is the first event of
  every run of \<open>GetBaseLayer\<close>, whatever the engine answers, for the five source types
  and for an unknown one, and \<open>GetBaseLayer\<close> returns for every type but \<open>built\<close>
  (where it returns when the walk of the chain of built layers ends). On a cache miss
  the driver reaches this deletion as soon as \<open>.working\<close> has been prepared.
  Consequently, when the engine reports the deletion done, the output OCI no longer holds
  the previous reference of the layer, at the end of \<open>GetBaseLayer\<close> and at the end of
  the build of the layer, whether it fails or not: with collaborators that remove a
  reference they report deleted and that keep an absent reference absent in every call
  outside \<open>W\<close>, the reference is absent at the end of the run, or a later step of this
  build, a call in \<open>W\<close>, has written it anew. And the driver itself updates no
  reference after the deletion unless the newly built image was committed.
\<close>

theorem GetBaseLayer_deletes_reference:
  "(\<forall>r s'. GetBaseLayer env bo sf s = Some (r, s') \<longrightarrow>
      (\<exists>d rest.
         events s s' = (OnEngine (OCI bo) (DeleteReference (BaseLayerOpts.Name bo)), d) # rest \<and>
         (reference_store env refs (OCI bo) (BaseLayerOpts.Name bo) W \<longrightarrow> d = Succeeded \<longrightarrow>
          (refs (ext s') (OCI bo) (BaseLayerOpts.Name bo) = None \<or>
           (\<exists>ev \<in> set rest. W (fst ev)))))) \<and>
   (Type (From (Layer bo)) \<noteq> BuiltType \<longrightarrow> (\<exists>r s'. GetBaseLayer env bo sf s = Some (r, s'))) \<and>
   (\<forall>r s'. Build_miss env opts sf l oci author gitVersion name s = Some (r, s') \<longrightarrow>
      (\<exists>d0 c rest.
         events s s' =
           (Storage (Delete ''.working''), d0) #
           (if Type (From l) = BuiltType then Storage (Restore (Tag (From l)) ''.working'')
            else Storage (Create ''.working''), c) # rest \<and>
         (c = Succeeded \<longrightarrow>
            (\<exists>d post. rest = (OnEngine oci (DeleteReference name), d) # post \<and>
               (reference_store env refs oci name W \<longrightarrow> d = Succeeded \<longrightarrow>
                (refs (ext s') oci name = None \<or>
                 (\<exists>ev \<in> set post. W (fst ev)))))) \<and>
         (c \<noteq> Succeeded \<longrightarrow> rest = [] \<and> (\<exists>e. r = Inl e))) \<and>
      (\<forall>ev \<in> set (events s s').
         is_UpdateReference (fst ev) \<longrightarrow>
         (Mutator MutatorCommit, Succeeded) \<in> set (events s s')))"
proof (intro conjI allI impI)
  fix r s'
  assume run: "GetBaseLayer env bo sf s = Some (r, s')"
  show "\<exists>d rest.
         events s s' = (OnEngine (OCI bo) (DeleteReference (BaseLayerOpts.Name bo)), d) # rest \<and>
         (reference_store env refs (OCI bo) (BaseLayerOpts.Name bo) W \<longrightarrow> d = Succeeded \<longrightarrow>
          (refs (ext s') (OCI bo) (BaseLayerOpts.Name bo) = None \<or>
           (\<exists>ev \<in> set rest. W (fst ev))))"
  proof (cases "reference_store env refs (OCI bo) (BaseLayerOpts.Name bo) W")
    case True
    from GetBaseLayer_reference[OF True run] obtain d rest where
      t: "trace s' = trace s @ (OnEngine (OCI bo) (DeleteReference (BaseLayerOpts.Name bo)), d) # rest"
      and i: "d = Succeeded \<longrightarrow>
              list_all (\<lambda>ev. \<not> W (fst ev)) rest \<longrightarrow>
              refs (ext s') (OCI bo) (BaseLayerOpts.Name bo) = None"
      by (elim exE conjE)
    from events_append[OF t] i show ?thesis
      by (intro exI[of _ d] exI[of _ rest]) (auto simp: list_all_iff)
  next
    case False
    from tracesD[OF GetBaseLayer_deletes_first run] obtain d rest where
      "events s s' = (OnEngine (OCI bo) (DeleteReference (BaseLayerOpts.Name bo)), d) # rest"
      unfolding deletes_first_def by (elim exE conjE)
    with False show ?thesis by (intro exI[of _ d] exI[of _ rest]) simp
  qed
next
  assume "Type (From (Layer bo)) \<noteq> BuiltType"
  then have "returns (GetBaseLayer env bo sf)" by (intro returns_GetBaseLayer) simp
  from returnsD[OF this] show "\<exists>r s'. GetBaseLayer env bo sf s = Some (r, s')" .
next
  fix r s'
  assume run: "Build_miss env opts sf l oci author gitVersion name s = Some (r, s')"
  show "\<exists>d0 c rest.
         events s s' =
           (Storage (Delete ''.working''), d0) #
           (if Type (From l) = BuiltType then Storage (Restore (Tag (From l)) ''.working'')
            else Storage (Create ''.working''), c) # rest \<and>
         (c = Succeeded \<longrightarrow>
            (\<exists>d post. rest = (OnEngine oci (DeleteReference name), d) # post \<and>
               (reference_store env refs oci name W \<longrightarrow> d = Succeeded \<longrightarrow>
                (refs (ext s') oci name = None \<or>
                 (\<exists>ev \<in> set post. W (fst ev)))))) \<and>
         (c \<noteq> Succeeded \<longrightarrow> rest = [] \<and> (\<exists>e. r = Inl e))"
  proof (cases "reference_store env refs oci name W")
    case True
    from Build_miss_reference[OF True run] obtain d0 c rest where
      e: "events s s' =
           (Storage (Delete ''.working''), d0) #
           (if Type (From l) = BuiltType then Storage (Restore (Tag (From l)) ''.working'')
            else Storage (Create ''.working''), c) # rest"
      and k: "c = Succeeded \<longrightarrow>
              (\<exists>d post. rest = (OnEngine oci (DeleteReference name), d) # post \<and>
                 (d = Succeeded \<longrightarrow>
                    list_all (\<lambda>ev. \<not> W (fst ev)) post \<longrightarrow>
                    refs (ext s') oci name = None))"
      and f: "c \<noteq> Succeeded \<longrightarrow> rest = [] \<and> (\<exists>e. r = Inl e)"
      by (elim exE conjE)
    from k have k': "c = Succeeded \<longrightarrow>
            (\<exists>d post. rest = (OnEngine oci (DeleteReference name), d) # post \<and>
               (reference_store env refs oci name W \<longrightarrow> d = Succeeded \<longrightarrow>
                (refs (ext s') oci name = None \<or>
                 (\<exists>ev \<in> set post. W (fst ev)))))"
      by (auto simp: list_all_iff)
    from e k' f show ?thesis
      by (intro exI[of _ d0] exI[of _ c] exI[of _ rest] conjI)
  next
    case False
    from Build_miss_starts[OF run] obtain d0 c rest where
      e: "events s s' =
           (Storage (Delete ''.working''), d0) #
           (if Type (From l) = BuiltType then Storage (Restore (Tag (From l)) ''.working'')
            else Storage (Create ''.working''), c) # rest"
      and k: "c = Succeeded \<longrightarrow> deletes_first oci name rest"
      and f: "c \<noteq> Succeeded \<longrightarrow> rest = [] \<and> (\<exists>e. r = Inl e)"
      by (elim exE conjE)
    from k False have k': "c = Succeeded \<longrightarrow>
            (\<exists>d post. rest = (OnEngine oci (DeleteReference name), d) # post \<and>
               (reference_store env refs oci name W \<longrightarrow> d = Succeeded \<longrightarrow>
                (refs (ext s') oci name = None \<or>
                 (\<exists>ev \<in> set post. W (fst ev)))))"
      by (simp add: deletes_first_def)
    from e k' f show ?thesis
      by (intro exI[of _ d0] exI[of _ c] exI[of _ rest] conjI)
  qed
  from tracesD[OF traces_Build_miss_only_committed run]
  show "\<forall>ev \<in> set (events s s').
         is_UpdateReference (fst ev) \<longrightarrow>
         (Mutator MutatorCommit, Succeeded) \<in> set (events s s')"
    by (simp add: only_committed_def)
qed

theorem GetBaseLayer_deletes_reference_witness:
  "reference_store (example_env_store apply_fails) store_refs ''/o'' ''a''
       (writes_name ''/o'' ''a'') \<and>
   Build_miss (example_env_store apply_fails) (example_opts ''tar'') (example_sf [''a''])
     example_layer ''/o'' ''me@host'' [] ''a''
     \<lparr>trace = [], ext = [((''/o'', ''a''), example_desc)]\<rparr> =
   Some (Inl (External ''failed''),
     \<lparr>trace =
        [(Storage (Delete ''.working''), Succeeded),
         (Storage (Create ''.working''), Succeeded),
         (OnEngine ''/o'' (DeleteReference ''a''), Succeeded),
         (OS (MkdirAll ''/s/layer-bases/oci''), Succeeded),
         (Lib (ImageCopy \<lparr>Src = ''docker://docker.io/library/centos:latest'',
            Dest = ''oci:/s/layer-bases/oci:centos'', SkipTLS = False\<rparr>), Succeeded),
         (Lib (OpenLayout ''/s/layer-bases/oci''), Succeeded),
         (OnEngine ''/s/layer-bases/oci'' GC, Succeeded),
         (OnEngine ''/s/layer-bases/oci'' Close, Succeeded),
         (Print (UnpackingTo ''/r/.working''), Succeeded),
         (OS (Readlink ''/proc/self/exe''), Succeeded),
         (Lib (MaybeRunInUserns [''host'', ''--oci-dir'', ''/s/layer-bases/oci'', ''--roots-dir'',
            ''/r'', ''--stacker-dir'', ''/s'', ''umoci'', ''--bundle-path'', ''/r/.working'',
            ''--tag'', ''centos'', ''unpack''] ''image unpack failed''), Succeeded),
         (OnEngine ''/o'' (DeleteReference ''centos''), Succeeded),
         (Lib (NewApply (example_os ''a'' example_layer []) False), Succeeded),
         (Lib DoApply, Failed (External ''failed''))],
      ext = []\<rparr>) \<and>
   store_refs (ext \<lparr>trace =
        [(Storage (Delete ''.working''), Succeeded),
         (Storage (Create ''.working''), Succeeded),
         (OnEngine ''/o'' (DeleteReference ''a''), Succeeded),
         (OS (MkdirAll ''/s/layer-bases/oci''), Succeeded),
         (Lib (ImageCopy \<lparr>Src = ''docker://docker.io/library/centos:latest'',
            Dest = ''oci:/s/layer-bases/oci:centos'', SkipTLS = False\<rparr>), Succeeded),
         (Lib (OpenLayout ''/s/layer-bases/oci''), Succeeded),
         (OnEngine ''/s/layer-bases/oci'' GC, Succeeded),
         (OnEngine ''/s/layer-bases/oci'' Close, Succeeded),
         (Print (UnpackingTo ''/r/.working''), Succeeded),
         (OS (Readlink ''/proc/self/exe''), Succeeded),
         (Lib (MaybeRunInUserns [''host'', ''--oci-dir'', ''/s/layer-bases/oci'', ''--roots-dir'',
            ''/r'', ''--stacker-dir'', ''/s'', ''umoci'', ''--bundle-path'', ''/r/.working'',
            ''--tag'', ''centos'', ''unpack''] ''image unpack failed''), Succeeded),
         (OnEngine ''/o'' (DeleteReference ''centos''), Succeeded),
         (Lib (NewApply (example_os ''a'' example_layer []) False), Succeeded),
         (Lib DoApply, Failed (External ''failed''))],
      ext = []\<rparr>) ''/o'' ''a'' = None"
proof -
  let ?s0 = "\<lparr>trace = [], ext = [((''/o'', ''a''), example_desc)]\<rparr> :: ref_store world"
  let ?post = "[(OS (MkdirAll ''/s/layer-bases/oci''), Succeeded),
                (Lib (ImageCopy \<lparr>Src = ''docker://docker.io/library/centos:latest'',
                   Dest = ''oci:/s/layer-bases/oci:centos'', SkipTLS = False\<rparr>), Succeeded),
                (Lib (OpenLayout ''/s/layer-bases/oci''), Succeeded),
                (OnEngine ''/s/layer-bases/oci'' GC, Succeeded),
                (OnEngine ''/s/layer-bases/oci'' Close, Succeeded),
                (Print (UnpackingTo ''/r/.working''), Succeeded),
                (OS (Readlink ''/proc/self/exe''), Succeeded),
                (Lib (MaybeRunInUserns [''host'', ''--oci-dir'', ''/s/layer-bases/oci'', ''--roots-dir'',
                   ''/r'', ''--stacker-dir'', ''/s'', ''umoci'', ''--bundle-path'', ''/r/.working'',
                   ''--tag'', ''centos'', ''unpack''] ''image unpack failed''), Succeeded),
                (OnEngine ''/o'' (DeleteReference ''centos''), Succeeded),
                (Lib (NewApply (example_os ''a'' example_layer []) False), Succeeded),
                (Lib DoApply, Failed (External ''failed''))]"
  let ?t = "(Storage (Delete ''.working''), Succeeded) #
            (Storage (Create ''.working''), Succeeded) #
            (OnEngine ''/o'' (DeleteReference ''a''), Succeeded) # ?post"
  let ?s' = "\<lparr>trace = ?t, ext = []\<rparr> :: ref_store world"
  have st: "reference_store (example_env_store apply_fails) store_refs ''/o'' ''a''
       (writes_name ''/o'' ''a'')"
    unfolding reference_store_def oracle_keeps_def
    by (auto simp: example_env_store_def store_refs_def store_call_def writes_name_def
          AList.update_conv' AList.delete_conv' split: call.splits engine_call.splits)
  have m: "Build_miss (example_env_store apply_fails) (example_opts ''tar'') (example_sf [''a''])
      example_layer ''/o'' ''me@host'' [] ''a'' ?s0 = Some (Inl (External ''failed''), ?s')"
    by code_simp
  have ev: "events ?s0 ?s' = ?t" by (simp add: events_def)
  have ty: "Type (From example_layer) \<noteq> BuiltType" by (simp add: example_layer_def)
  have quiet: "\<forall>ev \<in> set ?post. \<not> writes_name ''/o'' ''a'' (fst ev)"
    by (simp add: writes_name_def)
  note th = GetBaseLayer_deletes_reference[where env = "example_env_store apply_fails"
      and refs = store_refs and W = "writes_name ''/o'' ''a''" and opts = "example_opts ''tar''" and sf = "example_sf [''a'']"
      and l = example_layer and oci = "''/o''" and author = "''me@host''"
      and gitVersion = "[]" and name = "''a''" and s = ?s0]
  note th3 = th[THEN conjunct2, THEN conjunct2, rule_format, OF m, THEN conjunct1, unfolded ev]
  from th3 obtain d0 c rest where
    e: "?t = (Storage (Delete ''.working''), d0) #
           (if Type (From example_layer) = BuiltType
            then Storage (Restore (Tag (From example_layer)) ''.working'')
            else Storage (Create ''.working''), c) # rest"
    and k: "c = Succeeded \<longrightarrow>
            (\<exists>d post. rest = (OnEngine ''/o'' (DeleteReference ''a''), d) # post \<and>
               (reference_store (example_env_store apply_fails) store_refs ''/o'' ''a''
       (writes_name ''/o'' ''a'') \<longrightarrow>
                d = Succeeded \<longrightarrow>
                (store_refs (ext ?s') ''/o'' ''a'' = None \<or>
                 (\<exists>ev \<in> set post. writes_name ''/o'' ''a'' (fst ev)))))"
    by (elim exE conjE)
  from e ty have c: "c = Succeeded"
    and rest: "rest = (OnEngine ''/o'' (DeleteReference ''a''), Succeeded) # ?post"
    by simp_all
  from k[rule_format, OF c] obtain d post where
    r2: "rest = (OnEngine ''/o'' (DeleteReference ''a''), d) # post"
    and i: "reference_store (example_env_store apply_fails) store_refs ''/o'' ''a''
       (writes_name ''/o'' ''a'') \<longrightarrow>
                d = Succeeded \<longrightarrow>
                (store_refs (ext ?s') ''/o'' ''a'' = None \<or>
                 (\<exists>ev \<in> set post. writes_name ''/o'' ''a'' (fst ev)))"
    by (elim exE conjE)
  from rest r2 have d: "d = Succeeded" and p: "post = ?post" by simp_all
  from quiet p have q: "\<forall>ev \<in> set post. \<not> writes_name ''/o'' ''a'' (fst ev)" by simp
  from i st d q have "store_refs (ext ?s') ''/o'' ''a'' = None" by simp
  with st m show ?thesis by (intro conjI)
qed

text \<open>The claim as it was stated fails: the output layout holds a reference \<open>a\<close>,
  the engine fails to delete it, \<open>GetBaseLayer\<close> goes on, a later step of the build of
  \<open>a\<close> (the overlay) fails, and when \<open>Build\<close> has returned the error the output
  layout still holds the previous reference.\<close>

theorem Build_failed_deletion_keeps_reference:
  "Build (example_env_store delete_and_apply_fail) (example_opts ''tar'')
     \<lparr>trace = [], ext = [((''/o'', ''a''), example_desc)]\<rparr> =
   Some (Inl (External ''failed''),
     \<lparr>trace =
        [(Lib (NewStackerfile ''/w/stacker.yaml'' []), Succeeded),
        (Lib (NewStorage example_config), Succeeded),
        (OS (Stat ''/o''), Succeeded),
        (Lib (OpenLayout ''/o''), Succeeded),
        (Cache (OpenCache example_config ''/o''), Succeeded),
        (OS (Abs ''/w''), Succeeded),
        (Lib (GitVersion ''host''), Succeeded),
        (OS Hostname, Succeeded),
        (Storage (Delete ''.working''), Succeeded),
        (Print (Building ''a''), Succeeded),
        (Print ImportingFiles, Succeeded),
        (Lib (Import example_config ''a'' []), Succeeded),
        (Cache (CacheLookup ''a''), Miss),
        (Storage (Delete ''.working''), Succeeded),
        (Storage (Create ''.working''), Succeeded),
        (OnEngine ''/o'' (DeleteReference ''a''), Failed (External ''failed'')),
        (OS (MkdirAll ''/s/layer-bases/oci''), Succeeded),
        (Lib (ImageCopy \<lparr>Src = ''docker://docker.io/library/centos:latest'',
           Dest = ''oci:/s/layer-bases/oci:centos'', SkipTLS = False\<rparr>), Succeeded),
        (Lib (OpenLayout ''/s/layer-bases/oci''), Succeeded),
        (OnEngine ''/s/layer-bases/oci'' GC, Succeeded),
        (OnEngine ''/s/layer-bases/oci'' Close, Succeeded),
        (Print (UnpackingTo ''/r/.working''), Succeeded),
        (OS (Readlink ''/proc/self/exe''), Succeeded),
        (Lib (MaybeRunInUserns [''host'', ''--oci-dir'', ''/s/layer-bases/oci'', ''--roots-dir'',
           ''/r'', ''--stacker-dir'', ''/s'', ''umoci'', ''--bundle-path'', ''/r/.working'',
           ''--tag'', ''centos'', ''unpack''] ''image unpack failed''), Succeeded),
        (OnEngine ''/o'' (DeleteReference ''centos''), Succeeded),
        (Lib (NewApply (example_os ''a'' example_layer []) False), Succeeded),
        (Lib DoApply, Failed (External ''failed'')),
        (OnEngine ''/o'' Close, Succeeded),
        (Storage Detach, Succeeded)],
      ext = [((''/o'', ''a''), example_desc)]\<rparr>) \<and>
   store_refs [((''/o'', ''a''), example_desc)] ''/o'' ''a'' = Some example_desc"
  by code_simp

subsection \<open>The final garbage collection\<close>

lemma emits_Build_layer_quiet:
  "emits quiet_gc (Build_layer env opts sf oci author gitVersion name)"
  unfolding Build_layer_def miss_defs
  by (intro emits_intros; simp add: quiet_gc_def)

lemma emits_Build_layers_quiet:
  "emits quiet_gc (Build_layers env opts sf oci author gitVersion order)"
  by (induction order) (auto intro!: emits_intros emits_Build_layer_quiet)

lemma Build_final_run:
  "Build_final env oci s =
     (case do_unit env (OnEngine oci GC) (ext s) of
        (Inl e, x) \<Rightarrow>
          Some (Inl e, \<lparr>trace = trace s @ [(OnEngine oci GC, Failed e),
                                            (Print (FinalGCFailed e), Succeeded)],
                        ext = x\<rparr>)
      | (Inr u, x) \<Rightarrow>
          Some (Inr (), \<lparr>trace = trace s @ [(OnEngine oci GC, Succeeded)], ext = x\<rparr>))"
  by (simp add: Build_final_def andThen_def attempt_def perform_def say_def fail_def ret_def
        record_call_def split: prod.splits sum.splits)

lemma final_gc_failed:
  "final_gc oci (Inl e) [(OnEngine oci GC, Failed e), (Print (FinalGCFailed e), Succeeded)]"
  unfolding final_gc_def
proof (intro conjI allI impI)
  fix e'
  assume "(Print (FinalGCFailed e'), Succeeded) \<in>
      set [(OnEngine oci GC, Failed e), (Print (FinalGCFailed e), Succeeded)]"
  then have e: "e' = e" by simp
  then show "(Inl e :: error + unit) = Inl e'" by simp
  from e show "\<exists>pre post. [(OnEngine oci GC, Failed e), (Print (FinalGCFailed e), Succeeded)] =
      pre @ [(OnEngine oci GC, Failed e'), (Print (FinalGCFailed e'), Succeeded)] @ post \<and>
      list_all is_cleanup post"
    by (intro exI[of _ "[]"]) simp
next
  assume "(Inl e :: error + unit) = Inr ()"
  then show "\<exists>pre post. [(OnEngine oci GC, Failed e), (Print (FinalGCFailed e), Succeeded)] =
      pre @ [(OnEngine oci GC, Succeeded)] @ post \<and> list_all is_cleanup post"
    by simp
qed

lemma final_gc_succeeded: "final_gc oci (Inr ()) [(OnEngine oci GC, Succeeded)]"
  unfolding final_gc_def
proof (intro conjI allI impI)
  show "\<exists>pre post. [(OnEngine oci GC, Succeeded)] =
      pre @ [(OnEngine oci GC, Succeeded)] @ post \<and> list_all is_cleanup post"
    by (intro exI[of _ "[]"]) simp
qed simp_all

lemma traces_Build_final: "traces (final_gc oci) (Build_final env oci)"
proof (rule tracesI)
  fix s r s'
  assume run: "Build_final env oci s = Some (r, s')"
  obtain g x where g: "do_unit env (OnEngine oci GC) (ext s) = (g, x)"
    by (cases "do_unit env (OnEngine oci GC) (ext s)")
  show "\<exists>t. trace s' = trace s @ t \<and> final_gc oci r t"
  proof (cases g)
    case (Inl e)
    with run g have "r = Inl e"
      "trace s' = trace s @ [(OnEngine oci GC, Failed e), (Print (FinalGCFailed e), Succeeded)]"
      by (auto simp: Build_final_run)
    with final_gc_failed[of oci e] show ?thesis by blast
  next
    case (Inr u)
    with run g have "r = Inr ()" "trace s' = trace s @ [(OnEngine oci GC, Succeeded)]"
      by (auto simp: Build_final_run)
    with final_gc_succeeded[of oci] show ?thesis by blast
  qed
qed

lemma quiet_gc_set: "list_all quiet_gc t \<Longrightarrow> (Print (FinalGCFailed e), Succeeded) \<notin> set t"
  by (auto simp: list_all_iff quiet_gc_def)

lemma final_gc_after:
  assumes "emits quiet_gc m" and "\<And>a. traces (final_gc oci) (k a)"
  shows "traces (final_gc oci) (andThen m k)"
proof (rule traces_after[OF assms])
  fix e :: error and t :: "(call \<times> outcome) list"
  assume "list_all quiet_gc t"
  then show "final_gc oci (Inl e) t"
    by (auto simp: final_gc_def dest: quiet_gc_set)
next
  fix r and t1 t2 :: "(call \<times> outcome) list"
  assume q: "list_all quiet_gc t1" and f: "final_gc oci r t2"
  show "final_gc oci r (t1 @ t2)"
    unfolding final_gc_def
  proof (intro conjI allI impI)
    fix e
    assume "(Print (FinalGCFailed e), Succeeded) \<in> set (t1 @ t2)"
    with quiet_gc_set[OF q] have "(Print (FinalGCFailed e), Succeeded) \<in> set t2" by auto
    with f obtain pre post where "r = Inl e"
      "t2 = pre @ [(OnEngine oci GC, Failed e), (Print (FinalGCFailed e), Succeeded)] @ post"
      "list_all is_cleanup post"
      unfolding final_gc_def by blast
    then show "r = Inl e" and "\<exists>pre post. t1 @ t2 =
        pre @ [(OnEngine oci GC, Failed e), (Print (FinalGCFailed e), Succeeded)] @ post \<and>
        list_all is_cleanup post"
      by (simp, intro exI[of _ "t1 @ pre"] exI[of _ post]) simp
  next
    assume "r = Inr ()"
    with f obtain pre post where
      "t2 = pre @ [(OnEngine oci GC, Succeeded)] @ post" "list_all is_cleanup post"
      unfolding final_gc_def by blast
    then show "\<exists>pre post. t1 @ t2 = pre @ [(OnEngine oci GC, Succeeded)] @ post \<and>
        list_all is_cleanup post"
      by (intro exI[of _ "t1 @ pre"] exI[of _ post]) simp
  qed
qed

lemma final_gc_deferred:
  assumes b: "traces (final_gc oci) b" and c: "emits is_cleanup c"
  shows "traces (final_gc oci) (deferred c b)"
proof (rule traces_deferred[OF b c])
  fix r and t1 t2 :: "(call \<times> outcome) list"
  assume f: "final_gc oci r t1" and q: "list_all is_cleanup t2"
  from q have nq: "\<And>e. (Print (FinalGCFailed e), Succeeded) \<notin> set t2"
    by (auto simp: list_all_iff is_cleanup_def)
  show "final_gc oci r (t1 @ t2)"
    unfolding final_gc_def
  proof (intro conjI allI impI)
    fix e
    assume "(Print (FinalGCFailed e), Succeeded) \<in> set (t1 @ t2)"
    with nq have "(Print (FinalGCFailed e), Succeeded) \<in> set t1" by auto
    with f obtain pre post where "r = Inl e"
      "t1 = pre @ [(OnEngine oci GC, Failed e), (Print (FinalGCFailed e), Succeeded)] @ post"
      "list_all is_cleanup post"
      unfolding final_gc_def by blast
    with q show "r = Inl e" and "\<exists>pre post. t1 @ t2 =
        pre @ [(OnEngine oci GC, Failed e), (Print (FinalGCFailed e), Succeeded)] @ post \<and>
        list_all is_cleanup post"
      by (simp, intro exI[of _ pre] exI[of _ "post @ t2"]) simp
  next
    assume "r = Inr ()"
    with f obtain pre post where
      "t1 = pre @ [(OnEngine oci GC, Succeeded)] @ post" "list_all is_cleanup post"
      unfolding final_gc_def by blast
    with q show "\<exists>pre post. t1 @ t2 = pre @ [(OnEngine oci GC, Succeeded)] @ post \<and>
        list_all is_cleanup post"
      by (intro exI[of _ pre] exI[of _ "post @ t2"]) simp
  qed
qed

lemma traces_Build_main: "traces (final_gc oci) (Build_main env opts sf order oci)"
  unfolding Build_main_def Let_def
  by (intro final_gc_after traces_Build_final emits_Build_layers_quiet emits_intros;
      simp add: quiet_gc_def)

lemma traces_Build: "traces (final_gc (OCIDir (BuildArgs.Config opts))) (Build env opts)"
  unfolding Build_def Let_def
  by (intro final_gc_after final_gc_deferred traces_Build_main emits_intros;
      simp add: quiet_gc_def is_cleanup_def)

text \<open>\<open>Build\<close> from the state in which its first steps have succeeded: the loop,
  the final collection, and the two deferred calls.\<close>

lemma andThen_InrE:
  assumes "andThen m k s = Some (Inr b, s')"
  obtains a s1 where "m s = Some (Inr a, s1)" "k a s1 = Some (Inr b, s')"
  using assms by (auto simp: andThen_def split: option.splits sum.splits)

lemma Build_after_prepare:
  assumes prep: "Build_prepare env opts s = Some (Inr (sf, order, author, gitVersion), s1)"
  shows "Build env opts s =
     deferred (if \<not> LeaveUnladen opts
               then andThen (attempt (perform (do_unit env) (Storage Detach))) (\<lambda>_. ret ())
               else ret ())
       (deferred (perform (do_unit env) (OnEngine (OCIDir (BuildArgs.Config opts)) Close))
          (andThen (Build_layers env opts sf (OCIDir (BuildArgs.Config opts)) author gitVersion order)
             (\<lambda>_. Build_final env (OCIDir (BuildArgs.Config opts))))) s1"
  using prep unfolding Build_prepare_def Let_def
  apply (elim andThen_InrE)
  apply (simp add: Build_def Build_main_def Let_def andThen_def deferred_def ret_def)
  done


lemma emits_Build_prepare: "emits (\<lambda>_. True) (Build_prepare env opts)"
  unfolding Build_prepare_def Let_def by (intro emits_intros; simp)

lemma Build_deferred_run:
  assumes "body sa = Some (r, sb)"
  shows "\<exists>s' dc dd.
     deferred (if \<not> LeaveUnladen opts
               then andThen (attempt (perform (do_unit env) (Storage Detach))) (\<lambda>_. ret ())
               else ret ())
       (deferred (perform (do_unit env) (OnEngine oci Close)) body) sa = Some (r, s') \<and>
     trace s' = trace sb @ (OnEngine oci Close, dc) #
                  (if LeaveUnladen opts then [] else [(Storage Detach, dd)])"
  using assms
  by (auto simp: deferred_def perform_def andThen_def attempt_def ret_def record_call_def
        split: prod.splits)

lemma Build_reaches_final:
  assumes prep: "Build_prepare env opts s = Some (Inr (sf, order, author, gitVersion), s1)"
    and loop: "Build_layers env opts sf (OCIDir (BuildArgs.Config opts)) author gitVersion order s1 =
                 Some (Inr (), s2)"
  shows "\<exists>r s' dc dd.
     Build env opts s = Some (r, s') \<and>
     r = fst (do_unit env (OnEngine (OCIDir (BuildArgs.Config opts)) GC) (ext s2)) \<and>
     events s s' =
       events s s2 @
       (case r of
          Inl e \<Rightarrow> [(OnEngine (OCIDir (BuildArgs.Config opts)) GC, Failed e),
                    (Print (FinalGCFailed e), Succeeded)]
        | Inr _ \<Rightarrow> [(OnEngine (OCIDir (BuildArgs.Config opts)) GC, Succeeded)]) @
       (OnEngine (OCIDir (BuildArgs.Config opts)) Close, dc) #
       (if LeaveUnladen opts then [] else [(Storage Detach, dd)])"
proof -
  let ?oci = "OCIDir (BuildArgs.Config opts)"
  let ?body = "andThen (Build_layers env opts sf ?oci author gitVersion order)
                 (\<lambda>_. Build_final env ?oci)"
  from emits_events[OF emits_Build_prepare prep]
  have t1: "trace s1 = trace s @ events s s1" by simp
  from emits_events[OF emits_Build_layers_quiet loop]
  have t2: "trace s2 = trace s1 @ events s1 s2" by simp
  from t1 t2 have t12: "trace s2 = trace s @ (events s s1 @ events s1 s2)" by simp
  from events_append[OF this] have e2: "events s s2 = events s s1 @ events s1 s2" .
  obtain g x where g: "do_unit env (OnEngine ?oci GC) (ext s2) = (g, x)"
    by (cases "do_unit env (OnEngine ?oci GC) (ext s2)")
  define fin where "fin = (case g of
          Inl e \<Rightarrow> [(OnEngine ?oci GC, Failed e), (Print (FinalGCFailed e), Succeeded)]
        | Inr _ \<Rightarrow> [(OnEngine ?oci GC, Succeeded)])"
  have "\<exists>s3. Build_final env ?oci s2 = Some (g, s3) \<and> trace s3 = trace s2 @ fin"
    using g by (cases g) (auto simp: Build_final_run fin_def)
  then obtain s3 where f: "Build_final env ?oci s2 = Some (g, s3)"
    and t3: "trace s3 = trace s2 @ fin" by blast
  from loop f have body: "?body s1 = Some (g, s3)" by (simp add: andThen_Inr)
  from Build_deferred_run[where body = "?body" and sa = s1 and r = g and sb = s3
      and opts = opts and env = env and oci = "?oci", OF body] obtain s' dc dd where
    run: "deferred (if \<not> LeaveUnladen opts
               then andThen (attempt (perform (do_unit env) (Storage Detach))) (\<lambda>_. ret ())
               else ret ())
       (deferred (perform (do_unit env) (OnEngine ?oci Close)) ?body) s1 = Some (g, s')"
    and t': "trace s' = trace s3 @ (OnEngine ?oci Close, dc) #
                  (if LeaveUnladen opts then [] else [(Storage Detach, dd)])"
    by blast
  from run have b: "Build env opts s = Some (g, s')"
    unfolding Build_after_prepare[OF prep] .
  from t' t3 t12 e2 have "trace s' = trace s @ (events s s2 @ fin @
      (OnEngine ?oci Close, dc) # (if LeaveUnladen opts then [] else [(Storage Detach, dd)]))"
    by simp
  from events_append[OF this] b g show ?thesis
    unfolding fin_def by (intro exI[of _ g] exI[of _ s'] exI[of _ dc] exI[of _ dd]) simp
qed

lemma Build_loop_failed:
  assumes prep: "Build_prepare env opts s = Some (Inr (sf, order, author, gitVersion), s1)"
    and loop: "Build_layers env opts sf (OCIDir (BuildArgs.Config opts)) author gitVersion order s1 =
                 Some (Inl e, s2)"
  shows "\<exists>s' dc dd.
     Build env opts s = Some (Inl e, s') \<and>
     events s s' =
       events s s2 @
       (OnEngine (OCIDir (BuildArgs.Config opts)) Close, dc) #
       (if LeaveUnladen opts then [] else [(Storage Detach, dd)])"
proof -
  let ?oci = "OCIDir (BuildArgs.Config opts)"
  let ?body = "andThen (Build_layers env opts sf ?oci author gitVersion order)
                 (\<lambda>_. Build_final env ?oci)"
  from emits_events[OF emits_Build_prepare prep]
  have t1: "trace s1 = trace s @ events s s1" by simp
  from emits_events[OF emits_Build_layers_quiet loop]
  have t2: "trace s2 = trace s1 @ events s1 s2" by simp
  from t1 t2 have t12: "trace s2 = trace s @ (events s s1 @ events s1 s2)" by simp
  from events_append[OF this] have e2: "events s s2 = events s s1 @ events s1 s2" .
  from loop have body: "?body s1 = Some (Inl e, s2)" by (simp add: andThen_Inl)
  from Build_deferred_run[where body = "?body" and sa = s1 and r = "Inl e" and sb = s2
      and opts = opts and env = env and oci = "?oci", OF body] obtain s' dc dd where
    run: "deferred (if \<not> LeaveUnladen opts
               then andThen (attempt (perform (do_unit env) (Storage Detach))) (\<lambda>_. ret ())
               else ret ())
       (deferred (perform (do_unit env) (OnEngine ?oci Close)) ?body) s1 = Some (Inl e, s')"
    and t': "trace s' = trace s2 @ (OnEngine ?oci Close, dc) #
                  (if LeaveUnladen opts then [] else [(Storage Detach, dd)])"
    by blast
  from run have b: "Build env opts s = Some (Inl e, s')"
    unfolding Build_after_prepare[OF prep] .
  from t' t12 e2 have "trace s' = trace s @ (events s s2 @
      (OnEngine ?oci Close, dc) # (if LeaveUnladen opts then [] else [(Storage Detach, dd)]))"
    by simp
  from events_append[OF this] b show ?thesis
    by (intro exI[of _ s'] exI[of _ dc] exI[of _ dd]) simp
qed

text \<open>
  C4, as amended. After all recipe layers have been processed successfully, \<open>Build\<close>
  garbage-collects the output OCI layout, and a failure of this final collection is
  logged and returned: \<open>Build\<close> returns what the collection returned. Whenever the
  steps of \<open>Build\<close> before the loop have succeeded and the loop over the layers has
  returned without error, \<open>Build\<close> returns; its events are those up to the end of the
  loop, then the collection of the output layout, then, when the collection failed, the
  line that reports the failure, and last the deferred \<open>Close\<close> and \<open>Detach\<close>; and
  its result is the result of the collection, the error when it failed. When the loop
  returned an error, \<open>Build\<close> returns that error and no collection is made. And in
  every run of \<open>Build\<close>, a reported failure of the final collection is the result of
  the run, and a run that succeeds has ended, before the clean-ups, with a collection
  that succeeded.
\<close>

theorem Build_final_gc_returned:
  "(\<forall>sf order author gitVersion s1 s2.
      Build_prepare env opts s = Some (Inr (sf, order, author, gitVersion), s1) \<longrightarrow>
      Build_layers env opts sf (OCIDir (BuildArgs.Config opts)) author gitVersion order s1 =
        Some (Inr (), s2) \<longrightarrow>
      (\<exists>r s' dc dd.
         Build env opts s = Some (r, s') \<and>
         r = fst (do_unit env (OnEngine (OCIDir (BuildArgs.Config opts)) GC) (ext s2)) \<and>
         events s s' =
           events s s2 @
           (case r of
              Inl e \<Rightarrow> [(OnEngine (OCIDir (BuildArgs.Config opts)) GC, Failed e),
                        (Print (FinalGCFailed e), Succeeded)]
            | Inr _ \<Rightarrow> [(OnEngine (OCIDir (BuildArgs.Config opts)) GC, Succeeded)]) @
           (OnEngine (OCIDir (BuildArgs.Config opts)) Close, dc) #
           (if LeaveUnladen opts then [] else [(Storage Detach, dd)]))) \<and>
   (\<forall>sf order author gitVersion s1 e s2.
      Build_prepare env opts s = Some (Inr (sf, order, author, gitVersion), s1) \<longrightarrow>
      Build_layers env opts sf (OCIDir (BuildArgs.Config opts)) author gitVersion order s1 =
        Some (Inl e, s2) \<longrightarrow>
      (\<exists>s' dc dd.
         Build env opts s = Some (Inl e, s') \<and>
         events s s' =
           events s s2 @
           (OnEngine (OCIDir (BuildArgs.Config opts)) Close, dc) #
           (if LeaveUnladen opts then [] else [(Storage Detach, dd)]))) \<and>
   (\<forall>r s'. Build env opts s = Some (r, s') \<longrightarrow>
      (\<forall>e. (Print (FinalGCFailed e), Succeeded) \<in> set (events s s') \<longrightarrow>
         r = Inl e \<and>
         (\<exists>pre post.
            events s s' =
              pre @ [(OnEngine (OCIDir (BuildArgs.Config opts)) GC, Failed e),
                     (Print (FinalGCFailed e), Succeeded)] @ post \<and>
            list_all is_cleanup post)) \<and>
      (r = Inr () \<longrightarrow>
         (\<exists>pre post.
            events s s' = pre @ [(OnEngine (OCIDir (BuildArgs.Config opts)) GC, Succeeded)] @ post \<and>
            list_all is_cleanup post)))"
proof (intro conjI allI impI)
  fix sf order author gitVersion s1 s2
  assume "Build_prepare env opts s = Some (Inr (sf, order, author, gitVersion), s1)"
    and "Build_layers env opts sf (OCIDir (BuildArgs.Config opts)) author gitVersion order s1 =
        Some (Inr (), s2)"
  then show "\<exists>r s' dc dd.
         Build env opts s = Some (r, s') \<and>
         r = fst (do_unit env (OnEngine (OCIDir (BuildArgs.Config opts)) GC) (ext s2)) \<and>
         events s s' =
           events s s2 @
           (case r of
              Inl e \<Rightarrow> [(OnEngine (OCIDir (BuildArgs.Config opts)) GC, Failed e),
                        (Print (FinalGCFailed e), Succeeded)]
            | Inr _ \<Rightarrow> [(OnEngine (OCIDir (BuildArgs.Config opts)) GC, Succeeded)]) @
           (OnEngine (OCIDir (BuildArgs.Config opts)) Close, dc) #
           (if LeaveUnladen opts then [] else [(Storage Detach, dd)])"
    by (rule Build_reaches_final)
next
  fix sf order author gitVersion s1 e s2
  assume "Build_prepare env opts s = Some (Inr (sf, order, author, gitVersion), s1)"
    and "Build_layers env opts sf (OCIDir (BuildArgs.Config opts)) author gitVersion order s1 =
        Some (Inl e, s2)"
  then show "\<exists>s' dc dd.
         Build env opts s = Some (Inl e, s') \<and>
         events s s' =
           events s s2 @
           (OnEngine (OCIDir (BuildArgs.Config opts)) Close, dc) #
           (if LeaveUnladen opts then [] else [(Storage Detach, dd)])"
    by (rule Build_loop_failed)
next
  fix r s' e
  assume run: "Build env opts s = Some (r, s')"
    and p: "(Print (FinalGCFailed e), Succeeded) \<in> set (events s s')"
  from tracesD[OF traces_Build run] p
  show "r = Inl e" and "\<exists>pre post.
            events s s' =
              pre @ [(OnEngine (OCIDir (BuildArgs.Config opts)) GC, Failed e),
                     (Print (FinalGCFailed e), Succeeded)] @ post \<and>
            list_all is_cleanup post"
    unfolding final_gc_def by blast+
next
  fix r s'
  assume run: "Build env opts s = Some (r, s')" and r: "r = Inr ()"
  from tracesD[OF traces_Build run] r
  show "\<exists>pre post.
            events s s' = pre @ [(OnEngine (OCIDir (BuildArgs.Config opts)) GC, Succeeded)] @ post \<and>
            list_all is_cleanup post"
    unfolding final_gc_def by blast
qed

theorem Build_final_gc_returned_witness:
  "(\<exists>s' dc dd.
      Build (example_env_gc [''a'']) (example_opts ''tar'') world0 =
        Some (Inl (External ''gc''), s') \<and>
      events world0 s' =
        ([(Lib (NewStackerfile ''/w/stacker.yaml'' []), Succeeded),
          (Lib (NewStorage example_config), Succeeded),
          (OS (Stat ''/o''), Succeeded),
          (Lib (OpenLayout ''/o''), Succeeded),
          (Cache (OpenCache example_config ''/o''), Succeeded),
          (OS (Abs ''/w''), Succeeded),
          (Lib (GitVersion ''host''), Succeeded),
          (OS Hostname, Succeeded),
          (Storage (Delete ''.working''), Succeeded)] @
         [(Print (Building ''a''), Succeeded),
          (Print ImportingFiles, Succeeded),
          (Lib (Import example_config ''a'' []), Succeeded),
          (Cache (CacheLookup ''a''), Hit \<lparr>CacheEntry.Name = ''a'', Blob = example_desc\<rparr>),
          (OnEngine ''/o'' (UpdateReference ''a'' example_desc), Succeeded),
          (Print (FoundCached ''a''), Succeeded)]) @
        [(OnEngine ''/o'' GC, Failed (External ''gc'')),
         (Print (FinalGCFailed (External ''gc'')), Succeeded)] @
        [(OnEngine ''/o'' Close, dc), (Storage Detach, dd)]) \<and>
   (\<exists>s' dc dd.
      Build (example_env_hit [''a'']) (example_opts ''tar'') world0 = Some (Inr (), s') \<and>
      events world0 s' =
        ([(Lib (NewStackerfile ''/w/stacker.yaml'' []), Succeeded),
          (Lib (NewStorage example_config), Succeeded),
          (OS (Stat ''/o''), Succeeded),
          (Lib (OpenLayout ''/o''), Succeeded),
          (Cache (OpenCache example_config ''/o''), Succeeded),
          (OS (Abs ''/w''), Succeeded),
          (Lib (GitVersion ''host''), Succeeded),
          (OS Hostname, Succeeded),
          (Storage (Delete ''.working''), Succeeded)] @
         [(Print (Building ''a''), Succeeded),
          (Print ImportingFiles, Succeeded),
          (Lib (Import example_config ''a'' []), Succeeded),
          (Cache (CacheLookup ''a''), Hit \<lparr>CacheEntry.Name = ''a'', Blob = example_desc\<rparr>),
          (OnEngine ''/o'' (UpdateReference ''a'' example_desc), Succeeded),
          (Print (FoundCached ''a''), Succeeded)]) @
        [(OnEngine ''/o'' GC, Succeeded)] @
        [(OnEngine ''/o'' Close, dc), (Storage Detach, dd)])"
proof -
  let ?prep = "[(Lib (NewStackerfile ''/w/stacker.yaml'' []), Succeeded),
                    (Lib (NewStorage example_config), Succeeded),
                    (OS (Stat ''/o''), Succeeded),
                    (Lib (OpenLayout ''/o''), Succeeded),
                    (Cache (OpenCache example_config ''/o''), Succeeded),
                    (OS (Abs ''/w''), Succeeded),
                    (Lib (GitVersion ''host''), Succeeded),
                    (OS Hostname, Succeeded),
                    (Storage (Delete ''.working''), Succeeded)]"
  let ?loop = "[(Print (Building ''a''), Succeeded),
                    (Print ImportingFiles, Succeeded),
                    (Lib (Import example_config ''a'' []), Succeeded),
                    (Cache (CacheLookup ''a''), Hit \<lparr>CacheEntry.Name = ''a'', Blob = example_desc\<rparr>),
                    (OnEngine ''/o'' (UpdateReference ''a'' example_desc), Succeeded),
                    (Print (FoundCached ''a''), Succeeded)]"
  have d: "path_Dir ''/w/stacker.yaml'' = ''/w''" by code_simp
  have o: "OCIDir (BuildArgs.Config (example_opts ''tar'')) = ''/o''"
    and u: "\<not> LeaveUnladen (example_opts ''tar'')"
    by (simp_all add: example_opts_def example_config_def)
  have ev: "events world0 \<lparr>trace = ?prep @ ?loop, ext = ()\<rparr> = ?prep @ ?loop"
    by (simp add: events_def world0_def)
  have p1: "Build_prepare (example_env_gc [''a'']) (example_opts ''tar'') world0 =
      Some (Inr (example_sf [''a''], [''a''], ''me@host'', ''host''), \<lparr>trace = ?prep, ext = ()\<rparr>)"
    by (simp add: Build_prepare_def example_env_gc_def example_env_hit_def example_env_def
          example_opts_def example_config_def example_sf_def world0_def andThen_def attempt_def
          perform_def lift_def ret_def record_call_def d)
  have p2: "Build_prepare (example_env_hit [''a'']) (example_opts ''tar'') world0 =
      Some (Inr (example_sf [''a''], [''a''], ''me@host'', ''host''), \<lparr>trace = ?prep, ext = ()\<rparr>)"
    by (simp add: Build_prepare_def example_env_hit_def example_env_def
          example_opts_def example_config_def example_sf_def world0_def andThen_def attempt_def
          perform_def lift_def ret_def record_call_def d)
  have l1: "Build_layers (example_env_gc [''a'']) (example_opts ''tar'') (example_sf [''a''])
      (OCIDir (BuildArgs.Config (example_opts ''tar''))) ''me@host'' ''host'' [''a'']
      \<lparr>trace = ?prep, ext = ()\<rparr> = Some (Inr (), \<lparr>trace = ?prep @ ?loop, ext = ()\<rparr>)"
    by code_simp
  have l2: "Build_layers (example_env_hit [''a'']) (example_opts ''tar'') (example_sf [''a''])
      (OCIDir (BuildArgs.Config (example_opts ''tar''))) ''me@host'' ''host'' [''a'']
      \<lparr>trace = ?prep, ext = ()\<rparr> = Some (Inr (), \<lparr>trace = ?prep @ ?loop, ext = ()\<rparr>)"
    by code_simp
  have g1: "fst (do_unit (example_env_gc [''a'']) (OnEngine ''/o'' GC) ()) = Inl (External ''gc'')"
    by (simp add: example_env_gc_def)
  have g2: "fst (do_unit (example_env_hit [''a'']) (OnEngine ''/o'' GC) ()) = Inr ()"
    by (simp add: example_env_hit_def example_env_def)
  note a = Build_final_gc_returned[where env = "example_env_gc [''a'']"
      and opts = "example_opts ''tar''" and s = world0]
  note b = Build_final_gc_returned[where env = "example_env_hit [''a'']"
      and opts = "example_opts ''tar''" and s = world0]
  note a1 = a[THEN conjunct1, rule_format, OF p1 l1]
  from a1 have w1: "\<exists>s' dc dd.
      Build (example_env_gc [''a'']) (example_opts ''tar'') world0 =
        Some (Inl (External ''gc''), s') \<and>
      events world0 s' =
        (?prep @ ?loop) @
        [(OnEngine ''/o'' GC, Failed (External ''gc'')),
         (Print (FinalGCFailed (External ''gc'')), Succeeded)] @
        [(OnEngine ''/o'' Close, dc), (Storage Detach, dd)]"
    by (simp add: o g1 u events_def world0_def)
  note b1 = b[THEN conjunct1, rule_format, OF p2 l2]
  from b1 have w2: "\<exists>s' dc dd.
      Build (example_env_hit [''a'']) (example_opts ''tar'') world0 = Some (Inr (), s') \<and>
      events world0 s' =
        (?prep @ ?loop) @
        [(OnEngine ''/o'' GC, Succeeded)] @
        [(OnEngine ''/o'' Close, dc), (Storage Detach, dd)]"
    by (simp add: o g2 u events_def world0_def)
  from w1 w2 show ?thesis by blast
qed

text \<open>The claim as it was stated fails: every layer of the recipe is processed
  successfully (the layer is found in the cache), the final collection fails, its failure
  is printed, and \<open>Build\<close> returns the error.\<close>

theorem Build_returns_final_gc_error:
  "Build (example_env_gc [''a'']) (example_opts ''tar'') world0 =
   Some (Inl (External ''gc''),
     \<lparr>trace =
        [(Lib (NewStackerfile ''/w/stacker.yaml'' []), Succeeded),
        (Lib (NewStorage example_config), Succeeded),
        (OS (Stat ''/o''), Succeeded),
        (Lib (OpenLayout ''/o''), Succeeded),
        (Cache (OpenCache example_config ''/o''), Succeeded),
        (OS (Abs ''/w''), Succeeded),
        (Lib (GitVersion ''host''), Succeeded),
        (OS Hostname, Succeeded),
        (Storage (Delete ''.working''), Succeeded),
        (Print (Building ''a''), Succeeded),
        (Print ImportingFiles, Succeeded),
        (Lib (Import example_config ''a'' []), Succeeded),
        (Cache (CacheLookup ''a''), Hit \<lparr>CacheEntry.Name = ''a'', Blob =
           example_desc\<rparr>),
        (OnEngine ''/o'' (UpdateReference ''a'' example_desc), Succeeded),
        (Print (FoundCached ''a''), Succeeded),
        (OnEngine ''/o'' GC, Failed (External ''gc'')),
        (Print (FinalGCFailed (External ''gc'')), Succeeded),
        (OnEngine ''/o'' Close, Succeeded),
        (Storage Detach, Succeeded)],
      ext = ()\<rparr>)"
  by code_simp

subsection \<open>The layer type squashfs\<close>

text \<open>With a layer type other than \<open>tar\<close>, the rebuild of a layer that is not
  build-only always ends with an error and updates no reference; the rewrite of
  \<open>extractOutput\<close>, when it is reached and succeeds, puts a manifest with the single
  squashfs layer and a config whose only diff-ID is the digest of that layer, and moves
  the reference of the layer to it.\<close>

lemma never_built_generate:
  assumes "BuildArgs.LayerType opts \<noteq> ''tar''"
  shows "traces never_built (andThen (Build_generate env opts name) k)"
proof (rule tracesI)
  fix s r s'
  assume "andThen (Build_generate env opts name) k s = Some (r, s')"
  with assms show "\<exists>t. trace s' = trace s @ t \<and> never_built r t"
    by (auto simp: Build_generate_def andThen_def say_def fail_def record_call_def
          never_built_def no_update_def is_UpdateReference_def)
qed

lemma never_built_after:
  assumes "emits no_update m" and "\<And>a. traces never_built (k a)"
  shows "traces never_built (andThen m k)"
  by (rule traces_after[OF assms]) (auto simp: never_built_def)

lemma traces_Build_miss_never_built:
  assumes "\<not> BuildOnly l" and "BuildArgs.LayerType opts \<noteq> ''tar''"
  shows "traces never_built (Build_miss env opts sf l oci author gitVersion name)"
  unfolding Build_miss_def Let_def
  by (intro never_built_generate never_built_after traces_if emits_GetBaseLayer_no_update
        emits_intros;
      simp add: assms no_update_def is_UpdateReference_def Build_run_def emits_intros)

lemma Build_miss_unknown_layer_type:
  assumes "Build_miss env opts sf l oci author gitVersion name s = Some (r, s')"
    and "\<not> BuildOnly l" and "BuildArgs.LayerType opts \<noteq> ''tar''"
  shows "(\<exists>e. r = Inl e) \<and> list_all (\<lambda>ev. \<not> is_UpdateReference (fst ev)) (events s s')"
  using tracesD[OF traces_Build_miss_never_built[OF assms(2,3)] assms(1)]
  by (auto simp: never_built_def list_all_iff no_update_def)


lemma extractOutput_squashfs_writes:
  assumes run: "extractOutput_squashfs env bo s = Some (Inr (), s')"
  shows "\<exists>layerDigest layerSize manifest config desc.
      (OnEngine (OCI bo) (PutBlobJSON_Image config), Succeeded) \<in> set (events s s') \<and>
      DiffIDs config = [layerDigest] \<and>
      (OnEngine (OCI bo) (PutBlobJSON_Manifest manifest), Succeeded) \<in> set (events s s') \<and>
      Layers manifest =
        [\<lparr>MediaType = MediaTypeLayerSquashfs, Digest = layerDigest, Size = layerSize\<rparr>] \<and>
      (OnEngine (OCI bo) (UpdateReference (BaseLayerOpts.Name bo) desc), Succeeded)
        \<in> set (events s s') \<and>
      MediaType desc = MediaTypeImageManifest"
  using run
  unfolding extractOutput_squashfs_def Let_def updateBundleMtree_def updateBundleMtree_loop_find
  by (auto simp: andThen_def attempt_def perform_def wrapf_def deferred_def ret_def
        record_call_def events_def
        split: prod.splits sum.splits option.splits if_splits)

text \<open>
  C2. The claim is that for every layer that is not build-only and is built with
  \<open>layerType == squashfs\<close>, the output OCI reference named after the layer resolves to
  a manifest with exactly one layer, of media type
  \<open>application/vnd.oci.image.layer.squashfs\<close>, and that the \<open>RootFS.DiffIDs\<close> of the
  image config is the one-element list of that layer blob's digest. \<open>Build\<close> does not
  get there: it leaves \<open>LayerType\<close> empty in the options it hands to the base-layer
  importer, so the squashfs rewrite of \<open>extractOutput\<close> is skipped, and its own
  \<open>switch\<close> on the layer type knows \<open>tar\<close> only. On a recipe with the one registry
  layer \<open>a\<close> and the layer type \<open>squashfs\<close>, \<open>Build\<close> returns the error
  \<open>unknown layer type: squashfs\<close>, and no blob and no reference has been written for
  \<open>a\<close>.
\<close>

theorem Build_squashfs_unknown_layer_type:
  "Build (example_env [''a'']) (example_opts ''squashfs'') world0 =
   Some (Inl (UnknownLayerType ''squashfs''),
     \<lparr>trace =
        [(Lib (NewStackerfile ''/w/stacker.yaml'' []), Succeeded),
        (Lib (NewStorage example_config), Succeeded),
        (OS (Stat ''/o''), Succeeded),
        (Lib (OpenLayout ''/o''), Succeeded),
        (Cache (OpenCache example_config ''/o''), Succeeded),
        (OS (Abs ''/w''), Succeeded),
        (Lib (GitVersion ''host''), Succeeded),
        (OS Hostname, Succeeded),
        (Storage (Delete ''.working''), Succeeded),
        (Print (Building ''a''), Succeeded),
        (Print ImportingFiles, Succeeded),
        (Lib (Import example_config ''a'' []), Succeeded),
        (Cache (CacheLookup ''a''), Miss),
        (Storage (Delete ''.working''), Succeeded),
        (Storage (Create ''.working''), Succeeded),
        (OnEngine ''/o'' (DeleteReference ''a''), Succeeded),
        (OS (MkdirAll ''/s/layer-bases/oci''), Succeeded),
        (Lib (ImageCopy \<lparr>Src = ''docker://docker.io/library/centos:latest'', Dest =
           ''oci:/s/layer-bases/oci:centos'', SkipTLS = False\<rparr>), Succeeded),
        (Lib (OpenLayout ''/s/layer-bases/oci''), Succeeded),
        (OnEngine ''/s/layer-bases/oci'' GC, Succeeded),
        (OnEngine ''/s/layer-bases/oci'' Close, Succeeded),
        (Print (UnpackingTo ''/r/.working''), Succeeded),
        (OS (Readlink ''/proc/self/exe''), Succeeded),
        (Lib (MaybeRunInUserns [''host'', ''--oci-dir'', ''/s/layer-bases/oci'', ''--roots-dir'',
           ''/r'', ''--stacker-dir'', ''/s'', ''umoci'', ''--bundle-path'', ''/r/.working'',
           ''--tag'', ''centos'', ''unpack''] ''image unpack failed''), Succeeded),
        (OnEngine ''/o'' (DeleteReference ''centos''), Succeeded),
        (Lib (NewApply (example_os ''a'' example_layer []) False), Succeeded),
        (Lib DoApply, Succeeded),
        (Print RunningCommands, Succeeded),
        (Print GeneratingLayer, Succeeded),
        (OnEngine ''/o'' Close, Succeeded),
        (Storage Detach, Succeeded)],
      ext = ()\<rparr>)"
  by code_simp

end
